theory Spec2Isabelle
  imports Main
begin

section \<open>Python values\<close>

text \<open>
  The repository holds two scripts, \<^verbatim>\<open>start-test-server.py\<close> (the mock API server, class
  \<^verbatim>\<open>GeolocationTestHandler\<close>) and \<^verbatim>\<open>serve-web.py\<close> (the static web server, class
  \<^verbatim>\<open>FlutterWebHandler\<close>). Both subclass \<^verbatim>\<open>http.server.SimpleHTTPRequestHandler\<close>.

  A \<^verbatim>\<open>bytes\<close> object is a list of 8-bit characters. A \<^verbatim>\<open>str\<close> object is a list of Unicode
  code points. Strings that reach the handler through the request line and the request
  headers were decoded as ISO-8859-1 by the library, so every one of their characters is
  below 256 and they are kept as \<open>string\<close>.
\<close>

type_synonym bytes = string
type_synonym ustr = "nat list"

text \<open>A string literal of the source, as a \<^verbatim>\<open>str\<close>.\<close>

definition ustr_of :: "string \<Rightarrow> ustr" where
  "ustr_of s = map of_char s"

text \<open>
  The exceptions that the modelled code can raise. \<open>JSONDecodeError\<close> and
  \<open>UnicodeDecodeError\<close> are subclasses of \<open>ValueError\<close> in Python, but an
  \<^verbatim>\<open>except json.JSONDecodeError\<close> clause catches the first only.
\<close>

datatype exn =
    TypeError
  | ValueError
  | UnicodeDecodeError
  | JSONDecodeError
  | RecursionError
  | OverflowError
  | MemoryError
  | FileNotFoundError
  | OSError
  | OtherError string

text \<open>\<^verbatim>\<open>str(n)\<close> for an integer: its decimal digits, with a minus sign when negative.\<close>

definition digit_char :: "nat \<Rightarrow> char" where
  "digit_char d = ''0123456789'' ! d"

fun str_nat :: "nat \<Rightarrow> string" where
  "str_nat n =
     (if n < 10 then [digit_char n]
      else str_nat (n div 10) @ [digit_char (n mod 10)])"

definition str_int :: "int \<Rightarrow> string" where
  "str_int i = (if i < 0 then CHR ''-'' # str_nat (nat (- i)) else str_nat (nat i))"

text \<open>
  \<^verbatim>\<open>str.lower()\<close> on a string of characters below 256: the letters A-Z and the
  accented capitals 0xC0-0xDE (but not the multiplication sign 0xD7) move up by 32.
\<close>

definition chr_lower :: "char \<Rightarrow> char" where
  "chr_lower c =
     (let n = (of_char c :: nat) in
      if (65 \<le> n \<and> n \<le> 90) \<or> (192 \<le> n \<and> n \<le> 222 \<and> n \<noteq> 215)
      then char_of (n + 32) else c)"

definition str_lower :: "string \<Rightarrow> string" where
  "str_lower s = map chr_lower s"

text \<open>\<^verbatim>\<open>s.endswith(suffix)\<close>.\<close>

definition endswith :: "string \<Rightarrow> string \<Rightarrow> bool" where
  "endswith s suf =
     (length suf \<le> length s \<and> drop (length s - length suf) s = suf)"

text \<open>
  \<^verbatim>\<open>a, b = s\<close> for a string \<open>s\<close>: unpacking iterates over the characters and raises
  \<open>ValueError\<close> unless there are exactly two of them.
\<close>

fun unpack2 :: "string \<Rightarrow> exn + (string \<times> string)" where
  "unpack2 [a, b] = Inr ([a], [b])"
| "unpack2 _ = Inl ValueError"

subsection \<open>UTF-8\<close>

text \<open>
  \<^verbatim>\<open>data.decode('utf-8')\<close> with the default strict error handling: \<open>None\<close> stands for
  \<open>UnicodeDecodeError\<close>. Overlong forms, surrogates and values above 0x10FFFF are
  rejected, as are stray and missing continuation bytes.
\<close>

definition is_cont :: "char \<Rightarrow> bool" where
  "is_cont c = (128 \<le> (of_char c :: nat) \<and> (of_char c :: nat) \<le> 191)"

definition cont_bits :: "char \<Rightarrow> nat" where
  "cont_bits c = of_char c - 128"

fun utf8_decode :: "bytes \<Rightarrow> ustr option" where
  "utf8_decode [] = Some []"
| "utf8_decode (c # cs) =
     (let b = (of_char c :: nat) in
      if b < 128 then map_option ((#) b) (utf8_decode cs)
      else if 194 \<le> b \<and> b \<le> 223 then
        (case cs of
           c1 # r \<Rightarrow>
             if is_cont c1
             then map_option ((#) ((b - 192) * 64 + cont_bits c1)) (utf8_decode r)
             else None
         | _ \<Rightarrow> None)
      else if 224 \<le> b \<and> b \<le> 239 then
        (case cs of
           c1 # c2 # r \<Rightarrow>
             (let cp = (b - 224) * 4096 + cont_bits c1 * 64 + cont_bits c2 in
              if is_cont c1 \<and> is_cont c2 \<and> 2048 \<le> cp \<and> \<not> (55296 \<le> cp \<and> cp \<le> 57343)
              then map_option ((#) cp) (utf8_decode r)
              else None)
         | _ \<Rightarrow> None)
      else if 240 \<le> b \<and> b \<le> 244 then
        (case cs of
           c1 # c2 # c3 # r \<Rightarrow>
             (let cp = (b - 240) * 262144 + cont_bits c1 * 4096 + cont_bits c2 * 64
                       + cont_bits c3 in
              if is_cont c1 \<and> is_cont c2 \<and> is_cont c3 \<and> 65536 \<le> cp \<and> cp \<le> 1114111
              then map_option ((#) cp) (utf8_decode r)
              else None)
         | _ \<Rightarrow> None)
      else None)"

text \<open>
  \<^verbatim>\<open>text.encode()\<close>: UTF-8. The texts the handlers encode come from \<^verbatim>\<open>json.dumps\<close>
  (ASCII only, since \<^verbatim>\<open>ensure_ascii\<close> is left at its default) and from a file read in
  text mode (no lone surrogates), so the strict encoder's error branch is never taken and
  the function is written total.
\<close>

definition encode_cp :: "nat \<Rightarrow> bytes" where
  "encode_cp cp =
     (if cp < 128 then [char_of cp]
      else if cp < 2048 then [char_of (192 + cp div 64), char_of (128 + cp mod 64)]
      else if cp < 65536 then
        [char_of (224 + cp div 4096), char_of (128 + cp div 64 mod 64),
         char_of (128 + cp mod 64)]
      else
        [char_of (240 + cp div 262144), char_of (128 + cp div 4096 mod 64),
         char_of (128 + cp div 64 mod 64), char_of (128 + cp mod 64)])"

definition utf8_encode :: "ustr \<Rightarrow> bytes" where
  "utf8_encode s = concat (map encode_cp s)"

subsection \<open>JSON values and request headers\<close>

text \<open>
  What \<^verbatim>\<open>json.loads\<close> returns and \<^verbatim>\<open>json.dumps\<close> takes. A \<^verbatim>\<open>dict\<close> keeps its keys
  in insertion order, so it is an association list. A float is identified by its
  \<^verbatim>\<open>repr\<close>, the text that \<^verbatim>\<open>json.dumps\<close> emits for it; nothing below computes with
  floats.
\<close>

datatype json =
    JNull
  | JBool bool
  | JInt int
  | JFloat string
  | JStr ustr
  | JList "json list"
  | JDict "(ustr \<times> json) list"

text \<open>
  \<^verbatim>\<open>self.headers[name]\<close>: the value of the first header whose name matches without
  regard to case, or \<open>None\<close> when there is none.
\<close>

fun headers_get :: "(string \<times> string) list \<Rightarrow> string \<Rightarrow> string option" where
  "headers_get [] name = None"
| "headers_get ((k, v) # kvs) name =
     (if str_lower k = str_lower name then Some v else headers_get kvs name)"

section \<open>The environment: library functions, clock and file system\<close>

text \<open>
  Everything the two scripts take from the Python standard library and from the
  operating system is a field of \<open>env\<close>; the theorems hold for every value of it.
  \<^item> \<open>urlparse_path p\<close> is \<^verbatim>\<open>urlparse(p).path\<close>, or the exception \<^verbatim>\<open>urlparse\<close> raises, and
    \<open>urlsplit_path p\<close> the same for \<^verbatim>\<open>urlsplit\<close>;
  \<^item> \<open>py_int s\<close> is \<^verbatim>\<open>int(s)\<close> for a string, \<open>None\<close> for its \<open>ValueError\<close>;
  \<^item> \<open>json_loads\<close> and \<open>json_dumps indent\<close> are \<^verbatim>\<open>json.loads\<close> and \<^verbatim>\<open>json.dumps\<close>,
    each with the exception it raises: besides \<open>JSONDecodeError\<close> for a text that is
    not JSON, both raise \<open>RecursionError\<close> on a value nested more deeply than the
    interpreter's stack allows;
  \<^item> \<open>maxsize\<close> is \<^verbatim>\<open>sys.maxsize\<close>, and \<open>alloc_error n\<close> is the exception, \<open>MemoryError\<close>
    or \<open>OverflowError\<close>, that the buffered reader raises when it cannot make a buffer
    of \<open>n\<close> bytes;
  \<^item> \<open>unix_time\<close> is \<^verbatim>\<open>int(datetime.now().timestamp())\<close> and \<open>now_isoformat\<close> is
    \<^verbatim>\<open>datetime.now().isoformat()\<close>;
  \<^item> \<open>read_text name\<close> is \<^verbatim>\<open>open(name, 'r')\<close> followed by \<^verbatim>\<open>read()\<close>, relative to the
    working directory of the process;
  \<^item> the remaining fields are what \<^verbatim>\<open>http.server\<close> consults: its version and date
    strings, the reason phrases and error pages of \<^verbatim>\<open>send_error\<close>, \<^verbatim>\<open>repr\<close> of a
    string, the MIME type that the library's \<^verbatim>\<open>guess_type\<close> finds for a path, and the
    view of the file system that \<^verbatim>\<open>SimpleHTTPRequestHandler.send_head\<close> takes: the
    local path of a request path, whether it is a directory or a file, the file behind
    it with its length and modification date, whether the request's
    \<^verbatim>\<open>If-Modified-Since\<close> makes the reply a 304, and the listing page of a directory
    (\<open>None\<close> when it cannot be listed).
\<close>

record served_file =
  file_data :: bytes
  file_len :: nat
  file_mtime :: string

record env =
  urlparse_path :: "string \<Rightarrow> exn + string"
  py_int :: "string \<Rightarrow> int option"
  json_loads :: "ustr \<Rightarrow> exn + json"
  json_dumps :: "nat option \<Rightarrow> json \<Rightarrow> exn + ustr"
  maxsize :: int
  alloc_error :: "nat \<Rightarrow> exn option"
  unix_time :: int
  now_isoformat :: string
  read_text :: "string \<Rightarrow> exn + ustr"
  version_string :: string
  date_time_string :: string
  reason_phrase :: "nat \<Rightarrow> string"
  error_page :: "nat \<Rightarrow> string \<Rightarrow> bytes"
  translate_path :: "string \<Rightarrow> string \<Rightarrow> string"
  urlsplit_path :: "string \<Rightarrow> exn + string"
  redirect_url :: "string \<Rightarrow> string"
  isdir :: "string \<Rightarrow> bool"
  isfile :: "string \<Rightarrow> bool"
  open_rb :: "string \<Rightarrow> served_file option"
  not_modified :: "(string \<times> string) list \<Rightarrow> served_file \<Rightarrow> bool"
  listdir_page :: "string \<Rightarrow> string \<Rightarrow> bytes option"
  filesystem_encoding :: string
  mimetypes_guess :: "string \<Rightarrow> string"
  repr_str :: "string \<Rightarrow> string"

section \<open>The library's request handler\<close>

text \<open>
  The state of one handler object. \<open>rfile\<close> holds the bytes of the request that follow
  the headers. \<open>headers_buffer\<close> is \<^verbatim>\<open>_headers_buffer\<close>; \<open>wfile\<close> is what has been
  written to the client, one element per \<^verbatim>\<open>write\<close> call: a flushed header block, kept as
  its lines, or a body.

  \<open>request_version\<close> is the version that \<^verbatim>\<open>parse_request\<close> read from the request line.
  It is \<^verbatim>\<open>HTTP/0.9\<close>, the library's \<^verbatim>\<open>default_request_version\<close>, for a request line
  that names no version, for one that names \<^verbatim>\<open>HTTP/0.9\<close>, and while a request line is
  being rejected. For that version \<^verbatim>\<open>send_response_only\<close>, \<^verbatim>\<open>send_header\<close> and
  \<^verbatim>\<open>end_headers\<close> leave the buffer and the output alone. Logging to standard error is
  left out.
\<close>

datatype hline = StatusLine nat string | Header string string | Blank

datatype chunk = Head "hline list" | Body bytes

record handler =
  command :: string
  path :: string
  request_version :: string
  headers :: "(string \<times> string) list"
  rfile :: bytes
  directory :: string
  headers_buffer :: "hline list"
  wfile :: "chunk list"
  close_connection :: bool

text \<open>
  A method that may raise returns the exception, if any, and the state at that point.
\<close>

type_synonym outcome = "exn option \<times> handler"

definition wfile_write :: "bytes \<Rightarrow> handler \<Rightarrow> handler" where
  "wfile_write b h = h\<lparr>wfile := wfile h @ [Body b]\<rparr>"

definition send_response_only :: "env \<Rightarrow> nat \<Rightarrow> string option \<Rightarrow> handler \<Rightarrow> handler" where
  "send_response_only e code message h =
     (if request_version h \<noteq> ''HTTP/0.9'' then
        h\<lparr>headers_buffer := headers_buffer h @
           [StatusLine code (case message of None \<Rightarrow> reason_phrase e code | Some m \<Rightarrow> m)]\<rparr>
      else h)"

definition send_header :: "string \<Rightarrow> string \<Rightarrow> handler \<Rightarrow> handler" where
  "send_header keyword v h =
     h\<lparr>headers_buffer :=
         (if request_version h \<noteq> ''HTTP/0.9'' then headers_buffer h @ [Header keyword v]
          else headers_buffer h),
       close_connection :=
         (if str_lower keyword = ''connection'' then
            (if str_lower v = ''close'' then True
             else if str_lower v = ''keep-alive'' then False
             else close_connection h)
          else close_connection h)\<rparr>"

definition send_response :: "env \<Rightarrow> nat \<Rightarrow> string option \<Rightarrow> handler \<Rightarrow> handler" where
  "send_response e code message h =
     send_header ''Date'' (date_time_string e)
       (send_header ''Server'' (version_string e)
          (send_response_only e code message h))"

definition flush_headers :: "handler \<Rightarrow> handler" where
  "flush_headers h = h\<lparr>wfile := wfile h @ [Head (headers_buffer h)], headers_buffer := []\<rparr>"

text \<open>\<^verbatim>\<open>BaseHTTPRequestHandler.end_headers\<close>, which both subclasses call through \<^verbatim>\<open>super()\<close>.\<close>

definition Base_end_headers :: "handler \<Rightarrow> handler" where
  "Base_end_headers h =
     (if request_version h \<noteq> ''HTTP/0.9''
      then flush_headers (h\<lparr>headers_buffer := headers_buffer h @ [Blank]\<rparr>)
      else h)"

text \<open>
  The handler at the moment \<^verbatim>\<open>parse_request\<close> rejects a request line (a bad version, a
  wrong number of words): \<^verbatim>\<open>command\<close> is \<^verbatim>\<open>None\<close>, kept here as the empty string,
  nothing has been read but the request line, and \<^verbatim>\<open>request_version\<close> still holds the
  default. The library then calls \<^verbatim>\<open>send_error\<close> on it.
\<close>

definition rejected_request_line :: "string \<Rightarrow> handler" where
  "rejected_request_line cwd =
     \<lparr>command = [], path = [], request_version = ''HTTP/0.9'', headers = [], rfile = [],
      directory = cwd, headers_buffer = [], wfile = [], close_connection = True\<rparr>"

text \<open>
  \<^verbatim>\<open>send_error(code, message)\<close>. It calls \<^verbatim>\<open>self.end_headers()\<close>, so the subclass's
  override is a parameter \<open>eh\<close>. The body is left out for the codes 204, 205, 304 and
  those below 200, and is not written in reply to HEAD.
\<close>

definition send_error :: "(handler \<Rightarrow> handler) \<Rightarrow> env \<Rightarrow> nat \<Rightarrow> string \<Rightarrow> handler \<Rightarrow> handler" where
  "send_error eh e code message h =
     (let h1 = send_header ''Connection'' ''close'' (send_response e code (Some message) h) in
      if 200 \<le> code \<and> code \<notin> {204, 205, 304} then
        (let b = error_page e code message;
             h2 = send_header ''Content-Length'' (str_nat (length b))
                    (send_header ''Content-Type'' ''text/html;charset=utf-8'' h1);
             h3 = eh h2
         in if command h \<noteq> ''HEAD'' \<and> b \<noteq> [] then wfile_write b h3 else h3)
      else eh h1)"

text \<open>
  \<^verbatim>\<open>SimpleHTTPRequestHandler.guess_type\<close>: it returns one string, the MIME type. The
  lookup in \<^verbatim>\<open>extensions_map\<close> and \<^verbatim>\<open>mimetypes\<close> is the field \<open>mimetypes_guess\<close>.
\<close>

definition Simple_guess_type :: "env \<Rightarrow> string \<Rightarrow> string" where
  "Simple_guess_type e p = mimetypes_guess e p"

text \<open>
  \<^verbatim>\<open>SimpleHTTPRequestHandler.list_directory\<close>: a 404 when the directory cannot be
  listed, else the listing as an HTML page.
\<close>

definition list_directory ::
  "(handler \<Rightarrow> handler) \<Rightarrow> env \<Rightarrow> string \<Rightarrow> handler \<Rightarrow> handler \<times> bytes option" where
  "list_directory eh e p h =
     (case listdir_page e p (path h) of
        None \<Rightarrow> (send_error eh e 404 ''No permission to list directory'' h, None)
      | Some page \<Rightarrow>
          (eh (send_header ''Content-Length'' (str_nat (length page))
                 (send_header ''Content-type'' (''text/html; charset='' @ filesystem_encoding e)
                    (send_response e 200 None h))),
           Some page))"

text \<open>
  The second half of \<^verbatim>\<open>send_head\<close>, from \<^verbatim>\<open>ctype = self.guess_type(path)\<close> on. The call
  goes to the subclass's method \<open>gt\<close>, which may raise, and comes before the file is
  opened.
\<close>

definition send_file_head ::
  "(handler \<Rightarrow> handler) \<Rightarrow> (string \<Rightarrow> exn + string) \<Rightarrow> env \<Rightarrow> string \<Rightarrow> handler
     \<Rightarrow> outcome \<times> bytes option" where
  "send_file_head eh gt e p h =
     (case gt p of
        Inl x \<Rightarrow> ((Some x, h), None)
      | Inr ctype \<Rightarrow>
          if endswith p ''/'' then ((None, send_error eh e 404 ''File not found'' h), None)
          else
            (case open_rb e p of
               None \<Rightarrow> ((None, send_error eh e 404 ''File not found'' h), None)
             | Some f \<Rightarrow>
                 if not_modified e (headers h) f
                 then ((None, eh (send_response e 304 None h)), None)
                 else
                   ((None,
                     eh (send_header ''Last-Modified'' (file_mtime f)
                          (send_header ''Content-Length'' (str_nat (file_len f))
                             (send_header ''Content-type'' ctype
                                (send_response e 200 None h))))),
                    Some (file_data f))))"

definition path_join :: "string \<Rightarrow> string \<Rightarrow> string" where
  "path_join a b = (if a = [] \<or> last a = CHR ''/'' then a @ b else a @ ''/'' @ b)"

text \<open>
  \<^verbatim>\<open>SimpleHTTPRequestHandler.send_head\<close>: a directory without a trailing slash is
  redirected, a directory with an index page serves that page, any other directory is
  listed, and everything else is served as a file.
\<close>

definition send_head ::
  "(handler \<Rightarrow> handler) \<Rightarrow> (string \<Rightarrow> exn + string) \<Rightarrow> env \<Rightarrow> handler
     \<Rightarrow> outcome \<times> bytes option" where
  "send_head eh gt e h =
     (let p = translate_path e (directory h) (path h) in
      if isdir e p then
        (case urlsplit_path e (path h) of
           Inl x \<Rightarrow> ((Some x, h), None)
         | Inr parts_path \<Rightarrow>
             if \<not> endswith parts_path ''/'' then
               ((None,
                 eh (send_header ''Content-Length'' ''0''
                      (send_header ''Location'' (redirect_url e (path h))
                         (send_response e 301 None h)))),
                None)
             else if isfile e (path_join p ''index.html'')
               then send_file_head eh gt e (path_join p ''index.html'') h
             else if isfile e (path_join p ''index.htm'')
               then send_file_head eh gt e (path_join p ''index.htm'') h
             else (case list_directory eh e p h of (h', f) \<Rightarrow> ((None, h'), f)))
      else send_file_head eh gt e p h)"

text \<open>\<^verbatim>\<open>SimpleHTTPRequestHandler.do_GET\<close> and \<^verbatim>\<open>do_HEAD\<close>.\<close>

definition Simple_do_GET ::
  "(handler \<Rightarrow> handler) \<Rightarrow> (string \<Rightarrow> exn + string) \<Rightarrow> env \<Rightarrow> handler \<Rightarrow> outcome" where
  "Simple_do_GET eh gt e h =
     (case send_head eh gt e h of
        ((x, h'), Some f) \<Rightarrow> (x, wfile_write f h')
      | ((x, h'), None) \<Rightarrow> (x, h'))"

definition Simple_do_HEAD ::
  "(handler \<Rightarrow> handler) \<Rightarrow> (string \<Rightarrow> exn + string) \<Rightarrow> env \<Rightarrow> handler \<Rightarrow> outcome" where
  "Simple_do_HEAD eh gt e h = fst (send_head eh gt e h)"

section \<open>The mock API server: \<^verbatim>\<open>start-test-server.py\<close>\<close>

text \<open>
  \<^verbatim>\<open>GeolocationTestHandler.end_headers\<close>: three \<^verbatim>\<open>send_header\<close> calls, then the
  library's \<^verbatim>\<open>end_headers\<close>.
\<close>

definition GeolocationTestHandler_end_headers :: "handler \<Rightarrow> handler" where
  "GeolocationTestHandler_end_headers h =
     Base_end_headers
       (send_header ''Access-Control-Allow-Headers'' ''Content-Type''
          (send_header ''Access-Control-Allow-Methods'' ''GET, POST, OPTIONS''
             (send_header ''Access-Control-Allow-Origin'' ''*'' h)))"

text \<open>
  \<^verbatim>\<open>send_json_response\<close>. Its first statement is the call of \<^verbatim>\<open>json.dumps\<close>, which
  may raise; nothing has been sent by then. \<^verbatim>\<open>len(response)\<close> is passed to
  \<^verbatim>\<open>send_header\<close> as an integer and formatted there with \<^verbatim>\<open>%s\<close>.
\<close>

definition send_json_response :: "env \<Rightarrow> json \<Rightarrow> handler \<Rightarrow> outcome" where
  "send_json_response e data h =
     (case json_dumps e (Some 2) data of
        Inl x \<Rightarrow> (Some x, h)
      | Inr response \<Rightarrow>
          (None,
           wfile_write (utf8_encode response)
             (GeolocationTestHandler_end_headers
                (send_header ''Content-Length'' (str_nat (length response))
                   (send_header ''Access-Control-Allow-Origin'' ''*''
                      (send_header ''Content-Type'' ''application/json''
                         (send_response e 200 None h)))))))"

definition send_error_response :: "env \<Rightarrow> ustr \<Rightarrow> handler \<Rightarrow> outcome" where
  "send_error_response e message h =
     (case json_dumps e None (JDict [(ustr_of ''error'', JStr message)]) of
        Inl x \<Rightarrow> (Some x, h)
      | Inr response \<Rightarrow>
          (None,
           wfile_write (utf8_encode response)
             (GeolocationTestHandler_end_headers
                (send_header ''Access-Control-Allow-Origin'' ''*''
                   (send_header ''Content-Type'' ''application/json''
                      (send_response e 400 None h))))))"

text \<open>
  \<^verbatim>\<open>serve_test_interface\<close>: only \<open>FileNotFoundError\<close> is caught; any other exception of
  \<^verbatim>\<open>open\<close> or \<^verbatim>\<open>read\<close> leaves the method before anything is sent.
\<close>

definition serve_test_interface :: "env \<Rightarrow> handler \<Rightarrow> outcome" where
  "serve_test_interface e h =
     (case read_text e ''geolocation-test-server.html'' of
        Inr content \<Rightarrow>
          (None,
           wfile_write (utf8_encode content)
             (GeolocationTestHandler_end_headers
                (send_header ''Content-Length'' (str_nat (length content))
                   (send_header ''Content-Type'' ''text/html''
                      (send_response e 200 None h)))))
      | Inl x \<Rightarrow>
          if x = FileNotFoundError
          then (None,
                send_error GeolocationTestHandler_end_headers e 404
                  ''Test interface not found'' h)
          else (Some x, h))"

definition weather_data :: "env \<Rightarrow> json" where
  "weather_data e = JDict
     [(ustr_of ''temperature'', JFloat ''72.5''),
      (ustr_of ''temperatureCelsius'', JFloat ''22.5''),
      (ustr_of ''condition'', JStr (ustr_of ''Clear'')),
      (ustr_of ''description'', JStr (ustr_of ''Clear sky with light breeze'')),
      (ustr_of ''humidity'', JInt 65),
      (ustr_of ''windSpeed'', JFloat ''8.5''),
      (ustr_of ''windDirection'', JStr (ustr_of ''NW'')),
      (ustr_of ''pressure'', JInt 1013),
      (ustr_of ''visibility'', JInt 10),
      (ustr_of ''feelsLike'', JFloat ''70.2''),
      (ustr_of ''uvIndex'', JInt 5),
      (ustr_of ''sunrise'', JStr (ustr_of ''06:45'')),
      (ustr_of ''sunset'', JStr (ustr_of ''19:30'')),
      (ustr_of ''timestamp'', JStr (ustr_of (now_isoformat e)))]"

definition serve_mock_weather :: "env \<Rightarrow> handler \<Rightarrow> outcome" where
  "serve_mock_weather e h = send_json_response e (weather_data e) h"

definition location_data :: "env \<Rightarrow> json" where
  "location_data e = JDict
     [(ustr_of ''verified'', JBool True),
      (ustr_of ''address'', JStr (ustr_of ''1234 Farm Road, Ames, IA 50011'')),
      (ustr_of ''locationType'', JStr (ustr_of ''Agricultural Facility'')),
      (ustr_of ''nearbyLandmarks'', JList
         [JStr (ustr_of ''Iowa State University Farm''),
          JStr (ustr_of ''Agricultural Research Station''),
          JStr (ustr_of ''FFA Training Center'')]),
      (ustr_of ''timestamp'', JStr (ustr_of (now_isoformat e)))]"

definition serve_mock_location :: "env \<Rightarrow> handler \<Rightarrow> outcome" where
  "serve_mock_location e h = send_json_response e (location_data e) h"

definition journal_status :: "env \<Rightarrow> json" where
  "journal_status e = JDict
     [(ustr_of ''system'', JStr (ustr_of ''operational'')),
      (ustr_of ''database'', JStr (ustr_of ''connected'')),
      (ustr_of ''n8n'', JStr (ustr_of ''ready'')),
      (ustr_of ''supabase'', JStr (ustr_of ''connected'')),
      (ustr_of ''entriesCount'', JInt 42),
      (ustr_of ''lastEntry'', JStr (ustr_of (now_isoformat e)))]"

definition serve_journal_status :: "env \<Rightarrow> handler \<Rightarrow> outcome" where
  "serve_journal_status e h = send_json_response e (journal_status e) h"

text \<open>
  \<^verbatim>\<open>do_GET\<close>. The comparison is on \<^verbatim>\<open>urlparse(self.path).path\<close>. The last branch is
  \<^verbatim>\<open>super().do_GET()\<close>, run on this object: its \<^verbatim>\<open>end_headers\<close> is the override above
  and its \<^verbatim>\<open>guess_type\<close> is the library's.
\<close>

definition do_GET :: "env \<Rightarrow> handler \<Rightarrow> outcome" where
  "do_GET e h =
     (case urlparse_path e (path h) of
        Inl x \<Rightarrow> (Some x, h)
      | Inr parsed_path \<Rightarrow>
          if parsed_path = ''/'' \<or> parsed_path = ''/test'' then serve_test_interface e h
          else if parsed_path = ''/api/weather'' then serve_mock_weather e h
          else if parsed_path = ''/api/location'' then serve_mock_location e h
          else if parsed_path = ''/api/journal'' then serve_journal_status e h
          else Simple_do_GET GeolocationTestHandler_end_headers
                 (\<lambda>p. Inr (Simple_guess_type e p)) e h)"

text \<open>
  \<^verbatim>\<open>self.rfile.read(n)\<close> on the buffered reader of the connection. A count that does not
  fit the index type is an \<open>OverflowError\<close>, any other count below \<open>-1\<close> a
  \<open>ValueError\<close>, and \<open>-1\<close> reads everything. For any other count the reader first
  makes a buffer of that many bytes, which fails with \<open>MemoryError\<close> or
  \<open>OverflowError\<close> when the count is too large, and then returns \<open>n\<close> bytes (fewer when
  the client sent fewer and closed).
\<close>

definition rfile_read :: "env \<Rightarrow> int \<Rightarrow> handler \<Rightarrow> exn + (bytes \<times> handler)" where
  "rfile_read e n h =
     (if maxsize e < n \<or> n < - maxsize e - 1 then Inl OverflowError
      else if n < - 1 then Inl ValueError
      else if n = - 1 then Inr (rfile h, h\<lparr>rfile := []\<rparr>)
      else
        (case alloc_error e (nat n) of
           Some x \<Rightarrow> Inl x
         | None \<Rightarrow> Inr (take (nat n) (rfile h), h\<lparr>rfile := drop (nat n) (rfile h)\<rparr>)))"

definition journal_response :: "env \<Rightarrow> json \<Rightarrow> json" where
  "journal_response e journal_data = JDict
     [(ustr_of ''success'', JBool True),
      (ustr_of ''id'', JStr (ustr_of (''journal_'' @ str_int (unix_time e)))),
      (ustr_of ''message'', JStr (ustr_of ''Journal entry created successfully'')),
      (ustr_of ''data'', journal_data)]"

text \<open>
  \<^verbatim>\<open>do_POST\<close>. The comparison is on \<^verbatim>\<open>self.path\<close> itself. \<^verbatim>\<open>int(None)\<close> is a
  \<open>TypeError\<close>. The header lookup, \<^verbatim>\<open>int\<close> and \<^verbatim>\<open>read\<close> stand before the \<^verbatim>\<open>try\<close>. The
  \<^verbatim>\<open>try\<close> block holds the decoding, \<^verbatim>\<open>json.loads\<close> and the call of
  \<^verbatim>\<open>send_json_response\<close>; its \<^verbatim>\<open>except\<close> clause names \<^verbatim>\<open>json.JSONDecodeError\<close> only, and
  every other exception leaves the method. There is no \<^verbatim>\<open>else\<close> branch.
\<close>

definition do_POST :: "env \<Rightarrow> handler \<Rightarrow> outcome" where
  "do_POST e h =
     (if path h = ''/api/journal/create'' then
        (case headers_get (headers h) ''Content-Length'' of
           None \<Rightarrow> (Some TypeError, h)
         | Some v \<Rightarrow>
             (case py_int e v of
                None \<Rightarrow> (Some ValueError, h)
              | Some content_length \<Rightarrow>
                  (case rfile_read e content_length h of
                     Inl x \<Rightarrow> (Some x, h)
                   | Inr (post_data, h1) \<Rightarrow>
                       (case
                          (case utf8_decode post_data of
                             None \<Rightarrow> (Some UnicodeDecodeError, h1)
                           | Some text \<Rightarrow>
                               (case json_loads e text of
                                  Inl x \<Rightarrow> (Some x, h1)
                                | Inr journal_data \<Rightarrow>
                                    send_json_response e (journal_response e journal_data) h1))
                        of
                          (None, h2) \<Rightarrow> (None, h2)
                        | (Some x, h2) \<Rightarrow>
                            if x = JSONDecodeError
                            then send_error_response e (ustr_of ''Invalid JSON data'') h2
                            else (Some x, h2)))))
      else (None, h))"

text \<open>
  The library's dispatch in \<^verbatim>\<open>handle_one_request\<close>, after the request line and headers
  have been parsed: the method \<^verbatim>\<open>do_\<close> + command when the class has one, else a 501.
  \<^verbatim>\<open>do_HEAD\<close> is inherited.
\<close>

definition unsupported_method :: "env \<Rightarrow> string \<Rightarrow> string" where
  "unsupported_method e c = ''Unsupported method ('' @ repr_str e c @ '')''"

definition GeolocationTestHandler_handle :: "env \<Rightarrow> handler \<Rightarrow> outcome" where
  "GeolocationTestHandler_handle e h =
     (if command h = ''GET'' then do_GET e h
      else if command h = ''POST'' then do_POST e h
      else if command h = ''HEAD'' then
        Simple_do_HEAD GeolocationTestHandler_end_headers (\<lambda>p. Inr (Simple_guess_type e p)) e h
      else (None,
            send_error GeolocationTestHandler_end_headers e 501
              (unsupported_method e (command h)) h))"

section \<open>The static web server: \<^verbatim>\<open>serve-web.py\<close>\<close>

definition FlutterWebHandler_end_headers :: "handler \<Rightarrow> handler" where
  "FlutterWebHandler_end_headers h =
     Base_end_headers
       (send_header ''Expires'' ''0''
          (send_header ''Pragma'' ''no-cache''
             (send_header ''Cache-Control'' ''no-cache, no-store, must-revalidate'' h)))"

text \<open>
  \<^verbatim>\<open>FlutterWebHandler.guess_type\<close>. Its first statement is
  \<^verbatim>\<open>mime_type, _ = super().guess_type(path)\<close>: the string that the library returns is
  unpacked into two names, before the suffix of \<open>path\<close> is looked at.
\<close>

definition guess_type :: "env \<Rightarrow> string \<Rightarrow> exn + string" where
  "guess_type e p =
     (case unpack2 (Simple_guess_type e p) of
        Inl x \<Rightarrow> Inl x
      | Inr (mime_type, _) \<Rightarrow>
          if endswith p ''.js'' then Inr ''application/javascript''
          else if endswith p ''.wasm'' then Inr ''application/wasm''
          else if endswith p ''.json'' then Inr ''application/json''
          else Inr mime_type)"

text \<open>The class defines no \<^verbatim>\<open>do_\<close> method; \<^verbatim>\<open>do_GET\<close> and \<^verbatim>\<open>do_HEAD\<close> are inherited.\<close>

definition FlutterWebHandler_handle :: "env \<Rightarrow> handler \<Rightarrow> outcome" where
  "FlutterWebHandler_handle e h =
     (if command h = ''GET'' then
        Simple_do_GET FlutterWebHandler_end_headers (guess_type e) e h
      else if command h = ''HEAD'' then
        Simple_do_HEAD FlutterWebHandler_end_headers (guess_type e) e h
      else (None,
            send_error FlutterWebHandler_end_headers e 501
              (unsupported_method e (command h)) h))"

section \<open>The two programs as processes\<close>

text \<open>
  What a run of a script does, in order, and how it ends. \<open>Handled w x\<close> is one request
  served by \<^verbatim>\<open>serve_forever\<close>: \<open>w\<close> is everything written to the client and \<open>x\<close> the
  exception that ended the handler, if any. The socket server reports such an exception
  on standard error and goes on with the next request.
\<close>

datatype event =
    Printed ustr
  | ChangedDir string
  | Bound string nat
  | OpenedBrowser string
  | Handled "chunk list" "exn option"
  | ServerClosed

datatype status = Serving | Returned | Exited int | Crashed exn

text \<open>
  The operating system as the scripts see it at startup. \<open>chdir d\<close> gives the new
  working directory, or the exception of \<^verbatim>\<open>os.chdir\<close>; \<open>tcp_bind host port\<close> gives the
  exception of the \<^verbatim>\<open>TCPServer\<close> constructor, if any; \<open>webbrowser_open url\<close> gives what
  \<^verbatim>\<open>webbrowser.open\<close> returns, or the exception it raises.
\<close>

record os_env =
  file_dirname :: string
  file_abs_dirname :: string
  path_exists :: "string \<Rightarrow> bool"
  chdir :: "string \<Rightarrow> exn + string"
  tcp_bind :: "string \<Rightarrow> nat \<Rightarrow> exn option"
  webbrowser_open :: "string \<Rightarrow> exn + bool"

record request =
  req_command :: string
  req_path :: string
  req_version :: string
  req_headers :: "(string \<times> string) list"
  req_body :: bytes

text \<open>
  What arrives while the server is in \<^verbatim>\<open>serve_forever\<close>: a request that
  \<^verbatim>\<open>parse_request\<close> has accepted, together with the environment at the time it is
  handled, or Ctrl+C.
\<close>

datatype input = Request env request | Interrupt

text \<open>
  A handler object is made for each request; \<^verbatim>\<open>SimpleHTTPRequestHandler.__init__\<close> sets
  its \<open>directory\<close> to the working directory of the process.
\<close>

definition new_handler :: "string \<Rightarrow> request \<Rightarrow> handler" where
  "new_handler cwd r =
     \<lparr>command = req_command r, path = req_path r, request_version = req_version r,
      headers = req_headers r, rfile = req_body r, directory = cwd, headers_buffer = [],
      wfile = [], close_connection = True\<rparr>"

definition process_request ::
  "(env \<Rightarrow> handler \<Rightarrow> outcome) \<Rightarrow> string \<Rightarrow> env \<Rightarrow> request \<Rightarrow> event" where
  "process_request handle cwd e r =
     (case handle e (new_handler cwd r) of (x, h) \<Rightarrow> Handled (wfile h) x)"

text \<open>
  \<^verbatim>\<open>serve_forever\<close> over the inputs that arrive: the events, and whether it was left by
  \<^verbatim>\<open>KeyboardInterrupt\<close>. When the inputs run out the server is still waiting.
\<close>

fun serve_forever ::
  "(env \<Rightarrow> handler \<Rightarrow> outcome) \<Rightarrow> string \<Rightarrow> input list \<Rightarrow> event list \<times> bool" where
  "serve_forever handle cwd [] = ([], False)"
| "serve_forever handle cwd (Interrupt # rest) = ([], True)"
| "serve_forever handle cwd (Request e r # rest) =
     (case serve_forever handle cwd rest of
        (evs, stopped) \<Rightarrow> (process_request handle cwd e r # evs, stopped))"

subsection \<open>\<^verbatim>\<open>start_server\<close> of the mock API server\<close>

definition HOST :: string where
  "HOST = ''localhost''"

definition PORT :: nat where
  "PORT = 8888"

definition base_url :: string where
  "base_url = ''http://'' @ HOST @ '':'' @ str_nat PORT"

definition endpoint_line :: "string \<Rightarrow> ustr" where
  "endpoint_line rest = ustr_of ''   '' @ 8226 # ustr_of ('' '' @ base_url @ rest)"

definition banner :: "event list" where
  "banner =
     [Printed (ustr_of (replicate 60 (CHR ''=''))),
      Printed (128640 # ustr_of '' ShowTrackAI Geolocation Test Server''),
      Printed (ustr_of (replicate 60 (CHR ''=''))),
      Printed (10 # 128205 # ustr_of ('' Starting server on '' @ base_url)),
      Printed (10 # 129514 # ustr_of '' Available endpoints:''),
      Printed (endpoint_line ''/ - Main test interface''),
      Printed (endpoint_line ''/api/weather - Mock weather data''),
      Printed (endpoint_line ''/api/location - Mock location data''),
      Printed (endpoint_line ''/api/journal - Journal status''),
      Printed (10 # 9888 # 65039 #
               ustr_of ''  Note: For production geolocation, HTTPS is required.''),
      Printed (ustr_of ''    This server is for local testing only.''),
      Printed (10 # 128721 # ustr_of '' Press Ctrl+C to stop the server''),
      Printed (ustr_of (replicate 60 (CHR ''='')))]"

text \<open>
  \<^verbatim>\<open>start_server\<close>. The call \<^verbatim>\<open>webbrowser.open(...)\<close> stands inside the \<^verbatim>\<open>with\<close> block
  and outside the \<^verbatim>\<open>try\<close>: what it returns is dropped, and an exception it raises
  leaves the function through the \<^verbatim>\<open>with\<close> block, which closes the server.
\<close>

definition start_server :: "os_env \<Rightarrow> input list \<Rightarrow> event list \<times> status" where
  "start_server os inputs =
     (case chdir os (file_abs_dirname os) of
        Inl x \<Rightarrow> (banner, Crashed x)
      | Inr cwd \<Rightarrow>
          (case tcp_bind os HOST PORT of
             Some x \<Rightarrow> (banner @ [ChangedDir cwd], Crashed x)
           | None \<Rightarrow>
               (case webbrowser_open os base_url of
                  Inl x \<Rightarrow>
                    (banner @ [ChangedDir cwd, Bound HOST PORT, OpenedBrowser base_url,
                               ServerClosed],
                     Crashed x)
                | Inr launched \<Rightarrow>
                    (case serve_forever GeolocationTestHandler_handle cwd inputs of
                       (evs, stopped) \<Rightarrow>
                         (banner @ [ChangedDir cwd, Bound HOST PORT, OpenedBrowser base_url]
                            @ evs
                            @ (if stopped
                               then [Printed (10 # 10 # 128721 #
                                              ustr_of '' Server stopped by user''),
                                     ServerClosed]
                               else []),
                          if stopped then Returned else Serving)))))"

subsection \<open>\<^verbatim>\<open>serve_flutter_web\<close> of the static web server\<close>



section \<open>A small environment for the examples\<close>

text \<open>
  The theorems below hold for every environment. Their instances at concrete requests
  are evaluated in this one. Its \<^verbatim>\<open>int\<close> reads decimal digits after an optional minus
  sign. Its \<^verbatim>\<open>json\<close> module knows the document \<^verbatim>\<open>{"note":"hello"}\<close> and the documents
  \<^verbatim>\<open>[[...]]\<close> of nested empty lists, prints one level of a value, and raises
  \<open>RecursionError\<close> beyond a nesting of \<open>toy_limit\<close>, the depth that the interpreter's
  stack allows where the handler runs. Its reader cannot make a buffer of a terabyte. Its
  file system holds the test page and one script under \<^verbatim>\<open>/srv/app\<close>.
\<close>

definition toy_digits :: "string \<Rightarrow> int option" where
  "toy_digits s =
     (if s \<noteq> [] \<and> list_all (\<lambda>c. c \<in> set ''0123456789'') s
      then Some (int (foldl (\<lambda>a c. 10 * a + (of_char c - 48)) 0 s))
      else None)"

definition toy_int :: "string \<Rightarrow> int option" where
  "toy_int s =
     (case s of
        [] \<Rightarrow> None
      | c # ds \<Rightarrow> if c = CHR ''-'' then map_option uminus (toy_digits ds) else toy_digits s)"

definition note_hello :: bytes where
  "note_hello = ''{'' @ [CHR 0x22] @ ''note'' @ [CHR 0x22] @ '':'' @ [CHR 0x22] @ ''hello''
                @ [CHR 0x22] @ ''}''"

text \<open>
  \<open>brackets n\<close> is the JSON text of \<open>n\<close> nested lists, the innermost empty, and
  \<open>nested\<close> the value it denotes: \<open>brackets (Suc n)\<close> is parsed to \<open>nested n\<close>.
  \<open>json_depth\<close> counts the containers around the innermost value.
\<close>

definition brackets :: "nat \<Rightarrow> bytes" where
  "brackets n = replicate n (CHR ''['') @ replicate n (CHR '']'')"

fun nested :: "nat \<Rightarrow> json" where
  "nested 0 = JList []"
| "nested (Suc n) = JList [nested n]"

fun json_depth :: "json \<Rightarrow> nat" where
  "json_depth (JList xs) = Suc (foldr (\<lambda>x m. max (json_depth x) m) xs 0)"
| "json_depth (JDict kvs) = Suc (foldr (\<lambda>kv m. max (json_depth (snd kv)) m) kvs 0)"
| "json_depth j = 0"

definition toy_limit :: nat where
  "toy_limit = 975"

definition toy_loads :: "ustr \<Rightarrow> exn + json" where
  "toy_loads t =
     (if t = ustr_of note_hello
      then Inr (JDict [(ustr_of ''note'', JStr (ustr_of ''hello''))])
      else if t \<noteq> [] \<and> t = ustr_of (brackets (length t div 2))
      then (if length t div 2 \<le> toy_limit then Inr (nested (length t div 2 - 1))
            else Inl RecursionError)
      else Inl JSONDecodeError)"

fun toy_atom :: "json \<Rightarrow> ustr" where
  "toy_atom JNull = ustr_of ''null''"
| "toy_atom (JBool b) = ustr_of (if b then ''true'' else ''false'')"
| "toy_atom (JInt i) = ustr_of (str_int i)"
| "toy_atom (JFloat r) = ustr_of r"
| "toy_atom (JStr s) = 34 # s @ [34]"
| "toy_atom (JList xs) = ustr_of ''[...]''"
| "toy_atom (JDict kvs) = ustr_of ''{...}''"

definition toy_text :: "json \<Rightarrow> ustr" where
  "toy_text j =
     (case j of
        JDict kvs \<Rightarrow>
          123 # concat (map (\<lambda>(k, v). 34 # k @ [34, 58] @ toy_atom v @ [59]) kvs) @ [125]
      | _ \<Rightarrow> toy_atom j)"

definition toy_dumps :: "nat option \<Rightarrow> json \<Rightarrow> exn + ustr" where
  "toy_dumps indent j =
     (if toy_limit < json_depth j then Inl RecursionError else Inr (toy_text j))"

definition toy_alloc_error :: "nat \<Rightarrow> exn option" where
  "toy_alloc_error n =
     (if 9223372036854775807 - 33 < n then Some OverflowError
      else if 1000000000000 \<le> n then Some MemoryError
      else None)"

definition cut_query :: "string \<Rightarrow> string" where
  "cut_query p = takeWhile (\<lambda>c. c \<noteq> CHR ''?'' \<and> c \<noteq> CHR ''#'') p"

definition toy_env :: env where
  "toy_env =
     \<lparr>urlparse_path = (\<lambda>p. Inr (cut_query p)),
      py_int = toy_int,
      json_loads = toy_loads,
      json_dumps = toy_dumps,
      maxsize = 9223372036854775807,
      alloc_error = toy_alloc_error,
      unix_time = 1700000000,
      now_isoformat = ''2023-11-14T22:13:20.000000'',
      read_text = (\<lambda>name. if name = ''geolocation-test-server.html''
                           then Inr (ustr_of ''<html></html>'') else Inl FileNotFoundError),
      version_string = ''SimpleHTTP/0.6 Python/3.11.10'',
      date_time_string = ''Tue, 14 Nov 2023 22:13:20 GMT'',
      reason_phrase = (\<lambda>code. if code = 200 then ''OK''
                             else if code = 400 then ''Bad Request''
                             else if code = 404 then ''Not Found''
                             else if code = 501 then ''Not Implemented''
                             else ''''),
      error_page = (\<lambda>code message. ''<h1>'' @ message @ ''</h1>''),
      translate_path = (\<lambda>d p. d @ cut_query p),
      urlsplit_path = (\<lambda>p. Inr (cut_query p)),
      redirect_url = (\<lambda>p. cut_query p @ ''/''),
      isdir = (\<lambda>p. p = ''/srv/app'' \<or> p = ''/srv/app/''),
      isfile = (\<lambda>p. False),
      open_rb = (\<lambda>p. if p = ''/srv/app/main.dart.js''
                      then Some \<lparr>file_data = ''main();'', file_len = 7,
                                 file_mtime = ''Tue, 14 Nov 2023 20:00:00 GMT''\<rparr>
                      else None),
      not_modified = (\<lambda>hs f. False),
      listdir_page = (\<lambda>p shown. Some ''<ul></ul>''),
      filesystem_encoding = ''utf-8'',
      mimetypes_guess = (\<lambda>p. if endswith p ''.js'' then ''text/javascript''
                               else ''application/octet-stream''),
      repr_str = (\<lambda>s. [CHR 0x27] @ s @ [CHR 0x27])\<rparr>"

definition toy_os :: os_env where
  "toy_os =
     \<lparr>file_dirname = ''/srv/app'',
      file_abs_dirname = ''/srv/app'',
      path_exists = (\<lambda>p. p = ''/srv/app/build/web''),
      chdir = (\<lambda>d. Inr d),
      tcp_bind = (\<lambda>host port. None),
      webbrowser_open = (\<lambda>url. Inr False)\<rparr>"

text \<open>A request whose request line ends in \<^verbatim>\<open>HTTP/1.1\<close>.\<close>

definition toy_request :: "string \<Rightarrow> string \<Rightarrow> (string \<times> string) list \<Rightarrow> bytes \<Rightarrow> request" where
  "toy_request c p hs b =
     \<lparr>req_command = c, req_path = p, req_version = ''HTTP/1.1'', req_headers = hs,
      req_body = b\<rparr>"

section \<open>Header blocks as the claims describe them\<close>

text \<open>
  The three headers that each \<^verbatim>\<open>end_headers\<close> override adds, and the property that a
  written header block closes with such a group followed by the blank line: the group
  was added after every other header of the block. A body satisfies it trivially.
  \<open>one_reply grp\<close> holds of what was written for one request when that is nothing at
  all, or one header block that closes with the group, alone or followed by one body: no
  body goes out without such a block before it.
\<close>

definition cors_headers :: "hline list" where
  "cors_headers =
     [Header ''Access-Control-Allow-Origin'' ''*'',
      Header ''Access-Control-Allow-Methods'' ''GET, POST, OPTIONS'',
      Header ''Access-Control-Allow-Headers'' ''Content-Type'']"

definition no_cache_headers :: "hline list" where
  "no_cache_headers =
     [Header ''Cache-Control'' ''no-cache, no-store, must-revalidate'',
      Header ''Pragma'' ''no-cache'',
      Header ''Expires'' ''0'']"

fun closes_with :: "hline list \<Rightarrow> chunk \<Rightarrow> bool" where
  "closes_with grp (Head ls) =
     (length grp < length ls \<and> drop (length ls - Suc (length grp)) ls = grp @ [Blank])"
| "closes_with grp (Body b) = True"

fun one_reply :: "hline list \<Rightarrow> chunk list \<Rightarrow> bool" where
  "one_reply grp [] = True"
| "one_reply grp [Head ls] = closes_with grp (Head ls)"
| "one_reply grp [Head ls, Body b] = closes_with grp (Head ls)"
| "one_reply grp w = False"

fun is_body :: "chunk \<Rightarrow> bool" where
  "is_body (Body b) = True"
| "is_body (Head ls) = False"

section \<open>What the library calls write\<close>

declare str_nat.simps [simp del]

lemmas eval_chars = char_of_def bit_Suc_0_iff str_lower_def chr_lower_def digit_char_def

lemma send_header_fields [simp]:
  "wfile (send_header k v h) = wfile h"
  "headers_buffer (send_header k v h) =
     (if request_version h \<noteq> ''HTTP/0.9'' then headers_buffer h @ [Header k v]
      else headers_buffer h)"
  "rfile (send_header k v h) = rfile h"
  "command (send_header k v h) = command h"
  "request_version (send_header k v h) = request_version h"
  by (simp_all add: send_header_def)

lemma send_response_fields [simp]:
  "wfile (send_response e code m h) = wfile h"
  "headers_buffer (send_response e code m h) =
     (if request_version h \<noteq> ''HTTP/0.9'' then
        headers_buffer h @
          [StatusLine code (case m of None \<Rightarrow> reason_phrase e code | Some t \<Rightarrow> t),
           Header ''Server'' (version_string e), Header ''Date'' (date_time_string e)]
      else headers_buffer h)"
  "rfile (send_response e code m h) = rfile h"
  "command (send_response e code m h) = command h"
  "request_version (send_response e code m h) = request_version h"
  by (simp_all add: send_response_def send_response_only_def)

lemma Base_end_headers_fields [simp]:
  "wfile (Base_end_headers h) =
     (if request_version h \<noteq> ''HTTP/0.9'' then wfile h @ [Head (headers_buffer h @ [Blank])]
      else wfile h)"
  "headers_buffer (Base_end_headers h) =
     (if request_version h \<noteq> ''HTTP/0.9'' then [] else headers_buffer h)"
  "rfile (Base_end_headers h) = rfile h"
  "command (Base_end_headers h) = command h"
  "request_version (Base_end_headers h) = request_version h"
  by (simp_all add: Base_end_headers_def flush_headers_def)

lemma wfile_write_fields [simp]:
  "wfile (wfile_write b h) = wfile h @ [Body b]"
  "headers_buffer (wfile_write b h) = headers_buffer h"
  "rfile (wfile_write b h) = rfile h"
  "request_version (wfile_write b h) = request_version h"
  by (simp_all add: wfile_write_def)

lemma Geolocation_end_headers_fields [simp]:
  "wfile (GeolocationTestHandler_end_headers h) =
     (if request_version h \<noteq> ''HTTP/0.9'' then
        wfile h @ [Head (headers_buffer h @
          [Header ''Access-Control-Allow-Origin'' ''*'',
           Header ''Access-Control-Allow-Methods'' ''GET, POST, OPTIONS'',
           Header ''Access-Control-Allow-Headers'' ''Content-Type'', Blank])]
      else wfile h)"
  "headers_buffer (GeolocationTestHandler_end_headers h) =
     (if request_version h \<noteq> ''HTTP/0.9'' then [] else headers_buffer h)"
  "rfile (GeolocationTestHandler_end_headers h) = rfile h"
  "command (GeolocationTestHandler_end_headers h) = command h"
  "request_version (GeolocationTestHandler_end_headers h) = request_version h"
  by (simp_all add: GeolocationTestHandler_end_headers_def)

lemma Flutter_end_headers_fields [simp]:
  "wfile (FlutterWebHandler_end_headers h) =
     (if request_version h \<noteq> ''HTTP/0.9'' then
        wfile h @ [Head (headers_buffer h @
          [Header ''Cache-Control'' ''no-cache, no-store, must-revalidate'',
           Header ''Pragma'' ''no-cache'',
           Header ''Expires'' ''0'', Blank])]
      else wfile h)"
  "headers_buffer (FlutterWebHandler_end_headers h) =
     (if request_version h \<noteq> ''HTTP/0.9'' then [] else headers_buffer h)"
  "rfile (FlutterWebHandler_end_headers h) = rfile h"
  "command (FlutterWebHandler_end_headers h) = command h"
  "request_version (FlutterWebHandler_end_headers h) = request_version h"
  by (simp_all add: FlutterWebHandler_end_headers_def)

lemma new_handler_fields [simp]:
  "command (new_handler cwd r) = req_command r"
  "path (new_handler cwd r) = req_path r"
  "request_version (new_handler cwd r) = req_version r"
  "headers (new_handler cwd r) = req_headers r"
  "rfile (new_handler cwd r) = req_body r"
  "directory (new_handler cwd r) = cwd"
  "headers_buffer (new_handler cwd r) = []"
  "wfile (new_handler cwd r) = []"
  by (simp_all add: new_handler_def)

lemma rejected_request_line_fields [simp]:
  "command (rejected_request_line cwd) = []"
  "request_version (rejected_request_line cwd) = ''HTTP/0.9''"
  "headers_buffer (rejected_request_line cwd) = []"
  "wfile (rejected_request_line cwd) = []"
  by (simp_all add: rejected_request_line_def)

lemma toy_request_fields [simp]:
  "req_command (toy_request c p hs b) = c"
  "req_path (toy_request c p hs b) = p"
  "req_version (toy_request c p hs b) = ''HTTP/1.1''"
  "req_headers (toy_request c p hs b) = hs"
  "req_body (toy_request c p hs b) = b"
  by (simp_all add: toy_request_def)

lemma toy_env_fields [simp]:
  "version_string toy_env = ''SimpleHTTP/0.6 Python/3.11.10''"
  "date_time_string toy_env = ''Tue, 14 Nov 2023 22:13:20 GMT''"
  "reason_phrase toy_env 200 = ''OK''"
  "reason_phrase toy_env 400 = ''Bad Request''"
  "reason_phrase toy_env 404 = ''Not Found''"
  "reason_phrase toy_env 501 = ''Not Implemented''"
  "json_dumps toy_env = toy_dumps"
  "json_loads toy_env = toy_loads"
  "py_int toy_env = toy_int"
  "unix_time toy_env = 1700000000"
  "maxsize toy_env = 9223372036854775807"
  "alloc_error toy_env = toy_alloc_error"
  by (simp_all add: toy_env_def)

text \<open>What \<^verbatim>\<open>send_json_response\<close> and \<^verbatim>\<open>send_error_response\<close> write when \<^verbatim>\<open>json.dumps\<close> returns.\<close>

lemma send_json_response_writes:
  assumes "json_dumps e (Some 2) data = Inr response"
  shows "fst (send_json_response e data h) = None"
    and "wfile (snd (send_json_response e data h)) = wfile h @
     (if request_version h \<noteq> ''HTTP/0.9'' then
        [Head (headers_buffer h @
           [StatusLine 200 (reason_phrase e 200),
            Header ''Server'' (version_string e),
            Header ''Date'' (date_time_string e),
            Header ''Content-Type'' ''application/json'',
            Header ''Access-Control-Allow-Origin'' ''*'',
            Header ''Content-Length'' (str_nat (length response)),
            Header ''Access-Control-Allow-Origin'' ''*'',
            Header ''Access-Control-Allow-Methods'' ''GET, POST, OPTIONS'',
            Header ''Access-Control-Allow-Headers'' ''Content-Type'',
            Blank])]
      else [])
     @ [Body (utf8_encode response)]"
  using assms by (simp_all add: send_json_response_def)

lemma send_json_response_raises:
  assumes "json_dumps e (Some 2) data = Inl x"
  shows "send_json_response e data h = (Some x, h)"
  using assms by (simp add: send_json_response_def)

lemma send_error_response_writes:
  assumes "json_dumps e None (JDict [(ustr_of ''error'', JStr message)]) = Inr response"
  shows "fst (send_error_response e message h) = None"
    and "wfile (snd (send_error_response e message h)) = wfile h @
     (if request_version h \<noteq> ''HTTP/0.9'' then
        [Head (headers_buffer h @
           [StatusLine 400 (reason_phrase e 400),
            Header ''Server'' (version_string e),
            Header ''Date'' (date_time_string e),
            Header ''Content-Type'' ''application/json'',
            Header ''Access-Control-Allow-Origin'' ''*'',
            Header ''Access-Control-Allow-Origin'' ''*'',
            Header ''Access-Control-Allow-Methods'' ''GET, POST, OPTIONS'',
            Header ''Access-Control-Allow-Headers'' ''Content-Type'',
            Blank])]
      else [])
     @ [Body (utf8_encode response)]"
  using assms by (simp_all add: send_error_response_def)

text \<open>An ASCII text decodes to itself.\<close>

lemma utf8_decode_ascii:
  assumes "\<forall>c \<in> set s. (of_char c :: nat) < 128"
  shows "utf8_decode s = Some (ustr_of s)"
  using assms by (induction s) (simp_all add: ustr_of_def)

text \<open>The toy \<^verbatim>\<open>json\<close> module on nested lists.\<close>

lemma json_depth_nested [simp]: "json_depth (nested n) = Suc n"
  by (induction n) simp_all

lemma length_brackets [simp]: "length (ustr_of (brackets n)) = 2 * n"
  by (simp add: ustr_of_def brackets_def)

lemma utf8_decode_brackets: "utf8_decode (brackets n) = Some (ustr_of (brackets n))"
  by (rule utf8_decode_ascii) (auto simp add: brackets_def)

lemma toy_loads_brackets:
  assumes "0 < n" "n \<le> toy_limit"
  shows "toy_loads (ustr_of (brackets n)) = Inr (nested (n - 1))"
proof -
  from assms obtain m where n: "n = Suc m"
    by (cases n) simp_all
  have "hd (ustr_of (brackets n)) = 91" "hd (ustr_of note_hello) = 123"
    by (simp_all add: n ustr_of_def brackets_def note_hello_def)
  then have "ustr_of (brackets n) \<noteq> ustr_of note_hello"
    by auto
  moreover have "ustr_of (brackets n) \<noteq> []"
    by (simp add: n ustr_of_def brackets_def)
  ultimately show ?thesis
    using assms by (simp add: toy_loads_def)
qed
section \<open>The UTF-8 decoder reads back what the encoder writes\<close>

lemma mod_64_le: "(n::nat) mod 64 \<le> 63"
proof -
  have "n mod 64 < 64"
    by simp
  then show ?thesis
    by linarith
qed

lemma recombine_three: "(cp::nat) div 4096 * 4096 + cp div 64 mod 64 * 64 + cp mod 64 = cp"
proof -
  have a: "cp div 64 div 64 = cp div 4096"
    by (simp add: div_mult2_eq [symmetric])
  have "cp div 64 div 64 * 64 + cp div 64 mod 64 = cp div 64"
    by (rule div_mult_mod_eq)
  then have "(cp div 64 div 64 * 64 + cp div 64 mod 64) * 64 = cp div 64 * 64"
    by (rule arg_cong)
  then have "cp div 4096 * 4096 + cp div 64 mod 64 * 64 = cp div 64 * 64"
    unfolding a by (simp only: distrib_right mult.assoc)
  moreover have "cp div 64 * 64 + cp mod 64 = cp"
    by (rule div_mult_mod_eq)
  ultimately show ?thesis
    by (simp only:)
qed


lemma recombine_four:
  "(cp::nat) div 262144 * 262144 + cp div 4096 mod 64 * 4096 + cp div 64 mod 64 * 64
     + cp mod 64 = cp"
proof -
  have a: "cp div 4096 div 64 = cp div 262144"
    by (simp add: div_mult2_eq [symmetric])
  have "cp div 4096 div 64 * 64 + cp div 4096 mod 64 = cp div 4096"
    by (rule div_mult_mod_eq)
  then have "(cp div 4096 div 64 * 64 + cp div 4096 mod 64) * 4096 = cp div 4096 * 4096"
    by (rule arg_cong)
  then have "cp div 262144 * 262144 + cp div 4096 mod 64 * 4096 = cp div 4096 * 4096"
    unfolding a by (simp only: distrib_right mult.assoc)
  then show ?thesis
    using recombine_three [of cp] by (simp only:)
qed

lemma decode_one_byte:
  assumes "cp < 128"
  shows "utf8_decode (encode_cp cp @ rest) = map_option ((#) cp) (utf8_decode rest)"
  using assms by (simp add: encode_cp_def)

lemma decode_two_bytes:
  assumes "128 \<le> cp" "cp < 2048"
  shows "utf8_decode (encode_cp cp @ rest) = map_option ((#) cp) (utf8_decode rest)"
proof -
  have d: "2 \<le> cp div 64" "cp div 64 < 32"
    using assms by auto
  have b0: "(192 + cp div 64) mod 256 = 192 + cp div 64"
    using d by simp
  have b1: "(128 + cp mod 64) mod 256 = 128 + cp mod 64"
    using mod_64_le [of cp] by simp
  show ?thesis
    using assms d mod_64_le [of cp]
    by (simp add: encode_cp_def is_cont_def cont_bits_def Let_def b0 b1)
qed

lemma decode_three_bytes:
  assumes "2048 \<le> cp" "cp < 65536" "\<not> (55296 \<le> cp \<and> cp \<le> 57343)"
  shows "utf8_decode (encode_cp cp @ rest) = map_option ((#) cp) (utf8_decode rest)"
proof -
  have d: "cp div 4096 < 16"
    using assms by auto
  have b0: "(224 + cp div 4096) mod 256 = 224 + cp div 4096"
    using d by simp
  have b1: "(128 + cp div 64 mod 64) mod 256 = 128 + cp div 64 mod 64"
    using mod_64_le [of "cp div 64"] by simp
  have b2: "(128 + cp mod 64) mod 256 = 128 + cp mod 64"
    using mod_64_le [of cp] by simp
  note whole = recombine_three [of cp]
  show ?thesis
    using assms d mod_64_le [of cp] mod_64_le [of "cp div 64"]
    by (simp add: encode_cp_def is_cont_def cont_bits_def Let_def b0 b1 b2 whole)
qed

lemma decode_four_bytes:
  assumes "65536 \<le> cp" "cp < 1114112"
  shows "utf8_decode (encode_cp cp @ rest) = map_option ((#) cp) (utf8_decode rest)"
proof -
  have d: "cp div 262144 < 5"
    using assms by auto
  have b0: "(240 + cp div 262144) mod 256 = 240 + cp div 262144"
    using d by simp
  have b1: "(128 + cp div 4096 mod 64) mod 256 = 128 + cp div 4096 mod 64"
    using mod_64_le [of "cp div 4096"] by simp
  have b2: "(128 + cp div 64 mod 64) mod 256 = 128 + cp div 64 mod 64"
    using mod_64_le [of "cp div 64"] by simp
  have b3: "(128 + cp mod 64) mod 256 = 128 + cp mod 64"
    using mod_64_le [of cp] by simp
  note whole = recombine_four [of cp]
  show ?thesis
    using assms d mod_64_le [of cp] mod_64_le [of "cp div 64"] mod_64_le [of "cp div 4096"]
    by (simp add: encode_cp_def is_cont_def cont_bits_def Let_def b0 b1 b2 b3 whole)
qed

text \<open>
  A \<^verbatim>\<open>str\<close> without surrogates, encoded and decoded again, is the same \<^verbatim>\<open>str\<close>: the
  decoder of the model accepts every well-formed UTF-8 text.
\<close>

lemma utf8_decode_encode:
  assumes "\<forall>cp \<in> set s. cp < 1114112 \<and> \<not> (55296 \<le> cp \<and> cp \<le> 57343)"
  shows "utf8_decode (utf8_encode s) = Some s"
  using assms
proof (induction s)
  case Nil
  then show ?case
    by (simp add: utf8_encode_def)
next
  case (Cons cp s)
  then have rest: "utf8_decode (utf8_encode s) = Some s"
    and ok: "cp < 1114112" "\<not> (55296 \<le> cp \<and> cp \<le> 57343)"
    by simp_all
  have "utf8_decode (encode_cp cp @ utf8_encode s)
        = map_option ((#) cp) (utf8_decode (utf8_encode s))"
  proof -
    consider "cp < 128" | "128 \<le> cp" "cp < 2048" | "2048 \<le> cp" "cp < 65536"
      | "65536 \<le> cp"
      by linarith
    then show ?thesis
    proof cases
      case 1
      then show ?thesis by (rule decode_one_byte)
    next
      case 2
      then show ?thesis by (rule decode_two_bytes)
    next
      case 3
      with ok show ?thesis by (intro decode_three_bytes) simp_all
    next
      case 4
      with ok show ?thesis by (intro decode_four_bytes) simp_all
    qed
  qed
  with rest show ?case
    by (simp add: utf8_encode_def)
qed

section \<open>POST requests\<close>

text \<open>
  C9. A POST whose path is not exactly \<^verbatim>\<open>/api/journal/create\<close> leaves \<^verbatim>\<open>do_POST\<close> with the
  handler as it was: no status line, no header and no body has been written, and no
  exception is raised. A request served that way has an empty reply.
\<close>

theorem post_elsewhere_writes_nothing:
  assumes "path h \<noteq> ''/api/journal/create''"
  shows "do_POST e h = (None, h) \<and>
         (command h = ''POST'' \<longrightarrow> GeolocationTestHandler_handle e h = (None, h)) \<and>
         (h = new_handler cwd r \<and> req_command r = ''POST'' \<longrightarrow>
            process_request GeolocationTestHandler_handle cwd e r = Handled [] None)"
  using assms
  by (auto simp add: do_POST_def GeolocationTestHandler_handle_def process_request_def)

theorem post_elsewhere_writes_nothing_witness:
  "do_POST toy_env
     (new_handler ''/srv/app''
        (toy_request ''POST'' ''/api/journal/create?draft=1'' [(''Content-Length'', ''16'')]
           note_hello))
   = (None,
      new_handler ''/srv/app''
        (toy_request ''POST'' ''/api/journal/create?draft=1'' [(''Content-Length'', ''16'')]
           note_hello))
   \<and> process_request GeolocationTestHandler_handle ''/srv/app'' toy_env
        (toy_request ''POST'' ''/api/journal/create?draft=1'' [(''Content-Length'', ''16'')]
           note_hello)
     = Handled [] None"
  using post_elsewhere_writes_nothing
    [where h = "new_handler ''/srv/app''
                  (toy_request ''POST'' ''/api/journal/create?draft=1''
                     [(''Content-Length'', ''16'')] note_hello)"
       and e = toy_env and cwd = "''/srv/app''"
       and r = "toy_request ''POST'' ''/api/journal/create?draft=1''
                  [(''Content-Length'', ''16'')] note_hello"]
  by simp

text \<open>
  C10. On \<^verbatim>\<open>/api/journal/create\<close>, a request without a \<^verbatim>\<open>Content-Length\<close> header ends
  \<^verbatim>\<open>do_POST\<close> with \<open>TypeError\<close>, one whose \<^verbatim>\<open>Content-Length\<close> is not an integer with
  \<open>ValueError\<close>, and one whose body is not UTF-8 with \<open>UnicodeDecodeError\<close>. None of
  the three is the \<open>JSONDecodeError\<close> that the \<^verbatim>\<open>except\<close> clause catches, and in each
  case nothing has been written: there is no 400 reply.
\<close>

theorem journal_create_unhandled_exceptions:
  assumes "path h = ''/api/journal/create''"
  shows "(headers_get (headers h) ''Content-Length'' = None \<longrightarrow>
            do_POST e h = (Some TypeError, h)) \<and>
         (headers_get (headers h) ''Content-Length'' = Some v \<and> py_int e v = None \<longrightarrow>
            do_POST e h = (Some ValueError, h)) \<and>
         (headers_get (headers h) ''Content-Length'' = Some v \<and> py_int e v = Some n \<and>
          rfile_read e n h = Inr (post_data, h1) \<and> utf8_decode post_data = None \<longrightarrow>
            do_POST e h = (Some UnicodeDecodeError, h1) \<and>
            wfile h1 = wfile h \<and> headers_buffer h1 = headers_buffer h)"
  using assms
  by (auto simp add: do_POST_def rfile_read_def split: if_splits option.splits)

theorem journal_create_unhandled_exceptions_witness:
  "do_POST toy_env
     (new_handler ''/srv/app'' (toy_request ''POST'' ''/api/journal/create'' [] note_hello))
   = (Some TypeError,
      new_handler ''/srv/app'' (toy_request ''POST'' ''/api/journal/create'' [] note_hello))
   \<and> do_POST toy_env
     (new_handler ''/srv/app''
        (toy_request ''POST'' ''/api/journal/create'' [(''Content-Length'', ''sixteen'')]
           note_hello))
   = (Some ValueError,
      new_handler ''/srv/app''
        (toy_request ''POST'' ''/api/journal/create'' [(''Content-Length'', ''sixteen'')]
           note_hello))
   \<and> fst (do_POST toy_env
        (new_handler ''/srv/app''
           (toy_request ''POST'' ''/api/journal/create'' [(''Content-Length'', ''2'')]
              [CHR 0xC3, CHR 0x28])))
     = Some UnicodeDecodeError
   \<and> wfile (snd (do_POST toy_env
        (new_handler ''/srv/app''
           (toy_request ''POST'' ''/api/journal/create'' [(''Content-Length'', ''2'')]
              [CHR 0xC3, CHR 0x28]))))
     = []"
  using
    journal_create_unhandled_exceptions
      [where h = "new_handler ''/srv/app''
                    (toy_request ''POST'' ''/api/journal/create'' [] note_hello)"
         and e = toy_env]
    journal_create_unhandled_exceptions
      [where h = "new_handler ''/srv/app''
                    (toy_request ''POST'' ''/api/journal/create''
                       [(''Content-Length'', ''sixteen'')] note_hello)"
         and e = toy_env and v = "''sixteen''"]
    journal_create_unhandled_exceptions
      [where h = "new_handler ''/srv/app''
                    (toy_request ''POST'' ''/api/journal/create'' [(''Content-Length'', ''2'')]
                       [CHR 0xC3, CHR 0x28])"
         and e = toy_env and v = "''2''" and n = 2 and post_data = "[CHR 0xC3, CHR 0x28]"
         and ?h1.0 = "(new_handler ''/srv/app''
                    (toy_request ''POST'' ''/api/journal/create'' [(''Content-Length'', ''2'')]
                       [CHR 0xC3, CHR 0x28]))\<lparr>rfile := []\<rparr>"]
  by (simp add: toy_int_def toy_digits_def toy_alloc_error_def rfile_read_def is_cont_def)

text \<open>
  C1, as amended. A POST to \<^verbatim>\<open>/api/journal/create\<close> whose request line names a version
  other than \<^verbatim>\<open>HTTP/0.9\<close>, whose \<^verbatim>\<open>Content-Length\<close> header gives the length of the body,
  whose body can be read and decodes as UTF-8 to a text that \<^verbatim>\<open>json.loads\<close> accepts, and
  whose echo object \<^verbatim>\<open>json.dumps\<close> turns into a text, is answered without an exception
  by one header block with status 200 and one body. The body is the JSON text of the
  object with \<^verbatim>\<open>success\<close> true, \<^verbatim>\<open>id\<close> the string \<^verbatim>\<open>journal_\<close> followed by the Unix time
  in decimal, the fixed \<^verbatim>\<open>message\<close>, and under \<^verbatim>\<open>data\<close> the parsed body as it is.
\<close>

theorem journal_create_echo:
  assumes "request_version h \<noteq> ''HTTP/0.9''"
    and "path h = ''/api/journal/create''"
    and "headers_get (headers h) ''Content-Length'' = Some v"
    and "py_int e v = Some (int (length (rfile h)))"
    and "int (length (rfile h)) \<le> maxsize e"
    and "alloc_error e (length (rfile h)) = None"
    and "utf8_decode (rfile h) = Some decoded"
    and "json_loads e decoded = Inr journal_data"
    and "json_dumps e (Some 2)
           (JDict [(ustr_of ''success'', JBool True),
                   (ustr_of ''id'', JStr (ustr_of (''journal_'' @ str_int (unix_time e)))),
                   (ustr_of ''message'', JStr (ustr_of ''Journal entry created successfully'')),
                   (ustr_of ''data'', journal_data)]) = Inr reply"
  shows "fst (do_POST e h) = None \<and>
         wfile (snd (do_POST e h)) = wfile h @
           [Head (headers_buffer h @
              [StatusLine 200 (reason_phrase e 200),
               Header ''Server'' (version_string e),
               Header ''Date'' (date_time_string e),
               Header ''Content-Type'' ''application/json'',
               Header ''Access-Control-Allow-Origin'' ''*'',
               Header ''Content-Length'' (str_nat (length reply)),
               Header ''Access-Control-Allow-Origin'' ''*'',
               Header ''Access-Control-Allow-Methods'' ''GET, POST, OPTIONS'',
               Header ''Access-Control-Allow-Headers'' ''Content-Type'',
               Blank]),
            Body (utf8_encode reply)]"
proof -
  let ?h1 = "h\<lparr>rfile := []\<rparr>"
  have rd: "rfile_read e (int (length (rfile h))) h = Inr (rfile h, ?h1)"
    using assms(5,6) by (simp add: rfile_read_def)
  have sent: "send_json_response e (journal_response e journal_data) ?h1
              = (fst (send_json_response e (journal_response e journal_data) ?h1),
                 snd (send_json_response e (journal_response e journal_data) ?h1))"
    by simp
  have dumped: "json_dumps e (Some 2) (journal_response e journal_data) = Inr reply"
    using assms(9) by (simp add: journal_response_def)
  have "do_POST e h = send_json_response e (journal_response e journal_data) ?h1"
    using assms(2,3,4,7,8) rd send_json_response_writes(1) [OF dumped, of ?h1]
    by (auto simp add: do_POST_def split: prod.splits option.splits)
  then show ?thesis
    using send_json_response_writes [OF dumped, of ?h1] assms(1) by simp
qed

theorem journal_create_echo_witness:
  "fst (do_POST toy_env
          (new_handler ''/srv/app''
             (toy_request ''POST'' ''/api/journal/create''
                [(''Content-Type'', ''application/json''), (''Content-Length'', ''16'')]
                note_hello))) = None
   \<and> wfile (snd (do_POST toy_env
          (new_handler ''/srv/app''
             (toy_request ''POST'' ''/api/journal/create''
                [(''Content-Type'', ''application/json''), (''Content-Length'', ''16'')]
                note_hello))))
     = [Head [StatusLine 200 ''OK'',
              Header ''Server'' ''SimpleHTTP/0.6 Python/3.11.10'',
              Header ''Date'' ''Tue, 14 Nov 2023 22:13:20 GMT'',
              Header ''Content-Type'' ''application/json'',
              Header ''Access-Control-Allow-Origin'' ''*'',
              Header ''Content-Length''
                (str_nat (length (toy_text
                   (JDict [(ustr_of ''success'', JBool True),
                           (ustr_of ''id'', JStr (ustr_of ''journal_1700000000'')),
                           (ustr_of ''message'',
                            JStr (ustr_of ''Journal entry created successfully'')),
                           (ustr_of ''data'',
                            JDict [(ustr_of ''note'', JStr (ustr_of ''hello''))])])))),
              Header ''Access-Control-Allow-Origin'' ''*'',
              Header ''Access-Control-Allow-Methods'' ''GET, POST, OPTIONS'',
              Header ''Access-Control-Allow-Headers'' ''Content-Type'',
              Blank],
        Body (utf8_encode (toy_text
                (JDict [(ustr_of ''success'', JBool True),
                        (ustr_of ''id'', JStr (ustr_of ''journal_1700000000'')),
                        (ustr_of ''message'',
                         JStr (ustr_of ''Journal entry created successfully'')),
                        (ustr_of ''data'',
                         JDict [(ustr_of ''note'', JStr (ustr_of ''hello''))])])))]"
proof -
  let ?h = "new_handler ''/srv/app''
              (toy_request ''POST'' ''/api/journal/create''
                 [(''Content-Type'', ''application/json''), (''Content-Length'', ''16'')]
                 note_hello)"
  let ?echo = "JDict [(ustr_of ''success'', JBool True),
                      (ustr_of ''id'', JStr (ustr_of ''journal_1700000000'')),
                      (ustr_of ''message'',
                       JStr (ustr_of ''Journal entry created successfully'')),
                      (ustr_of ''data'',
                       JDict [(ustr_of ''note'', JStr (ustr_of ''hello''))])]"
  have len: "length note_hello = 16"
    by (simp add: note_hello_def)
  have version: "request_version ?h \<noteq> ''HTTP/0.9''"
    and target: "path ?h = ''/api/journal/create''"
    by simp_all
  have header: "headers_get (headers ?h) ''Content-Length'' = Some ''16''"
    by (simp add: eval_chars)
  have count: "py_int toy_env ''16'' = Some (int (length (rfile ?h)))"
    by (simp add: len toy_int_def toy_digits_def)
  have fits: "int (length (rfile ?h)) \<le> maxsize toy_env"
    and room: "alloc_error toy_env (length (rfile ?h)) = None"
    by (simp_all add: len toy_alloc_error_def)
  have dec: "utf8_decode (rfile ?h) = Some (ustr_of note_hello)"
    by (simp add: note_hello_def ustr_of_def)
  have parsed: "json_loads toy_env (ustr_of note_hello)
                = Inr (JDict [(ustr_of ''note'', JStr (ustr_of ''hello''))])"
    by (simp add: toy_loads_def)
  have stamp: "str_int 1700000000 = ''1700000000''"
    by (simp add: str_int_def str_nat.simps digit_char_def)
  have dumped: "json_dumps toy_env (Some 2)
      (JDict [(ustr_of ''success'', JBool True),
              (ustr_of ''id'', JStr (ustr_of (''journal_'' @ str_int (unix_time toy_env)))),
              (ustr_of ''message'', JStr (ustr_of ''Journal entry created successfully'')),
              (ustr_of ''data'', JDict [(ustr_of ''note'', JStr (ustr_of ''hello''))])])
      = Inr (toy_text ?echo)"
    by (simp add: stamp toy_dumps_def toy_limit_def)
  show ?thesis
    using journal_create_echo
      [OF version target header count fits room dec parsed dumped]
    by simp
qed

text \<open>
  C1 as written, refuted twice. A body of 975 nested lists, 1950 bytes of valid JSON,
  is accepted by \<^verbatim>\<open>json.loads\<close>, but the echo object holds it one level deeper and
  \<^verbatim>\<open>json.dumps\<close> raises \<open>RecursionError\<close>, which the \<^verbatim>\<open>except\<close> clause does not catch:
  nothing is written. And a request line that names \<^verbatim>\<open>HTTP/0.9\<close> is answered with the
  body alone, without a status line.
\<close>

theorem nested_body_or_old_version_gets_no_200:
  "process_request GeolocationTestHandler_handle ''/srv/app'' toy_env
     (toy_request ''POST'' ''/api/journal/create'' [(''Content-Length'', ''1950'')]
        (brackets 975))
   = Handled [] (Some RecursionError)
   \<and> json_loads toy_env (ustr_of (brackets 975)) = Inr (nested 974)
   \<and> process_request GeolocationTestHandler_handle ''/srv/app'' toy_env
     ((toy_request ''POST'' ''/api/journal/create'' [(''Content-Length'', ''16'')] note_hello)
        \<lparr>req_version := ''HTTP/0.9''\<rparr>)
   = Handled
       [Body (utf8_encode (toy_text
          (JDict [(ustr_of ''success'', JBool True),
                  (ustr_of ''id'', JStr (ustr_of ''journal_1700000000'')),
                  (ustr_of ''message'', JStr (ustr_of ''Journal entry created successfully'')),
                  (ustr_of ''data'', JDict [(ustr_of ''note'', JStr (ustr_of ''hello''))])])))]
       None"
proof -
  let ?r = "toy_request ''POST'' ''/api/journal/create'' [(''Content-Length'', ''1950'')]
              (brackets 975)"
  let ?h = "new_handler ''/srv/app'' ?r"
  have len: "length (brackets 975) = 1950"
    by (simp add: brackets_def)
  have count: "toy_int ''1950'' = Some 1950"
    by (simp add: toy_int_def toy_digits_def)
  have rd: "rfile_read toy_env 1950 ?h = Inr (brackets 975, ?h\<lparr>rfile := []\<rparr>)"
    by (simp add: rfile_read_def toy_alloc_error_def len)
  have parsed: "toy_loads (ustr_of (brackets 975)) = Inr (nested 974)"
    using toy_loads_brackets [of 975] by (simp add: toy_limit_def)
  have deep: "toy_dumps (Some 2) (journal_response toy_env (nested 974)) = Inl RecursionError"
    by (simp add: toy_dumps_def toy_limit_def journal_response_def)
  have first: "process_request GeolocationTestHandler_handle ''/srv/app'' toy_env ?r
               = Handled [] (Some RecursionError)"
    by (simp add: process_request_def GeolocationTestHandler_handle_def do_POST_def count rd
        utf8_decode_brackets parsed send_json_response_def deep)
  let ?q = "(toy_request ''POST'' ''/api/journal/create'' [(''Content-Length'', ''16'')]
              note_hello) \<lparr>req_version := ''HTTP/0.9''\<rparr>"
  let ?k = "new_handler ''/srv/app'' ?q"
  have len16: "length note_hello = 16"
    by (simp add: note_hello_def)
  have count16: "toy_int ''16'' = Some 16"
    by (simp add: toy_int_def toy_digits_def)
  have rd16: "rfile_read toy_env 16 ?k = Inr (note_hello, ?k\<lparr>rfile := []\<rparr>)"
    by (simp add: rfile_read_def toy_alloc_error_def len16)
  have dec: "utf8_decode note_hello = Some (ustr_of note_hello)"
    by (simp add: note_hello_def ustr_of_def)
  have hello: "toy_loads (ustr_of note_hello)
               = Inr (JDict [(ustr_of ''note'', JStr (ustr_of ''hello''))])"
    by (simp add: toy_loads_def)
  have stamp: "str_int 1700000000 = ''1700000000''"
    by (simp add: str_int_def str_nat.simps digit_char_def)
  have second: "process_request GeolocationTestHandler_handle ''/srv/app'' toy_env ?q
     = Handled
       [Body (utf8_encode (toy_text
          (JDict [(ustr_of ''success'', JBool True),
                  (ustr_of ''id'', JStr (ustr_of ''journal_1700000000'')),
                  (ustr_of ''message'', JStr (ustr_of ''Journal entry created successfully'')),
                  (ustr_of ''data'', JDict [(ustr_of ''note'', JStr (ustr_of ''hello''))])])))]
       None"
    by (simp add: process_request_def GeolocationTestHandler_handle_def do_POST_def count16 rd16
        dec hello send_json_response_def journal_response_def stamp toy_dumps_def toy_limit_def)
  show ?thesis
    using first parsed second by simp
qed
text \<open>
  C2, as amended. A POST to \<^verbatim>\<open>/api/journal/create\<close> whose request line names a version
  other than \<^verbatim>\<open>HTTP/0.9\<close>, with an integer \<^verbatim>\<open>Content-Length\<close> that the reader accepts,
  whose body as read decodes as UTF-8 to a text that \<^verbatim>\<open>json.loads\<close> rejects with
  \<open>JSONDecodeError\<close>, is answered by exactly one header block with status 400 and the
  JSON text of \<^verbatim>\<open>{"error": "Invalid JSON data"}\<close>. The handler raises nothing, and
  when it returns the handler object is as it was after the body was read, but for the
  reply written: no other field has changed. The requests that follow are served as if
  this one had not come.
\<close>

theorem invalid_json_answered_400:
  assumes "req_command r = ''POST''"
    and "req_version r \<noteq> ''HTTP/0.9''"
    and "req_path r = ''/api/journal/create''"
    and "headers_get (req_headers r) ''Content-Length'' = Some v"
    and "py_int e v = Some n"
    and "rfile_read e n (new_handler cwd r) = Inr (post_data, h1)"
    and "utf8_decode post_data = Some decoded"
    and "json_loads e decoded = Inl JSONDecodeError"
    and "json_dumps e None (JDict [(ustr_of ''error'', JStr (ustr_of ''Invalid JSON data''))])
         = Inr reply"
  shows "GeolocationTestHandler_handle e (new_handler cwd r) =
           (None,
            h1\<lparr>wfile :=
              [Head [StatusLine 400 (reason_phrase e 400),
                     Header ''Server'' (version_string e),
                     Header ''Date'' (date_time_string e),
                     Header ''Content-Type'' ''application/json'',
                     Header ''Access-Control-Allow-Origin'' ''*'',
                     Header ''Access-Control-Allow-Origin'' ''*'',
                     Header ''Access-Control-Allow-Methods'' ''GET, POST, OPTIONS'',
                     Header ''Access-Control-Allow-Headers'' ''Content-Type'',
                     Blank],
               Body (utf8_encode reply)]\<rparr>) \<and>
         serve_forever GeolocationTestHandler_handle cwd (Request e r # rest) =
           (Handled
              [Head [StatusLine 400 (reason_phrase e 400),
                     Header ''Server'' (version_string e),
                     Header ''Date'' (date_time_string e),
                     Header ''Content-Type'' ''application/json'',
                     Header ''Access-Control-Allow-Origin'' ''*'',
                     Header ''Access-Control-Allow-Origin'' ''*'',
                     Header ''Access-Control-Allow-Methods'' ''GET, POST, OPTIONS'',
                     Header ''Access-Control-Allow-Headers'' ''Content-Type'',
                     Blank],
               Body (utf8_encode reply)]
              None
            # fst (serve_forever GeolocationTestHandler_handle cwd rest),
            snd (serve_forever GeolocationTestHandler_handle cwd rest))"
proof -
  let ?reply = "[Head [StatusLine 400 (reason_phrase e 400),
                       Header ''Server'' (version_string e),
                       Header ''Date'' (date_time_string e),
                       Header ''Content-Type'' ''application/json'',
                       Header ''Access-Control-Allow-Origin'' ''*'',
                       Header ''Access-Control-Allow-Origin'' ''*'',
                       Header ''Access-Control-Allow-Methods'' ''GET, POST, OPTIONS'',
                       Header ''Access-Control-Allow-Headers'' ''Content-Type'',
                       Blank],
                 Body (utf8_encode reply)]"
  have same: "wfile h1 = []" "headers_buffer h1 = []" "request_version h1 \<noteq> ''HTTP/0.9''"
    using assms(2,6) by (auto simp add: rfile_read_def split: if_splits option.splits)
  have routed: "do_POST e (new_handler cwd r)
        = send_error_response e (ustr_of ''Invalid JSON data'') h1"
    using assms(3-8) by (simp add: do_POST_def)
  have "snd (send_error_response e (ustr_of ''Invalid JSON data'') h1) = h1\<lparr>wfile := ?reply\<rparr>"
    using same assms(9)
    by (intro handler.equality)
      (simp_all add: send_error_response_def GeolocationTestHandler_end_headers_def
        Base_end_headers_def flush_headers_def send_response_def send_response_only_def
        send_header_def wfile_write_def eval_chars)
  moreover have "fst (send_error_response e (ustr_of ''Invalid JSON data'') h1) = None"
    by (rule send_error_response_writes(1) [OF assms(9)])
  ultimately have sent: "send_error_response e (ustr_of ''Invalid JSON data'') h1
      = (None, h1\<lparr>wfile := ?reply\<rparr>)"
    by (simp add: prod_eq_iff)
  have handled: "GeolocationTestHandler_handle e (new_handler cwd r)
      = (None, h1\<lparr>wfile := ?reply\<rparr>)"
    using assms(1) routed sent by (simp add: GeolocationTestHandler_handle_def)
  then show ?thesis
    by (simp add: process_request_def case_prod_beta)
qed

theorem invalid_json_answered_400_witness:
  "GeolocationTestHandler_handle toy_env
     (new_handler ''/srv/app''
        (toy_request ''POST'' ''/api/journal/create'' [(''Content-Length'', ''8'')] ''not-json''))
   = (None,
      (new_handler ''/srv/app''
         (toy_request ''POST'' ''/api/journal/create'' [(''Content-Length'', ''8'')] ''not-json''))
      \<lparr>rfile := [],
       wfile :=
        [Head [StatusLine 400 ''Bad Request'',
                Header ''Server'' ''SimpleHTTP/0.6 Python/3.11.10'',
                Header ''Date'' ''Tue, 14 Nov 2023 22:13:20 GMT'',
                Header ''Content-Type'' ''application/json'',
                Header ''Access-Control-Allow-Origin'' ''*'',
                Header ''Access-Control-Allow-Origin'' ''*'',
                Header ''Access-Control-Allow-Methods'' ''GET, POST, OPTIONS'',
                Header ''Access-Control-Allow-Headers'' ''Content-Type'',
                Blank],
          Body (utf8_encode (toy_text
                  (JDict [(ustr_of ''error'', JStr (ustr_of ''Invalid JSON data''))])))]\<rparr>)
   \<and> serve_forever GeolocationTestHandler_handle ''/srv/app''
     [Request toy_env
        (toy_request ''POST'' ''/api/journal/create'' [(''Content-Length'', ''8'')] ''not-json''),
      Request toy_env (toy_request ''POST'' ''/api/other'' [] [])]
   = ([Handled
         [Head [StatusLine 400 ''Bad Request'',
                Header ''Server'' ''SimpleHTTP/0.6 Python/3.11.10'',
                Header ''Date'' ''Tue, 14 Nov 2023 22:13:20 GMT'',
                Header ''Content-Type'' ''application/json'',
                Header ''Access-Control-Allow-Origin'' ''*'',
                Header ''Access-Control-Allow-Origin'' ''*'',
                Header ''Access-Control-Allow-Methods'' ''GET, POST, OPTIONS'',
                Header ''Access-Control-Allow-Headers'' ''Content-Type'',
                Blank],
          Body (utf8_encode (toy_text
                  (JDict [(ustr_of ''error'', JStr (ustr_of ''Invalid JSON data''))])))]
         None,
       Handled [] None],
      False)"
proof -
  let ?r = "toy_request ''POST'' ''/api/journal/create'' [(''Content-Length'', ''8'')]
              ''not-json''"
  let ?h = "new_handler ''/srv/app'' ?r"
  have post: "req_command ?r = ''POST''"
    and version: "req_version ?r \<noteq> ''HTTP/0.9''"
    and target: "req_path ?r = ''/api/journal/create''"
    and header: "headers_get (req_headers ?r) ''Content-Length'' = Some ''8''"
    by simp_all
  have count: "py_int toy_env ''8'' = Some 8"
    by (simp add: toy_int_def toy_digits_def)
  have rd: "rfile_read toy_env 8 ?h = Inr (''not-json'', ?h\<lparr>rfile := []\<rparr>)"
    by (simp add: rfile_read_def toy_alloc_error_def)
  have dec: "utf8_decode ''not-json'' = Some (ustr_of ''not-json'')"
    by (simp add: ustr_of_def)
  have rej: "json_loads toy_env (ustr_of ''not-json'') = Inl JSONDecodeError"
    by (simp add: toy_loads_def note_hello_def ustr_of_def brackets_def)
  have dumped: "json_dumps toy_env None
        (JDict [(ustr_of ''error'', JStr (ustr_of ''Invalid JSON data''))])
      = Inr (toy_text (JDict [(ustr_of ''error'', JStr (ustr_of ''Invalid JSON data''))]))"
    by (simp add: toy_dumps_def toy_limit_def)
  have other: "process_request GeolocationTestHandler_handle ''/srv/app'' toy_env
                 (toy_request ''POST'' ''/api/other'' [] []) = Handled [] None"
    by (simp add: process_request_def GeolocationTestHandler_handle_def do_POST_def)
  show ?thesis
    using invalid_json_answered_400
      [OF post version target header count rd dec rej dumped,
       where rest = "[Request toy_env (toy_request ''POST'' ''/api/other'' [] [])]"]
    by (simp add: other)
qed

text \<open>
  C2 as written, refuted. A body that is not UTF-8 (the single byte 0xFF, with
  \<^verbatim>\<open>Content-Length: 1\<close>) cannot be parsed as JSON and gets no reply at all: the decoding
  stands inside the \<^verbatim>\<open>try\<close> and raises \<open>UnicodeDecodeError\<close>. The body \<^verbatim>\<open>not-json\<close>
  gets none either when it is sent with \<^verbatim>\<open>Content-Length: 9223372036854775808\<close>, with
  \<^verbatim>\<open>Content-Length: 4611686018427387904\<close> or with \<^verbatim>\<open>Content-Length: -5\<close>: the read
  raises \<open>OverflowError\<close>, \<open>MemoryError\<close> and \<open>ValueError\<close>, before the \<^verbatim>\<open>try\<close>. And
  under a request line that names \<^verbatim>\<open>HTTP/0.9\<close> the same body is answered with the error
  object alone, without a status line.
\<close>

theorem unparsable_body_without_400:
  "serve_forever GeolocationTestHandler_handle ''/srv/app''
     [Request toy_env
        (toy_request ''POST'' ''/api/journal/create'' [(''Content-Length'', ''1'')] [CHR 0xFF])]
   = ([Handled [] (Some UnicodeDecodeError)], False)
   \<and> serve_forever GeolocationTestHandler_handle ''/srv/app''
     [Request toy_env
        (toy_request ''POST'' ''/api/journal/create''
           [(''Content-Length'', ''9223372036854775808'')] ''not-json'')]
   = ([Handled [] (Some OverflowError)], False)
   \<and> serve_forever GeolocationTestHandler_handle ''/srv/app''
     [Request toy_env
        (toy_request ''POST'' ''/api/journal/create''
           [(''Content-Length'', ''4611686018427387904'')] ''not-json'')]
   = ([Handled [] (Some MemoryError)], False)
   \<and> serve_forever GeolocationTestHandler_handle ''/srv/app''
     [Request toy_env
        (toy_request ''POST'' ''/api/journal/create'' [(''Content-Length'', ''-5'')] ''not-json'')]
   = ([Handled [] (Some ValueError)], False)
   \<and> serve_forever GeolocationTestHandler_handle ''/srv/app''
     [Request toy_env
        ((toy_request ''POST'' ''/api/journal/create'' [(''Content-Length'', ''8'')] ''not-json'')
           \<lparr>req_version := ''HTTP/0.9''\<rparr>)]
   = ([Handled
         [Body (utf8_encode (toy_text
                  (JDict [(ustr_of ''error'', JStr (ustr_of ''Invalid JSON data''))])))]
         None],
      False)"
proof -
  have first: "process_request GeolocationTestHandler_handle ''/srv/app'' toy_env
      (toy_request ''POST'' ''/api/journal/create'' [(''Content-Length'', ''1'')] [CHR 0xFF])
    = Handled [] (Some UnicodeDecodeError)"
    by (simp add: process_request_def GeolocationTestHandler_handle_def do_POST_def
        toy_int_def toy_digits_def toy_alloc_error_def rfile_read_def)
  have huge: "toy_int ''9223372036854775808'' = Some 9223372036854775808"
    by (simp add: toy_int_def toy_digits_def)
  have second: "process_request GeolocationTestHandler_handle ''/srv/app'' toy_env
      (toy_request ''POST'' ''/api/journal/create''
         [(''Content-Length'', ''9223372036854775808'')] ''not-json'')
    = Handled [] (Some OverflowError)"
    by (simp add: process_request_def GeolocationTestHandler_handle_def do_POST_def
        huge rfile_read_def)
  have large: "toy_int ''4611686018427387904'' = Some 4611686018427387904"
    and negative: "toy_int ''-5'' = Some (- 5)"
    by (simp_all add: toy_int_def toy_digits_def)
  have memory: "process_request GeolocationTestHandler_handle ''/srv/app'' toy_env
      (toy_request ''POST'' ''/api/journal/create''
         [(''Content-Length'', ''4611686018427387904'')] ''not-json'')
    = Handled [] (Some MemoryError)"
    by (simp add: process_request_def GeolocationTestHandler_handle_def do_POST_def
        large rfile_read_def toy_alloc_error_def)
  have below: "process_request GeolocationTestHandler_handle ''/srv/app'' toy_env
      (toy_request ''POST'' ''/api/journal/create'' [(''Content-Length'', ''-5'')] ''not-json'')
    = Handled [] (Some ValueError)"
    by (simp add: process_request_def GeolocationTestHandler_handle_def do_POST_def
        negative rfile_read_def)
  have count: "toy_int ''8'' = Some 8"
    by (simp add: toy_int_def toy_digits_def)
  have rej: "toy_loads (ustr_of ''not-json'') = Inl JSONDecodeError"
    by (simp add: toy_loads_def note_hello_def ustr_of_def brackets_def)
  then have rej': "toy_loads [110, 111, 116, 45, 106, 115, 111, 110] = Inl JSONDecodeError"
    by (simp add: ustr_of_def)
  have third: "process_request GeolocationTestHandler_handle ''/srv/app'' toy_env
      ((toy_request ''POST'' ''/api/journal/create'' [(''Content-Length'', ''8'')] ''not-json'')
         \<lparr>req_version := ''HTTP/0.9''\<rparr>)
    = Handled
        [Body (utf8_encode (toy_text
                 (JDict [(ustr_of ''error'', JStr (ustr_of ''Invalid JSON data''))])))]
        None"
    by (simp add: process_request_def GeolocationTestHandler_handle_def do_POST_def count
        rfile_read_def toy_alloc_error_def rej' send_error_response_def toy_dumps_def
        toy_limit_def)
  show ?thesis
    using first second memory below third by simp
qed
section \<open>GET requests of the mock API server\<close>

lemma serve_test_interface_page:
  assumes "read_text e ''geolocation-test-server.html'' = Inr content"
  shows "fst (serve_test_interface e h) = None \<and>
         wfile (snd (serve_test_interface e h)) =
           wfile h @
             (if request_version h \<noteq> ''HTTP/0.9'' then
                [Head (headers_buffer h @
                   [StatusLine 200 (reason_phrase e 200),
                    Header ''Server'' (version_string e),
                    Header ''Date'' (date_time_string e),
                    Header ''Content-Type'' ''text/html'',
                    Header ''Content-Length'' (str_nat (length content)),
                    Header ''Access-Control-Allow-Origin'' ''*'',
                    Header ''Access-Control-Allow-Methods'' ''GET, POST, OPTIONS'',
                    Header ''Access-Control-Allow-Headers'' ''Content-Type'',
                    Blank])]
              else [])
             @ [Body (utf8_encode content)]"
  using assms
  by (simp add: serve_test_interface_def)

lemma serve_test_interface_missing:
  assumes "read_text e ''geolocation-test-server.html'' = Inl FileNotFoundError"
  shows "fst (serve_test_interface e h) = None \<and>
         wfile (snd (serve_test_interface e h)) =
           wfile h @
             (if request_version h \<noteq> ''HTTP/0.9'' then
                [Head (headers_buffer h @
                   [StatusLine 404 ''Test interface not found'',
                    Header ''Server'' (version_string e),
                    Header ''Date'' (date_time_string e),
                    Header ''Connection'' ''close'',
                    Header ''Content-Type'' ''text/html;charset=utf-8'',
                    Header ''Content-Length''
                   (str_nat (length (error_page e 404 ''Test interface not found''))),
                    Header ''Access-Control-Allow-Origin'' ''*'',
                    Header ''Access-Control-Allow-Methods'' ''GET, POST, OPTIONS'',
                    Header ''Access-Control-Allow-Headers'' ''Content-Type'',
                    Blank])]
              else [])
             @ (if command h \<noteq> ''HEAD'' \<and> error_page e 404 ''Test interface not found'' \<noteq> []
                then [Body (error_page e 404 ''Test interface not found'')] else [])"
  using assms
  by (simp add: serve_test_interface_def send_error_def Let_def)

lemma static_file_reply:
  assumes "\<not> isdir e (translate_path e (directory h) (path h))"
    and "\<not> endswith (translate_path e (directory h) (path h)) ''/''"
    and "open_rb e (translate_path e (directory h) (path h)) = Some f"
    and "\<not> not_modified e (headers h) f"
  shows "wfile (snd (Simple_do_GET GeolocationTestHandler_end_headers
                         (\<lambda>q. Inr (Simple_guess_type e q)) e h)) =
           wfile h @
             (if request_version h \<noteq> ''HTTP/0.9'' then
                [Head (headers_buffer h @
                   [StatusLine 200 (reason_phrase e 200),
                    Header ''Server'' (version_string e),
                    Header ''Date'' (date_time_string e),
                    Header ''Content-type''
                   (Simple_guess_type e (translate_path e (directory h) (path h))),
                    Header ''Content-Length'' (str_nat (file_len f)),
                    Header ''Last-Modified'' (file_mtime f),
                    Header ''Access-Control-Allow-Origin'' ''*'',
                    Header ''Access-Control-Allow-Methods'' ''GET, POST, OPTIONS'',
                    Header ''Access-Control-Allow-Headers'' ''Content-Type'',
                    Blank])]
              else [])
             @ [Body (file_data f)]"
  using assms
  by (simp add: Simple_do_GET_def send_head_def send_file_head_def Let_def)

text \<open>
  C3, as amended. \<^verbatim>\<open>do_GET\<close> compares the path component that \<^verbatim>\<open>urlparse\<close> finds in the
  request target, in this order: \<^verbatim>\<open>/\<close> or \<^verbatim>\<open>/test\<close> goes to \<^verbatim>\<open>serve_test_interface\<close>,
  which sends the contents of the local page as \<^verbatim>\<open>text/html\<close> when the file can be
  read, and the library's 404 page with the message \<^verbatim>\<open>Test interface not found\<close> when
  the file does not exist; \<^verbatim>\<open>/api/weather\<close>, \<^verbatim>\<open>/api/location\<close> and \<^verbatim>\<open>/api/journal\<close>
  send, as \<^verbatim>\<open>application/json\<close>, the text that \<^verbatim>\<open>json.dumps\<close> makes of the fixed
  weather, location and status objects, each spelled out below with the current time in
  its last field; every other path is handed to the library's static file handler, which
  looks the file up under the handler's directory. The directory of a handler made for a
  request is the working directory of the server. Each reply is one header block and the
  body; under a request line of version \<^verbatim>\<open>HTTP/0.9\<close> the library leaves the header
  block out, the content type with it, and the body goes out alone.
\<close>

theorem do_GET_dispatch:
  assumes "urlparse_path e (path h) = Inr p"
  shows "(p = ''/'' \<or> p = ''/test'' \<longrightarrow> do_GET e h = serve_test_interface e h) \<and>
         (p = ''/api/weather'' \<and>
          json_dumps e (Some 2)
            (JDict
             [(ustr_of ''temperature'', JFloat ''72.5''),
              (ustr_of ''temperatureCelsius'', JFloat ''22.5''),
              (ustr_of ''condition'', JStr (ustr_of ''Clear'')),
              (ustr_of ''description'', JStr (ustr_of ''Clear sky with light breeze'')),
              (ustr_of ''humidity'', JInt 65),
              (ustr_of ''windSpeed'', JFloat ''8.5''),
              (ustr_of ''windDirection'', JStr (ustr_of ''NW'')),
              (ustr_of ''pressure'', JInt 1013),
              (ustr_of ''visibility'', JInt 10),
              (ustr_of ''feelsLike'', JFloat ''70.2''),
              (ustr_of ''uvIndex'', JInt 5),
              (ustr_of ''sunrise'', JStr (ustr_of ''06:45'')),
              (ustr_of ''sunset'', JStr (ustr_of ''19:30'')),
              (ustr_of ''timestamp'', JStr (ustr_of (now_isoformat e)))]) = Inr reply \<longrightarrow>
            fst (do_GET e h) = None \<and>
            wfile (snd (do_GET e h)) =
              wfile h @
                (if request_version h \<noteq> ''HTTP/0.9'' then
                   [Head (headers_buffer h @
                      [StatusLine 200 (reason_phrase e 200),
                       Header ''Server'' (version_string e),
                       Header ''Date'' (date_time_string e),
                       Header ''Content-Type'' ''application/json'',
                       Header ''Access-Control-Allow-Origin'' ''*'',
                       Header ''Content-Length'' (str_nat (length reply)),
                       Header ''Access-Control-Allow-Origin'' ''*'',
                       Header ''Access-Control-Allow-Methods'' ''GET, POST, OPTIONS'',
                       Header ''Access-Control-Allow-Headers'' ''Content-Type'',
                       Blank])]
                 else [])
                @ [Body (utf8_encode reply)]) \<and>
         (p = ''/api/location'' \<and>
          json_dumps e (Some 2)
            (JDict
             [(ustr_of ''verified'', JBool True),
              (ustr_of ''address'', JStr (ustr_of ''1234 Farm Road, Ames, IA 50011'')),
              (ustr_of ''locationType'', JStr (ustr_of ''Agricultural Facility'')),
              (ustr_of ''nearbyLandmarks'',
               JList [JStr (ustr_of ''Iowa State University Farm''),
                      JStr (ustr_of ''Agricultural Research Station''),
                      JStr (ustr_of ''FFA Training Center'')]),
              (ustr_of ''timestamp'', JStr (ustr_of (now_isoformat e)))]) = Inr reply \<longrightarrow>
            fst (do_GET e h) = None \<and>
            wfile (snd (do_GET e h)) =
              wfile h @
                (if request_version h \<noteq> ''HTTP/0.9'' then
                   [Head (headers_buffer h @
                      [StatusLine 200 (reason_phrase e 200),
                       Header ''Server'' (version_string e),
                       Header ''Date'' (date_time_string e),
                       Header ''Content-Type'' ''application/json'',
                       Header ''Access-Control-Allow-Origin'' ''*'',
                       Header ''Content-Length'' (str_nat (length reply)),
                       Header ''Access-Control-Allow-Origin'' ''*'',
                       Header ''Access-Control-Allow-Methods'' ''GET, POST, OPTIONS'',
                       Header ''Access-Control-Allow-Headers'' ''Content-Type'',
                       Blank])]
                 else [])
                @ [Body (utf8_encode reply)]) \<and>
         (p = ''/api/journal'' \<and>
          json_dumps e (Some 2)
            (JDict
             [(ustr_of ''system'', JStr (ustr_of ''operational'')),
              (ustr_of ''database'', JStr (ustr_of ''connected'')),
              (ustr_of ''n8n'', JStr (ustr_of ''ready'')),
              (ustr_of ''supabase'', JStr (ustr_of ''connected'')),
              (ustr_of ''entriesCount'', JInt 42),
              (ustr_of ''lastEntry'', JStr (ustr_of (now_isoformat e)))]) = Inr reply \<longrightarrow>
            fst (do_GET e h) = None \<and>
            wfile (snd (do_GET e h)) =
              wfile h @
                (if request_version h \<noteq> ''HTTP/0.9'' then
                   [Head (headers_buffer h @
                      [StatusLine 200 (reason_phrase e 200),
                       Header ''Server'' (version_string e),
                       Header ''Date'' (date_time_string e),
                       Header ''Content-Type'' ''application/json'',
                       Header ''Access-Control-Allow-Origin'' ''*'',
                       Header ''Content-Length'' (str_nat (length reply)),
                       Header ''Access-Control-Allow-Origin'' ''*'',
                       Header ''Access-Control-Allow-Methods'' ''GET, POST, OPTIONS'',
                       Header ''Access-Control-Allow-Headers'' ''Content-Type'',
                       Blank])]
                 else [])
                @ [Body (utf8_encode reply)]) \<and>
         (p \<notin> {''/'', ''/test'', ''/api/weather'', ''/api/location'', ''/api/journal''} \<longrightarrow>
            do_GET e h =
              Simple_do_GET GeolocationTestHandler_end_headers
                (\<lambda>q. Inr (Simple_guess_type e q)) e h) \<and>
         (read_text e ''geolocation-test-server.html'' = Inr content \<longrightarrow>
            fst (serve_test_interface e h) = None \<and>
            wfile (snd (serve_test_interface e h)) =
              wfile h @
                (if request_version h \<noteq> ''HTTP/0.9'' then
                   [Head (headers_buffer h @
                      [StatusLine 200 (reason_phrase e 200),
                       Header ''Server'' (version_string e),
                       Header ''Date'' (date_time_string e),
                       Header ''Content-Type'' ''text/html'',
                       Header ''Content-Length'' (str_nat (length content)),
                       Header ''Access-Control-Allow-Origin'' ''*'',
                       Header ''Access-Control-Allow-Methods'' ''GET, POST, OPTIONS'',
                       Header ''Access-Control-Allow-Headers'' ''Content-Type'',
                       Blank])]
                 else [])
                @ [Body (utf8_encode content)]) \<and>
         (read_text e ''geolocation-test-server.html'' = Inl FileNotFoundError \<longrightarrow>
            fst (serve_test_interface e h) = None \<and>
            wfile (snd (serve_test_interface e h)) =
              wfile h @
                (if request_version h \<noteq> ''HTTP/0.9'' then
                   [Head (headers_buffer h @
                      [StatusLine 404 ''Test interface not found'',
                       Header ''Server'' (version_string e),
                       Header ''Date'' (date_time_string e),
                       Header ''Connection'' ''close'',
                       Header ''Content-Type'' ''text/html;charset=utf-8'',
                       Header ''Content-Length''
                   (str_nat (length (error_page e 404 ''Test interface not found''))),
                       Header ''Access-Control-Allow-Origin'' ''*'',
                       Header ''Access-Control-Allow-Methods'' ''GET, POST, OPTIONS'',
                       Header ''Access-Control-Allow-Headers'' ''Content-Type'',
                       Blank])]
                 else [])
                @ (if command h \<noteq> ''HEAD'' \<and> error_page e 404 ''Test interface not found'' \<noteq> []
                   then [Body (error_page e 404 ''Test interface not found'')] else [])) \<and>
         (\<not> isdir e (translate_path e (directory h) (path h)) \<and>
          \<not> endswith (translate_path e (directory h) (path h)) ''/'' \<and>
          open_rb e (translate_path e (directory h) (path h)) = Some f \<and>
          \<not> not_modified e (headers h) f \<longrightarrow>
            wfile (snd (Simple_do_GET GeolocationTestHandler_end_headers
                         (\<lambda>q. Inr (Simple_guess_type e q)) e h)) =
              wfile h @
                (if request_version h \<noteq> ''HTTP/0.9'' then
                   [Head (headers_buffer h @
                      [StatusLine 200 (reason_phrase e 200),
                       Header ''Server'' (version_string e),
                       Header ''Date'' (date_time_string e),
                       Header ''Content-type''
                   (Simple_guess_type e (translate_path e (directory h) (path h))),
                       Header ''Content-Length'' (str_nat (file_len f)),
                       Header ''Last-Modified'' (file_mtime f),
                       Header ''Access-Control-Allow-Origin'' ''*'',
                       Header ''Access-Control-Allow-Methods'' ''GET, POST, OPTIONS'',
                       Header ''Access-Control-Allow-Headers'' ''Content-Type'',
                       Blank])]
                 else [])
                @ [Body (file_data f)]) \<and>
         directory (new_handler cwd r) = cwd"
proof (intro conjI impI)
  show "do_GET e h = serve_test_interface e h" if "p = ''/'' \<or> p = ''/test''"
    using assms that by (auto simp add: do_GET_def)
  {
    assume r: "p = ''/api/weather'' \<and>
        json_dumps e (Some 2)
          (JDict
           [(ustr_of ''temperature'', JFloat ''72.5''),
            (ustr_of ''temperatureCelsius'', JFloat ''22.5''),
            (ustr_of ''condition'', JStr (ustr_of ''Clear'')),
            (ustr_of ''description'', JStr (ustr_of ''Clear sky with light breeze'')),
            (ustr_of ''humidity'', JInt 65),
            (ustr_of ''windSpeed'', JFloat ''8.5''),
            (ustr_of ''windDirection'', JStr (ustr_of ''NW'')),
            (ustr_of ''pressure'', JInt 1013),
            (ustr_of ''visibility'', JInt 10),
            (ustr_of ''feelsLike'', JFloat ''70.2''),
            (ustr_of ''uvIndex'', JInt 5),
            (ustr_of ''sunrise'', JStr (ustr_of ''06:45'')),
            (ustr_of ''sunset'', JStr (ustr_of ''19:30'')),
            (ustr_of ''timestamp'', JStr (ustr_of (now_isoformat e)))]) = Inr reply"
    then have d: "do_GET e h = send_json_response e (weather_data e) h"
      and j: "json_dumps e (Some 2) (weather_data e) = Inr reply"
      using assms by (simp_all add: do_GET_def serve_mock_weather_def weather_data_def)
    show "fst (do_GET e h) = None"
      unfolding d by (rule send_json_response_writes(1) [OF j])
    show "wfile (snd (do_GET e h)) =
           wfile h @
             (if request_version h \<noteq> ''HTTP/0.9'' then
                [Head (headers_buffer h @
                   [StatusLine 200 (reason_phrase e 200),
                    Header ''Server'' (version_string e),
                    Header ''Date'' (date_time_string e),
                    Header ''Content-Type'' ''application/json'',
                    Header ''Access-Control-Allow-Origin'' ''*'',
                    Header ''Content-Length'' (str_nat (length reply)),
                    Header ''Access-Control-Allow-Origin'' ''*'',
                    Header ''Access-Control-Allow-Methods'' ''GET, POST, OPTIONS'',
                    Header ''Access-Control-Allow-Headers'' ''Content-Type'',
                    Blank])]
              else [])
             @ [Body (utf8_encode reply)]"
      unfolding d by (rule send_json_response_writes(2) [OF j])
  }
  {
    assume r: "p = ''/api/location'' \<and>
        json_dumps e (Some 2)
          (JDict
           [(ustr_of ''verified'', JBool True),
            (ustr_of ''address'', JStr (ustr_of ''1234 Farm Road, Ames, IA 50011'')),
            (ustr_of ''locationType'', JStr (ustr_of ''Agricultural Facility'')),
            (ustr_of ''nearbyLandmarks'',
             JList [JStr (ustr_of ''Iowa State University Farm''),
                    JStr (ustr_of ''Agricultural Research Station''),
                    JStr (ustr_of ''FFA Training Center'')]),
            (ustr_of ''timestamp'', JStr (ustr_of (now_isoformat e)))]) = Inr reply"
    then have d: "do_GET e h = send_json_response e (location_data e) h"
      and j: "json_dumps e (Some 2) (location_data e) = Inr reply"
      using assms by (simp_all add: do_GET_def serve_mock_location_def location_data_def)
    show "fst (do_GET e h) = None"
      unfolding d by (rule send_json_response_writes(1) [OF j])
    show "wfile (snd (do_GET e h)) =
           wfile h @
             (if request_version h \<noteq> ''HTTP/0.9'' then
                [Head (headers_buffer h @
                   [StatusLine 200 (reason_phrase e 200),
                    Header ''Server'' (version_string e),
                    Header ''Date'' (date_time_string e),
                    Header ''Content-Type'' ''application/json'',
                    Header ''Access-Control-Allow-Origin'' ''*'',
                    Header ''Content-Length'' (str_nat (length reply)),
                    Header ''Access-Control-Allow-Origin'' ''*'',
                    Header ''Access-Control-Allow-Methods'' ''GET, POST, OPTIONS'',
                    Header ''Access-Control-Allow-Headers'' ''Content-Type'',
                    Blank])]
              else [])
             @ [Body (utf8_encode reply)]"
      unfolding d by (rule send_json_response_writes(2) [OF j])
  }
  {
    assume r: "p = ''/api/journal'' \<and>
        json_dumps e (Some 2)
          (JDict
           [(ustr_of ''system'', JStr (ustr_of ''operational'')),
            (ustr_of ''database'', JStr (ustr_of ''connected'')),
            (ustr_of ''n8n'', JStr (ustr_of ''ready'')),
            (ustr_of ''supabase'', JStr (ustr_of ''connected'')),
            (ustr_of ''entriesCount'', JInt 42),
            (ustr_of ''lastEntry'', JStr (ustr_of (now_isoformat e)))]) = Inr reply"
    then have d: "do_GET e h = send_json_response e (journal_status e) h"
      and j: "json_dumps e (Some 2) (journal_status e) = Inr reply"
      using assms by (simp_all add: do_GET_def serve_journal_status_def journal_status_def)
    show "fst (do_GET e h) = None"
      unfolding d by (rule send_json_response_writes(1) [OF j])
    show "wfile (snd (do_GET e h)) =
           wfile h @
             (if request_version h \<noteq> ''HTTP/0.9'' then
                [Head (headers_buffer h @
                   [StatusLine 200 (reason_phrase e 200),
                    Header ''Server'' (version_string e),
                    Header ''Date'' (date_time_string e),
                    Header ''Content-Type'' ''application/json'',
                    Header ''Access-Control-Allow-Origin'' ''*'',
                    Header ''Content-Length'' (str_nat (length reply)),
                    Header ''Access-Control-Allow-Origin'' ''*'',
                    Header ''Access-Control-Allow-Methods'' ''GET, POST, OPTIONS'',
                    Header ''Access-Control-Allow-Headers'' ''Content-Type'',
                    Blank])]
              else [])
             @ [Body (utf8_encode reply)]"
      unfolding d by (rule send_json_response_writes(2) [OF j])
  }
  show "do_GET e h =
          Simple_do_GET GeolocationTestHandler_end_headers (\<lambda>q. Inr (Simple_guess_type e q)) e h"
    if "p \<notin> {''/'', ''/test'', ''/api/weather'', ''/api/location'', ''/api/journal''}"
    using assms that by (simp add: do_GET_def)
  show "fst (serve_test_interface e h) = None"
    if "read_text e ''geolocation-test-server.html'' = Inr content"
    using serve_test_interface_page [OF that] by simp
  show "wfile (snd (serve_test_interface e h)) =
           wfile h @
             (if request_version h \<noteq> ''HTTP/0.9'' then
                [Head (headers_buffer h @
                   [StatusLine 200 (reason_phrase e 200),
                    Header ''Server'' (version_string e),
                    Header ''Date'' (date_time_string e),
                    Header ''Content-Type'' ''text/html'',
                    Header ''Content-Length'' (str_nat (length content)),
                    Header ''Access-Control-Allow-Origin'' ''*'',
                    Header ''Access-Control-Allow-Methods'' ''GET, POST, OPTIONS'',
                    Header ''Access-Control-Allow-Headers'' ''Content-Type'',
                    Blank])]
              else [])
             @ [Body (utf8_encode content)]"
    if "read_text e ''geolocation-test-server.html'' = Inr content"
    using serve_test_interface_page [OF that] by simp
  show "fst (serve_test_interface e h) = None"
    if "read_text e ''geolocation-test-server.html'' = Inl FileNotFoundError"
    using serve_test_interface_missing [OF that] by simp
  show "wfile (snd (serve_test_interface e h)) =
           wfile h @
             (if request_version h \<noteq> ''HTTP/0.9'' then
                [Head (headers_buffer h @
                   [StatusLine 404 ''Test interface not found'',
                    Header ''Server'' (version_string e),
                    Header ''Date'' (date_time_string e),
                    Header ''Connection'' ''close'',
                    Header ''Content-Type'' ''text/html;charset=utf-8'',
                    Header ''Content-Length''
                   (str_nat (length (error_page e 404 ''Test interface not found''))),
                    Header ''Access-Control-Allow-Origin'' ''*'',
                    Header ''Access-Control-Allow-Methods'' ''GET, POST, OPTIONS'',
                    Header ''Access-Control-Allow-Headers'' ''Content-Type'',
                    Blank])]
              else [])
             @ (if command h \<noteq> ''HEAD'' \<and> error_page e 404 ''Test interface not found'' \<noteq> []
                then [Body (error_page e 404 ''Test interface not found'')] else [])"
    if "read_text e ''geolocation-test-server.html'' = Inl FileNotFoundError"
    using serve_test_interface_missing [OF that] by simp
  show "wfile (snd (Simple_do_GET GeolocationTestHandler_end_headers
                         (\<lambda>q. Inr (Simple_guess_type e q)) e h)) =
           wfile h @
             (if request_version h \<noteq> ''HTTP/0.9'' then
                [Head (headers_buffer h @
                   [StatusLine 200 (reason_phrase e 200),
                    Header ''Server'' (version_string e),
                    Header ''Date'' (date_time_string e),
                    Header ''Content-type''
                   (Simple_guess_type e (translate_path e (directory h) (path h))),
                    Header ''Content-Length'' (str_nat (file_len f)),
                    Header ''Last-Modified'' (file_mtime f),
                    Header ''Access-Control-Allow-Origin'' ''*'',
                    Header ''Access-Control-Allow-Methods'' ''GET, POST, OPTIONS'',
                    Header ''Access-Control-Allow-Headers'' ''Content-Type'',
                    Blank])]
              else [])
             @ [Body (file_data f)]"
    if "\<not> isdir e (translate_path e (directory h) (path h)) \<and>
        \<not> endswith (translate_path e (directory h) (path h)) ''/'' \<and>
        open_rb e (translate_path e (directory h) (path h)) = Some f \<and>
        \<not> not_modified e (headers h) f"
    using static_file_reply [of e h f] that by simp
  show "directory (new_handler cwd r) = cwd"
    by simp
qed

theorem do_GET_dispatch_witness:
  "do_GET toy_env (new_handler ''/srv/app'' (toy_request ''GET'' ''/test?x=1'' [] []))
     = serve_test_interface toy_env
         (new_handler ''/srv/app'' (toy_request ''GET'' ''/test?x=1'' [] []))
   \<and> wfile (snd (do_GET toy_env
                   (new_handler ''/srv/app'' (toy_request ''GET'' ''/test?x=1'' [] []))))
     = [Head [StatusLine 200 ''OK'',
              Header ''Server'' ''SimpleHTTP/0.6 Python/3.11.10'',
              Header ''Date'' ''Tue, 14 Nov 2023 22:13:20 GMT'',
              Header ''Content-Type'' ''text/html'',
              Header ''Content-Length'' ''13'',
              Header ''Access-Control-Allow-Origin'' ''*'',
              Header ''Access-Control-Allow-Methods'' ''GET, POST, OPTIONS'',
              Header ''Access-Control-Allow-Headers'' ''Content-Type'',
              Blank],
        Body ''<html></html>'']
   \<and> fst (do_GET toy_env (new_handler ''/srv/app'' (toy_request ''GET'' ''/api/weather'' [] []))) = None
   \<and> wfile (snd (do_GET toy_env (new_handler ''/srv/app'' (toy_request ''GET'' ''/api/weather'' [] []))))
     = [Head [StatusLine 200 ''OK'',
              Header ''Server'' ''SimpleHTTP/0.6 Python/3.11.10'',
              Header ''Date'' ''Tue, 14 Nov 2023 22:13:20 GMT'',
              Header ''Content-Type'' ''application/json'',
              Header ''Access-Control-Allow-Origin'' ''*'',
              Header ''Content-Length''
                (str_nat (length (toy_text
                   (JDict
                    [(ustr_of ''temperature'', JFloat ''72.5''),
                     (ustr_of ''temperatureCelsius'', JFloat ''22.5''),
                     (ustr_of ''condition'', JStr (ustr_of ''Clear'')),
                     (ustr_of ''description'', JStr (ustr_of ''Clear sky with light breeze'')),
                     (ustr_of ''humidity'', JInt 65),
                     (ustr_of ''windSpeed'', JFloat ''8.5''),
                     (ustr_of ''windDirection'', JStr (ustr_of ''NW'')),
                     (ustr_of ''pressure'', JInt 1013),
                     (ustr_of ''visibility'', JInt 10),
                     (ustr_of ''feelsLike'', JFloat ''70.2''),
                     (ustr_of ''uvIndex'', JInt 5),
                     (ustr_of ''sunrise'', JStr (ustr_of ''06:45'')),
                     (ustr_of ''sunset'', JStr (ustr_of ''19:30'')),
                     (ustr_of ''timestamp'', JStr (ustr_of (''2023-11-14T22:13:20.000000'')))])))),
              Header ''Access-Control-Allow-Origin'' ''*'',
              Header ''Access-Control-Allow-Methods'' ''GET, POST, OPTIONS'',
              Header ''Access-Control-Allow-Headers'' ''Content-Type'',
              Blank],
        Body (utf8_encode (toy_text
           (JDict
            [(ustr_of ''temperature'', JFloat ''72.5''),
             (ustr_of ''temperatureCelsius'', JFloat ''22.5''),
             (ustr_of ''condition'', JStr (ustr_of ''Clear'')),
             (ustr_of ''description'', JStr (ustr_of ''Clear sky with light breeze'')),
             (ustr_of ''humidity'', JInt 65),
             (ustr_of ''windSpeed'', JFloat ''8.5''),
             (ustr_of ''windDirection'', JStr (ustr_of ''NW'')),
             (ustr_of ''pressure'', JInt 1013),
             (ustr_of ''visibility'', JInt 10),
             (ustr_of ''feelsLike'', JFloat ''70.2''),
             (ustr_of ''uvIndex'', JInt 5),
             (ustr_of ''sunrise'', JStr (ustr_of ''06:45'')),
             (ustr_of ''sunset'', JStr (ustr_of ''19:30'')),
             (ustr_of ''timestamp'', JStr (ustr_of (''2023-11-14T22:13:20.000000'')))])))]
   \<and> fst (do_GET toy_env (new_handler ''/srv/app'' (toy_request ''GET'' ''/api/location'' [] []))) = None
   \<and> wfile (snd (do_GET toy_env (new_handler ''/srv/app'' (toy_request ''GET'' ''/api/location'' [] []))))
     = [Head [StatusLine 200 ''OK'',
              Header ''Server'' ''SimpleHTTP/0.6 Python/3.11.10'',
              Header ''Date'' ''Tue, 14 Nov 2023 22:13:20 GMT'',
              Header ''Content-Type'' ''application/json'',
              Header ''Access-Control-Allow-Origin'' ''*'',
              Header ''Content-Length''
                (str_nat (length (toy_text
                   (JDict
                    [(ustr_of ''verified'', JBool True),
                     (ustr_of ''address'', JStr (ustr_of ''1234 Farm Road, Ames, IA 50011'')),
                     (ustr_of ''locationType'', JStr (ustr_of ''Agricultural Facility'')),
                     (ustr_of ''nearbyLandmarks'',
                      JList [JStr (ustr_of ''Iowa State University Farm''),
                             JStr (ustr_of ''Agricultural Research Station''),
                             JStr (ustr_of ''FFA Training Center'')]),
                     (ustr_of ''timestamp'', JStr (ustr_of (''2023-11-14T22:13:20.000000'')))])))),
              Header ''Access-Control-Allow-Origin'' ''*'',
              Header ''Access-Control-Allow-Methods'' ''GET, POST, OPTIONS'',
              Header ''Access-Control-Allow-Headers'' ''Content-Type'',
              Blank],
        Body (utf8_encode (toy_text
           (JDict
            [(ustr_of ''verified'', JBool True),
             (ustr_of ''address'', JStr (ustr_of ''1234 Farm Road, Ames, IA 50011'')),
             (ustr_of ''locationType'', JStr (ustr_of ''Agricultural Facility'')),
             (ustr_of ''nearbyLandmarks'',
              JList [JStr (ustr_of ''Iowa State University Farm''),
                     JStr (ustr_of ''Agricultural Research Station''),
                     JStr (ustr_of ''FFA Training Center'')]),
             (ustr_of ''timestamp'', JStr (ustr_of (''2023-11-14T22:13:20.000000'')))])))]
   \<and> fst (do_GET toy_env (new_handler ''/srv/app'' (toy_request ''GET'' ''/api/journal'' [] []))) = None
   \<and> wfile (snd (do_GET toy_env (new_handler ''/srv/app'' (toy_request ''GET'' ''/api/journal'' [] []))))
     = [Head [StatusLine 200 ''OK'',
              Header ''Server'' ''SimpleHTTP/0.6 Python/3.11.10'',
              Header ''Date'' ''Tue, 14 Nov 2023 22:13:20 GMT'',
              Header ''Content-Type'' ''application/json'',
              Header ''Access-Control-Allow-Origin'' ''*'',
              Header ''Content-Length''
                (str_nat (length (toy_text
                   (JDict
                    [(ustr_of ''system'', JStr (ustr_of ''operational'')),
                     (ustr_of ''database'', JStr (ustr_of ''connected'')),
                     (ustr_of ''n8n'', JStr (ustr_of ''ready'')),
                     (ustr_of ''supabase'', JStr (ustr_of ''connected'')),
                     (ustr_of ''entriesCount'', JInt 42),
                     (ustr_of ''lastEntry'', JStr (ustr_of (''2023-11-14T22:13:20.000000'')))])))),
              Header ''Access-Control-Allow-Origin'' ''*'',
              Header ''Access-Control-Allow-Methods'' ''GET, POST, OPTIONS'',
              Header ''Access-Control-Allow-Headers'' ''Content-Type'',
              Blank],
        Body (utf8_encode (toy_text
           (JDict
            [(ustr_of ''system'', JStr (ustr_of ''operational'')),
             (ustr_of ''database'', JStr (ustr_of ''connected'')),
             (ustr_of ''n8n'', JStr (ustr_of ''ready'')),
             (ustr_of ''supabase'', JStr (ustr_of ''connected'')),
             (ustr_of ''entriesCount'', JInt 42),
             (ustr_of ''lastEntry'', JStr (ustr_of (''2023-11-14T22:13:20.000000'')))])))]
   \<and> wfile (snd (do_GET (toy_env\<lparr>read_text := \<lambda>name. Inl FileNotFoundError\<rparr>)
                   (new_handler ''/srv/app'' (toy_request ''GET'' ''/test?x=1'' [] []))))
     = [Head [StatusLine 404 ''Test interface not found'',
              Header ''Server'' ''SimpleHTTP/0.6 Python/3.11.10'',
              Header ''Date'' ''Tue, 14 Nov 2023 22:13:20 GMT'',
              Header ''Connection'' ''close'',
              Header ''Content-Type'' ''text/html;charset=utf-8'',
              Header ''Content-Length''
                (str_nat (length ''<h1>Test interface not found</h1>'')),
              Header ''Access-Control-Allow-Origin'' ''*'',
              Header ''Access-Control-Allow-Methods'' ''GET, POST, OPTIONS'',
              Header ''Access-Control-Allow-Headers'' ''Content-Type'',
              Blank],
        Body ''<h1>Test interface not found</h1>'']
   \<and> wfile (snd (do_GET toy_env
                   (new_handler ''/srv/app'' (toy_request ''GET'' ''/main.dart.js'' [] []))))
     = [Head [StatusLine 200 ''OK'',
              Header ''Server'' ''SimpleHTTP/0.6 Python/3.11.10'',
              Header ''Date'' ''Tue, 14 Nov 2023 22:13:20 GMT'',
              Header ''Content-type'' ''text/javascript'',
              Header ''Content-Length'' ''7'',
              Header ''Last-Modified'' ''Tue, 14 Nov 2023 20:00:00 GMT'',
              Header ''Access-Control-Allow-Origin'' ''*'',
              Header ''Access-Control-Allow-Methods'' ''GET, POST, OPTIONS'',
              Header ''Access-Control-Allow-Headers'' ''Content-Type'',
              Blank],
        Body ''main();'']"
proof -
  let ?t = "new_handler ''/srv/app'' (toy_request ''GET'' ''/test?x=1'' [] [])"
  let ?w = "new_handler ''/srv/app'' (toy_request ''GET'' ''/api/weather'' [] [])"
  let ?l = "new_handler ''/srv/app'' (toy_request ''GET'' ''/api/location'' [] [])"
  let ?j = "new_handler ''/srv/app'' (toy_request ''GET'' ''/api/journal'' [] [])"
  let ?s = "new_handler ''/srv/app'' (toy_request ''GET'' ''/main.dart.js'' [] [])"
  let ?f = "\<lparr>file_data = ''main();'', file_len = 7,
             file_mtime = ''Tue, 14 Nov 2023 20:00:00 GMT''\<rparr>"
  let ?weather = "JDict
                   [(ustr_of ''temperature'', JFloat ''72.5''),
                    (ustr_of ''temperatureCelsius'', JFloat ''22.5''),
                    (ustr_of ''condition'', JStr (ustr_of ''Clear'')),
                    (ustr_of ''description'', JStr (ustr_of ''Clear sky with light breeze'')),
                    (ustr_of ''humidity'', JInt 65),
                    (ustr_of ''windSpeed'', JFloat ''8.5''),
                    (ustr_of ''windDirection'', JStr (ustr_of ''NW'')),
                    (ustr_of ''pressure'', JInt 1013),
                    (ustr_of ''visibility'', JInt 10),
                    (ustr_of ''feelsLike'', JFloat ''70.2''),
                    (ustr_of ''uvIndex'', JInt 5),
                    (ustr_of ''sunrise'', JStr (ustr_of ''06:45'')),
                    (ustr_of ''sunset'', JStr (ustr_of ''19:30'')),
                    (ustr_of ''timestamp'', JStr (ustr_of (''2023-11-14T22:13:20.000000'')))]"
  let ?location = "JDict
                    [(ustr_of ''verified'', JBool True),
                     (ustr_of ''address'', JStr (ustr_of ''1234 Farm Road, Ames, IA 50011'')),
                     (ustr_of ''locationType'', JStr (ustr_of ''Agricultural Facility'')),
                     (ustr_of ''nearbyLandmarks'',
                      JList [JStr (ustr_of ''Iowa State University Farm''),
                             JStr (ustr_of ''Agricultural Research Station''),
                             JStr (ustr_of ''FFA Training Center'')]),
                     (ustr_of ''timestamp'', JStr (ustr_of (''2023-11-14T22:13:20.000000'')))]"
  let ?status = "JDict
                  [(ustr_of ''system'', JStr (ustr_of ''operational'')),
                   (ustr_of ''database'', JStr (ustr_of ''connected'')),
                   (ustr_of ''n8n'', JStr (ustr_of ''ready'')),
                   (ustr_of ''supabase'', JStr (ustr_of ''connected'')),
                   (ustr_of ''entriesCount'', JInt 42),
                   (ustr_of ''lastEntry'', JStr (ustr_of (''2023-11-14T22:13:20.000000'')))]"
  have ut: "urlparse_path toy_env (path ?t) = Inr ''/test''"
    and uw: "urlparse_path toy_env (path ?w) = Inr ''/api/weather''"
    and ul: "urlparse_path toy_env (path ?l) = Inr ''/api/location''"
    and uj: "urlparse_path toy_env (path ?j) = Inr ''/api/journal''"
    and us: "urlparse_path toy_env (path ?s) = Inr ''/main.dart.js''"
    by (simp_all add: toy_env_def cut_query_def)
  have page: "read_text toy_env ''geolocation-test-server.html'' = Inr (ustr_of ''<html></html>'')"
    by (simp add: toy_env_def)
  have enc: "utf8_encode (ustr_of ''<html></html>'') = ''<html></html>''"
    by (simp add: utf8_encode_def encode_cp_def ustr_of_def eval_chars)
  have len13: "length (ustr_of ''<html></html>'') = 13"
    by (simp add: ustr_of_def)
  have n13: "str_nat 13 = ''13''" and n7: "str_nat 7 = ''7''"
    by (simp_all add: str_nat.simps digit_char_def)
  have now: "now_isoformat toy_env = ''2023-11-14T22:13:20.000000''"
    by (simp add: toy_env_def)
  have dw: "json_dumps toy_env (Some 2) ?weather = Inr (toy_text ?weather)"
    and dl: "json_dumps toy_env (Some 2) ?location = Inr (toy_text ?location)"
    and dj: "json_dumps toy_env (Some 2) ?status = Inr (toy_text ?status)"
    by (simp_all add: toy_dumps_def toy_limit_def)
  have fs: "\<not> isdir toy_env (translate_path toy_env (directory ?s) (path ?s))"
    "\<not> endswith (translate_path toy_env (directory ?s) (path ?s)) ''/''"
    "open_rb toy_env (translate_path toy_env (directory ?s) (path ?s)) = Some ?f"
    "\<not> not_modified toy_env (headers ?s) ?f"
    "Simple_guess_type toy_env (translate_path toy_env (directory ?s) (path ?s))
       = ''text/javascript''"
    by (simp_all add: toy_env_def cut_query_def endswith_def Simple_guess_type_def)
  have t1: "do_GET toy_env ?t = serve_test_interface toy_env ?t"
    using do_GET_dispatch [OF ut] by simp
  have t2: "wfile (snd (serve_test_interface toy_env ?t)) =
     [Head [StatusLine 200 ''OK'',
              Header ''Server'' ''SimpleHTTP/0.6 Python/3.11.10'',
              Header ''Date'' ''Tue, 14 Nov 2023 22:13:20 GMT'',
              Header ''Content-Type'' ''text/html'',
              Header ''Content-Length'' ''13'',
              Header ''Access-Control-Allow-Origin'' ''*'',
              Header ''Access-Control-Allow-Methods'' ''GET, POST, OPTIONS'',
              Header ''Access-Control-Allow-Headers'' ''Content-Type'',
              Blank],
        Body ''<html></html>'']"
    using do_GET_dispatch [OF ut, where content = "ustr_of ''<html></html>''"] page
    by (simp add: enc len13 n13)
  let ?m = "toy_env\<lparr>read_text := \<lambda>name. Inl FileNotFoundError\<rparr>"
  have um: "urlparse_path ?m (path ?t) = Inr ''/test''"
    and gone: "read_text ?m ''geolocation-test-server.html'' = Inl FileNotFoundError"
    and errpage: "error_page toy_env 404 ''Test interface not found''
                  = ''<h1>Test interface not found</h1>''"
    by (simp_all add: toy_env_def cut_query_def)
  have m1: "do_GET ?m ?t = serve_test_interface ?m ?t"
    using do_GET_dispatch [OF um] by simp
  have m2: "wfile (snd (serve_test_interface ?m ?t)) =
     [Head [StatusLine 404 ''Test interface not found'',
              Header ''Server'' ''SimpleHTTP/0.6 Python/3.11.10'',
              Header ''Date'' ''Tue, 14 Nov 2023 22:13:20 GMT'',
              Header ''Connection'' ''close'',
              Header ''Content-Type'' ''text/html;charset=utf-8'',
              Header ''Content-Length''
                (str_nat (length ''<h1>Test interface not found</h1>'')),
              Header ''Access-Control-Allow-Origin'' ''*'',
              Header ''Access-Control-Allow-Methods'' ''GET, POST, OPTIONS'',
              Header ''Access-Control-Allow-Headers'' ''Content-Type'',
              Blank],
        Body ''<h1>Test interface not found</h1>'']"
    using do_GET_dispatch [OF um] gone
    by (simp add: errpage)
  have w1: "fst (do_GET toy_env ?w) = None \<and>
      wfile (snd (do_GET toy_env ?w)) =
       [Head [StatusLine 200 ''OK'',
              Header ''Server'' ''SimpleHTTP/0.6 Python/3.11.10'',
              Header ''Date'' ''Tue, 14 Nov 2023 22:13:20 GMT'',
              Header ''Content-Type'' ''application/json'',
              Header ''Access-Control-Allow-Origin'' ''*'',
              Header ''Content-Length''
                (str_nat (length (toy_text
                   (JDict
                    [(ustr_of ''temperature'', JFloat ''72.5''),
                     (ustr_of ''temperatureCelsius'', JFloat ''22.5''),
                     (ustr_of ''condition'', JStr (ustr_of ''Clear'')),
                     (ustr_of ''description'', JStr (ustr_of ''Clear sky with light breeze'')),
                     (ustr_of ''humidity'', JInt 65),
                     (ustr_of ''windSpeed'', JFloat ''8.5''),
                     (ustr_of ''windDirection'', JStr (ustr_of ''NW'')),
                     (ustr_of ''pressure'', JInt 1013),
                     (ustr_of ''visibility'', JInt 10),
                     (ustr_of ''feelsLike'', JFloat ''70.2''),
                     (ustr_of ''uvIndex'', JInt 5),
                     (ustr_of ''sunrise'', JStr (ustr_of ''06:45'')),
                     (ustr_of ''sunset'', JStr (ustr_of ''19:30'')),
                     (ustr_of ''timestamp'', JStr (ustr_of (''2023-11-14T22:13:20.000000'')))])))),
              Header ''Access-Control-Allow-Origin'' ''*'',
              Header ''Access-Control-Allow-Methods'' ''GET, POST, OPTIONS'',
              Header ''Access-Control-Allow-Headers'' ''Content-Type'',
              Blank],
        Body (utf8_encode (toy_text
           (JDict
            [(ustr_of ''temperature'', JFloat ''72.5''),
             (ustr_of ''temperatureCelsius'', JFloat ''22.5''),
             (ustr_of ''condition'', JStr (ustr_of ''Clear'')),
             (ustr_of ''description'', JStr (ustr_of ''Clear sky with light breeze'')),
             (ustr_of ''humidity'', JInt 65),
             (ustr_of ''windSpeed'', JFloat ''8.5''),
             (ustr_of ''windDirection'', JStr (ustr_of ''NW'')),
             (ustr_of ''pressure'', JInt 1013),
             (ustr_of ''visibility'', JInt 10),
             (ustr_of ''feelsLike'', JFloat ''70.2''),
             (ustr_of ''uvIndex'', JInt 5),
             (ustr_of ''sunrise'', JStr (ustr_of ''06:45'')),
             (ustr_of ''sunset'', JStr (ustr_of ''19:30'')),
             (ustr_of ''timestamp'', JStr (ustr_of (''2023-11-14T22:13:20.000000'')))])))]"
    using do_GET_dispatch [OF uw, where reply = "toy_text ?weather"] dw
    unfolding now by simp
  have l1: "fst (do_GET toy_env ?l) = None \<and>
      wfile (snd (do_GET toy_env ?l)) =
       [Head [StatusLine 200 ''OK'',
              Header ''Server'' ''SimpleHTTP/0.6 Python/3.11.10'',
              Header ''Date'' ''Tue, 14 Nov 2023 22:13:20 GMT'',
              Header ''Content-Type'' ''application/json'',
              Header ''Access-Control-Allow-Origin'' ''*'',
              Header ''Content-Length''
                (str_nat (length (toy_text
                   (JDict
                    [(ustr_of ''verified'', JBool True),
                     (ustr_of ''address'', JStr (ustr_of ''1234 Farm Road, Ames, IA 50011'')),
                     (ustr_of ''locationType'', JStr (ustr_of ''Agricultural Facility'')),
                     (ustr_of ''nearbyLandmarks'',
                      JList [JStr (ustr_of ''Iowa State University Farm''),
                             JStr (ustr_of ''Agricultural Research Station''),
                             JStr (ustr_of ''FFA Training Center'')]),
                     (ustr_of ''timestamp'', JStr (ustr_of (''2023-11-14T22:13:20.000000'')))])))),
              Header ''Access-Control-Allow-Origin'' ''*'',
              Header ''Access-Control-Allow-Methods'' ''GET, POST, OPTIONS'',
              Header ''Access-Control-Allow-Headers'' ''Content-Type'',
              Blank],
        Body (utf8_encode (toy_text
           (JDict
            [(ustr_of ''verified'', JBool True),
             (ustr_of ''address'', JStr (ustr_of ''1234 Farm Road, Ames, IA 50011'')),
             (ustr_of ''locationType'', JStr (ustr_of ''Agricultural Facility'')),
             (ustr_of ''nearbyLandmarks'',
              JList [JStr (ustr_of ''Iowa State University Farm''),
                     JStr (ustr_of ''Agricultural Research Station''),
                     JStr (ustr_of ''FFA Training Center'')]),
             (ustr_of ''timestamp'', JStr (ustr_of (''2023-11-14T22:13:20.000000'')))])))]"
    using do_GET_dispatch [OF ul, where reply = "toy_text ?location"] dl
    unfolding now by simp
  have j1: "fst (do_GET toy_env ?j) = None \<and>
      wfile (snd (do_GET toy_env ?j)) =
       [Head [StatusLine 200 ''OK'',
              Header ''Server'' ''SimpleHTTP/0.6 Python/3.11.10'',
              Header ''Date'' ''Tue, 14 Nov 2023 22:13:20 GMT'',
              Header ''Content-Type'' ''application/json'',
              Header ''Access-Control-Allow-Origin'' ''*'',
              Header ''Content-Length''
                (str_nat (length (toy_text
                   (JDict
                    [(ustr_of ''system'', JStr (ustr_of ''operational'')),
                     (ustr_of ''database'', JStr (ustr_of ''connected'')),
                     (ustr_of ''n8n'', JStr (ustr_of ''ready'')),
                     (ustr_of ''supabase'', JStr (ustr_of ''connected'')),
                     (ustr_of ''entriesCount'', JInt 42),
                     (ustr_of ''lastEntry'', JStr (ustr_of (''2023-11-14T22:13:20.000000'')))])))),
              Header ''Access-Control-Allow-Origin'' ''*'',
              Header ''Access-Control-Allow-Methods'' ''GET, POST, OPTIONS'',
              Header ''Access-Control-Allow-Headers'' ''Content-Type'',
              Blank],
        Body (utf8_encode (toy_text
           (JDict
            [(ustr_of ''system'', JStr (ustr_of ''operational'')),
             (ustr_of ''database'', JStr (ustr_of ''connected'')),
             (ustr_of ''n8n'', JStr (ustr_of ''ready'')),
             (ustr_of ''supabase'', JStr (ustr_of ''connected'')),
             (ustr_of ''entriesCount'', JInt 42),
             (ustr_of ''lastEntry'', JStr (ustr_of (''2023-11-14T22:13:20.000000'')))])))]"
    using do_GET_dispatch [OF uj, where reply = "toy_text ?status"] dj
    unfolding now by simp
  have s1: "do_GET toy_env ?s =
      Simple_do_GET GeolocationTestHandler_end_headers
        (\<lambda>q. Inr (Simple_guess_type toy_env q)) toy_env ?s"
    using do_GET_dispatch [OF us] by simp
  have s2: "wfile (snd (Simple_do_GET GeolocationTestHandler_end_headers
        (\<lambda>q. Inr (Simple_guess_type toy_env q)) toy_env ?s)) =
      [Head [StatusLine 200 ''OK'',
              Header ''Server'' ''SimpleHTTP/0.6 Python/3.11.10'',
              Header ''Date'' ''Tue, 14 Nov 2023 22:13:20 GMT'',
              Header ''Content-type'' ''text/javascript'',
              Header ''Content-Length'' ''7'',
              Header ''Last-Modified'' ''Tue, 14 Nov 2023 20:00:00 GMT'',
              Header ''Access-Control-Allow-Origin'' ''*'',
              Header ''Access-Control-Allow-Methods'' ''GET, POST, OPTIONS'',
              Header ''Access-Control-Allow-Headers'' ''Content-Type'',
              Blank],
        Body ''main();'']"
    using do_GET_dispatch [OF us, where f = ?f] fs
    by (simp add: n7)
  show ?thesis
    unfolding t1 m1 s1 using t2 m2 w1 l1 j1 s2 by simp
qed

text \<open>
  C3 as written, refuted. A request line without a version, \<^verbatim>\<open>GET /\<close>, is handled as
  \<^verbatim>\<open>HTTP/0.9\<close>: the page goes out alone, without a \<^verbatim>\<open>Content-Type\<close> or any other
  header. When the HTML file does not exist, \<^verbatim>\<open>GET /test\<close> is answered with a 404 page
  and not with the contents of the file. And for the request target \<^verbatim>\<open>http://[\<close>,
  \<^verbatim>\<open>urlparse\<close> raises \<open>ValueError\<close> (an invalid IPv6 URL), which nothing catches: no
  route is taken and nothing is written.
\<close>

theorem page_route_without_text_html:
  "process_request GeolocationTestHandler_handle ''/srv/app'' toy_env
     ((toy_request ''GET'' ''/'' [] [])\<lparr>req_version := ''HTTP/0.9''\<rparr>)
     = Handled [Body ''<html></html>''] None
   \<and> process_request GeolocationTestHandler_handle ''/srv/app''
       (toy_env\<lparr>read_text := \<lambda>name. Inl FileNotFoundError\<rparr>)
       (toy_request ''GET'' ''/test'' [] [])
     = Handled
         [Head [StatusLine 404 ''Test interface not found'',
               Header ''Server'' ''SimpleHTTP/0.6 Python/3.11.10'',
               Header ''Date'' ''Tue, 14 Nov 2023 22:13:20 GMT'',
               Header ''Connection'' ''close'',
               Header ''Content-Type'' ''text/html;charset=utf-8'',
               Header ''Content-Length''
                 (str_nat (length ''<h1>Test interface not found</h1>'')),
               Header ''Access-Control-Allow-Origin'' ''*'',
               Header ''Access-Control-Allow-Methods'' ''GET, POST, OPTIONS'',
               Header ''Access-Control-Allow-Headers'' ''Content-Type'',
               Blank],
         Body ''<h1>Test interface not found</h1>'']
         None
   \<and> process_request GeolocationTestHandler_handle ''/srv/app''
       (toy_env\<lparr>urlparse_path :=
          \<lambda>p. if p = ''http://['' then Inl ValueError else urlparse_path toy_env p\<rparr>)
       (toy_request ''GET'' ''http://['' [] [])
     = Handled [] (Some ValueError)"
proof -
  let ?m = "toy_env\<lparr>read_text := \<lambda>name. Inl FileNotFoundError\<rparr>"
  have enc: "utf8_encode (ustr_of ''<html></html>'') = ''<html></html>''"
    by (simp add: utf8_encode_def encode_cp_def ustr_of_def eval_chars)
  have page: "read_text toy_env ''geolocation-test-server.html'' = Inr (ustr_of ''<html></html>'')"
    and root: "urlparse_path toy_env ''/'' = Inr ''/''"
    and test: "urlparse_path toy_env ''/test'' = Inr ''/test''"
    and errpage: "error_page toy_env 404 ''Test interface not found''
                  = ''<h1>Test interface not found</h1>''"
    by (simp_all add: toy_env_def cut_query_def)
  have old: "process_request GeolocationTestHandler_handle ''/srv/app'' toy_env
     ((toy_request ''GET'' ''/'' [] [])\<lparr>req_version := ''HTTP/0.9''\<rparr>)
     = Handled [Body ''<html></html>''] None"
    by (simp add: process_request_def GeolocationTestHandler_handle_def do_GET_def
        serve_test_interface_def root page enc)
  have missing: "process_request GeolocationTestHandler_handle ''/srv/app'' ?m
       (toy_request ''GET'' ''/test'' [] [])
     = Handled
         [Head [StatusLine 404 ''Test interface not found'',
               Header ''Server'' ''SimpleHTTP/0.6 Python/3.11.10'',
               Header ''Date'' ''Tue, 14 Nov 2023 22:13:20 GMT'',
               Header ''Connection'' ''close'',
               Header ''Content-Type'' ''text/html;charset=utf-8'',
               Header ''Content-Length''
                 (str_nat (length ''<h1>Test interface not found</h1>'')),
               Header ''Access-Control-Allow-Origin'' ''*'',
               Header ''Access-Control-Allow-Methods'' ''GET, POST, OPTIONS'',
               Header ''Access-Control-Allow-Headers'' ''Content-Type'',
               Blank],
         Body ''<h1>Test interface not found</h1>'']
         None"
    by (simp add: process_request_def GeolocationTestHandler_handle_def do_GET_def
        serve_test_interface_def send_error_def test errpage)
  have raised: "process_request GeolocationTestHandler_handle ''/srv/app''
       (toy_env\<lparr>urlparse_path :=
          \<lambda>p. if p = ''http://['' then Inl ValueError else urlparse_path toy_env p\<rparr>)
       (toy_request ''GET'' ''http://['' [] [])
     = Handled [] (Some ValueError)"
    by (simp add: process_request_def GeolocationTestHandler_handle_def do_GET_def)
  from old missing raised show ?thesis
    by blast
qed
section \<open>Every header block passes through the hook\<close>

text \<open>
  A hook \<open>eh\<close> that, for a version other than \<^verbatim>\<open>HTTP/0.9\<close>, flushes the buffered lines
  followed by a fixed group and the blank line, and that writes nothing for \<^verbatim>\<open>HTTP/0.9\<close>,
  keeps three properties through every library method that writes. Each header block
  written so far closes with the group. A handler that starts with nothing written and a
  version other than \<^verbatim>\<open>HTTP/0.9\<close> ends with a single reply: nothing, or one header block
  that closes with the group, alone or followed by one body. Under \<^verbatim>\<open>HTTP/0.9\<close> only
  bodies are written.
\<close>

lemma closes_with_appended [simp]:
  "closes_with grp (Head (pre @ grp @ [Blank]))"
  by simp

lemma closes_with_carries:
  assumes "closes_with grp (Head ls)"
  shows "set grp \<subseteq> set ls"
proof -
  from assms have "drop (length ls - Suc (length grp)) ls = grp @ [Blank]"
    by simp
  then have "set (grp @ [Blank]) \<subseteq> set ls"
    by (metis set_drop_subset)
  then show ?thesis
    by simp
qed

lemma Geolocation_hook:
  "wfile (GeolocationTestHandler_end_headers k) =
     wfile k @ (if request_version k \<noteq> ''HTTP/0.9''
                then [Head (headers_buffer k @ cors_headers @ [Blank])] else [])"
  by (simp add: cors_headers_def)

lemma Flutter_hook:
  "wfile (FlutterWebHandler_end_headers k) =
     wfile k @ (if request_version k \<noteq> ''HTTP/0.9''
                then [Head (headers_buffer k @ no_cache_headers @ [Blank])] else [])"
  by (simp add: no_cache_headers_def)

lemma rfile_read_frame:
  assumes "rfile_read e n h = Inr (post_data, h1)"
  shows "wfile h1 = wfile h \<and> request_version h1 = request_version h"
  using assms by (auto simp add: rfile_read_def split: if_splits option.splits)

lemma send_json_response_state:
  assumes "send_json_response e data h = (Some x, h2)"
  shows "h2 = h"
  using assms by (simp add: send_json_response_def split: sum.splits)

lemma do_POST_cases:
  "\<exists>h1. (wfile h1 = wfile h \<and> request_version h1 = request_version h) \<and>
     (snd (do_POST e h) = h1 \<or>
      (\<exists>d. snd (do_POST e h) = snd (send_json_response e d h1)) \<or>
      (\<exists>m. snd (do_POST e h) = snd (send_error_response e m h1)))"
proof -
  have same: ?thesis if "snd (do_POST e h) = h"
    using that by (intro exI [of _ h]) simp
  show ?thesis
  proof (cases "path h = ''/api/journal/create''")
    case False
    then show ?thesis
      by (intro same) (simp add: do_POST_def)
  next
    case target: True
    show ?thesis
    proof (cases "headers_get (headers h) ''Content-Length''")
      case None
      then show ?thesis
        using target by (intro same) (simp add: do_POST_def)
    next
      case header: (Some v)
      show ?thesis
      proof (cases "py_int e v")
        case None
        then show ?thesis
          using target header by (intro same) (simp add: do_POST_def)
      next
        case count: (Some n)
        show ?thesis
        proof (cases "rfile_read e n h")
          case (Inl x)
          then show ?thesis
            using target header count by (intro same) (simp add: do_POST_def)
        next
          case (Inr got)
          obtain post_data h1 where got: "got = (post_data, h1)"
            by (cases got)
          have rd: "rfile_read e n h = Inr (post_data, h1)"
            using Inr got by simp
          note frame = rfile_read_frame [OF rd]
          show ?thesis
          proof (cases "utf8_decode post_data")
            case None
            then have "snd (do_POST e h) = h1"
              using target header count rd by (simp add: do_POST_def)
            with frame show ?thesis
              by blast
          next
            case dec: (Some decoded)
            show ?thesis
            proof (cases "json_loads e decoded")
              case (Inl x)
              then have "snd (do_POST e h) = h1 \<or>
                  snd (do_POST e h) =
                    snd (send_error_response e (ustr_of ''Invalid JSON data'') h1)"
                using target header count rd dec by (simp add: do_POST_def)
              with frame show ?thesis
                by blast
            next
              case parsed: (Inr journal_data)
              obtain x h2 where
                sent: "send_json_response e (journal_response e journal_data) h1 = (x, h2)"
                by (cases "send_json_response e (journal_response e journal_data) h1")
              show ?thesis
              proof (cases x)
                case None
                then have "snd (do_POST e h) =
                    snd (send_json_response e (journal_response e journal_data) h1)"
                  using target header count rd dec parsed sent by (simp add: do_POST_def)
                with frame show ?thesis
                  by blast
              next
                case (Some y)
                then have "h2 = h1"
                  using sent send_json_response_state by blast
                then have "snd (do_POST e h) = h1 \<or>
                    snd (do_POST e h) =
                      snd (send_error_response e (ustr_of ''Invalid JSON data'') h1)"
                  using target header count rd dec parsed sent Some
                  by (simp add: do_POST_def)
                with frame show ?thesis
                  by blast
              qed
            qed
          qed
        qed
      qed
    qed
  qed
qed

subsection \<open>Each header block closes with the group\<close>

lemma send_error_closes:
  assumes hook: "\<And>k. wfile (eh k) =
      wfile k @ (if request_version k \<noteq> ''HTTP/0.9''
                 then [Head (headers_buffer k @ grp @ [Blank])] else [])"
    and inv: "list_all (closes_with grp) (wfile h)"
  shows "list_all (closes_with grp) (wfile (send_error eh e code message h))"
  using inv by (simp add: send_error_def Let_def hook)

lemma list_directory_closes:
  assumes hook: "\<And>k. wfile (eh k) =
      wfile k @ (if request_version k \<noteq> ''HTTP/0.9''
                 then [Head (headers_buffer k @ grp @ [Blank])] else [])"
    and inv: "list_all (closes_with grp) (wfile h)"
  shows "list_all (closes_with grp) (wfile (fst (list_directory eh e p h)))"
  using inv send_error_closes [OF hook inv]
  by (simp add: list_directory_def hook split: option.splits)

lemma send_file_head_closes:
  assumes hook: "\<And>k. wfile (eh k) =
      wfile k @ (if request_version k \<noteq> ''HTTP/0.9''
                 then [Head (headers_buffer k @ grp @ [Blank])] else [])"
    and inv: "list_all (closes_with grp) (wfile h)"
  shows "list_all (closes_with grp) (wfile (snd (fst (send_file_head eh gt e p h))))"
  using inv send_error_closes [OF hook inv]
  by (simp add: send_file_head_def hook split: sum.splits option.splits)

lemma send_head_closes:
  assumes hook: "\<And>k. wfile (eh k) =
      wfile k @ (if request_version k \<noteq> ''HTTP/0.9''
                 then [Head (headers_buffer k @ grp @ [Blank])] else [])"
    and inv: "list_all (closes_with grp) (wfile h)"
  shows "list_all (closes_with grp) (wfile (snd (fst (send_head eh gt e h))))"
  using inv send_file_head_closes [OF hook inv] list_directory_closes [OF hook inv]
  by (simp add: send_head_def Let_def hook case_prod_beta split: sum.splits)

lemma Simple_do_GET_closes:
  assumes hook: "\<And>k. wfile (eh k) =
      wfile k @ (if request_version k \<noteq> ''HTTP/0.9''
                 then [Head (headers_buffer k @ grp @ [Blank])] else [])"
    and inv: "list_all (closes_with grp) (wfile h)"
  shows "list_all (closes_with grp) (wfile (snd (Simple_do_GET eh gt e h)))"
  using send_head_closes [OF hook inv, where gt = gt and e = e]
  by (simp add: Simple_do_GET_def case_prod_beta split: option.splits prod.splits)

lemma Simple_do_HEAD_closes:
  assumes hook: "\<And>k. wfile (eh k) =
      wfile k @ (if request_version k \<noteq> ''HTTP/0.9''
                 then [Head (headers_buffer k @ grp @ [Blank])] else [])"
    and inv: "list_all (closes_with grp) (wfile h)"
  shows "list_all (closes_with grp) (wfile (snd (Simple_do_HEAD eh gt e h)))"
  using send_head_closes [OF hook inv, where gt = gt and e = e]
  by (simp add: Simple_do_HEAD_def)

lemma send_json_response_closes:
  assumes inv: "list_all (closes_with cors_headers) (wfile h)"
  shows "list_all (closes_with cors_headers) (wfile (snd (send_json_response e data h)))"
  using inv
  by (simp add: send_json_response_def Geolocation_hook split: sum.splits
      del: Geolocation_end_headers_fields(1))

lemma send_error_response_closes:
  assumes inv: "list_all (closes_with cors_headers) (wfile h)"
  shows "list_all (closes_with cors_headers) (wfile (snd (send_error_response e message h)))"
  using inv
  by (simp add: send_error_response_def Geolocation_hook split: sum.splits
      del: Geolocation_end_headers_fields(1))

lemma serve_test_interface_closes:
  assumes inv: "list_all (closes_with cors_headers) (wfile h)"
  shows "list_all (closes_with cors_headers) (wfile (snd (serve_test_interface e h)))"
  using inv send_error_closes [OF Geolocation_hook inv]
  by (simp add: serve_test_interface_def Geolocation_hook split: sum.splits
      del: Geolocation_end_headers_fields(1))

lemma do_GET_closes:
  assumes inv: "list_all (closes_with cors_headers) (wfile h)"
  shows "list_all (closes_with cors_headers) (wfile (snd (do_GET e h)))"
  using inv serve_test_interface_closes [OF inv] send_json_response_closes [OF inv]
    Simple_do_GET_closes [OF Geolocation_hook inv]
  by (simp add: do_GET_def serve_mock_weather_def serve_mock_location_def
      serve_journal_status_def split: sum.splits)

lemma do_POST_closes:
  assumes inv: "list_all (closes_with cors_headers) (wfile h)"
  shows "list_all (closes_with cors_headers) (wfile (snd (do_POST e h)))"
proof -
  from do_POST_cases [where e = e and h = h] obtain h1 where
    f: "wfile h1 = wfile h \<and> request_version h1 = request_version h"
    and c: "snd (do_POST e h) = h1 \<or>
            (\<exists>d. snd (do_POST e h) = snd (send_json_response e d h1)) \<or>
            (\<exists>m. snd (do_POST e h) = snd (send_error_response e m h1))"
    by blast
  have start: "list_all (closes_with cors_headers) (wfile h1)"
    using inv f by simp
  from c show ?thesis
  proof (elim disjE exE)
    assume "snd (do_POST e h) = h1"
    then show ?thesis
      using inv f by simp
  next
    fix d assume "snd (do_POST e h) = snd (send_json_response e d h1)"
    then show ?thesis
      using send_json_response_closes [OF start, where e = e and data = d] by simp
  next
    fix m assume "snd (do_POST e h) = snd (send_error_response e m h1)"
    then show ?thesis
      using send_error_response_closes [OF start, where e = e and message = m] by simp
  qed
qed

lemma Geolocation_handle_closes:
  assumes inv: "list_all (closes_with cors_headers) (wfile h)"
  shows "list_all (closes_with cors_headers) (wfile (snd (GeolocationTestHandler_handle e h)))"
  using do_GET_closes [OF inv] do_POST_closes [OF inv]
    Simple_do_HEAD_closes [OF Geolocation_hook inv]
    send_error_closes [OF Geolocation_hook inv]
  by (simp add: GeolocationTestHandler_handle_def)

lemma Flutter_handle_closes:
  assumes inv: "list_all (closes_with no_cache_headers) (wfile h)"
  shows "list_all (closes_with no_cache_headers) (wfile (snd (FlutterWebHandler_handle e h)))"
  using Simple_do_GET_closes [OF Flutter_hook inv]
    Simple_do_HEAD_closes [OF Flutter_hook inv]
    send_error_closes [OF Flutter_hook inv]
  by (simp add: FlutterWebHandler_handle_def)

subsection \<open>One reply for a version other than \<^verbatim>\<open>HTTP/0.9\<close>\<close>

lemma send_error_one:
  assumes hook: "\<And>k. wfile (eh k) =
      wfile k @ (if request_version k \<noteq> ''HTTP/0.9''
                 then [Head (headers_buffer k @ grp @ [Blank])] else [])"
    and ver: "request_version h \<noteq> ''HTTP/0.9''" and emp: "wfile h = []"
  shows "one_reply grp (wfile (send_error eh e code message h))"
  using ver emp by (simp add: send_error_def Let_def hook)

lemma list_directory_one:
  assumes hook: "\<And>k. wfile (eh k) =
      wfile k @ (if request_version k \<noteq> ''HTTP/0.9''
                 then [Head (headers_buffer k @ grp @ [Blank])] else [])"
    and ver: "request_version h \<noteq> ''HTTP/0.9''" and emp: "wfile h = []"
  shows "one_reply grp (wfile (fst (list_directory eh e p h))) \<and>
         one_reply grp (wfile (fst (list_directory eh e p h)) @
            (case snd (list_directory eh e p h) of None \<Rightarrow> [] | Some f \<Rightarrow> [Body f]))"
  using ver emp send_error_one [OF hook ver emp]
  by (simp add: list_directory_def hook split: option.splits)

lemma send_file_head_one:
  assumes hook: "\<And>k. wfile (eh k) =
      wfile k @ (if request_version k \<noteq> ''HTTP/0.9''
                 then [Head (headers_buffer k @ grp @ [Blank])] else [])"
    and ver: "request_version h \<noteq> ''HTTP/0.9''" and emp: "wfile h = []"
  shows "one_reply grp (wfile (snd (fst (send_file_head eh gt e p h)))) \<and>
         one_reply grp (wfile (snd (fst (send_file_head eh gt e p h))) @
            (case snd (send_file_head eh gt e p h) of None \<Rightarrow> [] | Some f \<Rightarrow> [Body f]))"
  using ver emp send_error_one [OF hook ver emp]
  by (simp add: send_file_head_def hook split: sum.splits option.splits)

lemma send_head_one:
  assumes hook: "\<And>k. wfile (eh k) =
      wfile k @ (if request_version k \<noteq> ''HTTP/0.9''
                 then [Head (headers_buffer k @ grp @ [Blank])] else [])"
    and ver: "request_version h \<noteq> ''HTTP/0.9''" and emp: "wfile h = []"
  shows "one_reply grp (wfile (snd (fst (send_head eh gt e h)))) \<and>
         one_reply grp (wfile (snd (fst (send_head eh gt e h))) @
            (case snd (send_head eh gt e h) of None \<Rightarrow> [] | Some f \<Rightarrow> [Body f]))"
  using ver emp send_file_head_one [OF hook ver emp] list_directory_one [OF hook ver emp]
  by (simp add: send_head_def Let_def hook case_prod_beta split: sum.splits)

lemma Simple_do_GET_one:
  assumes hook: "\<And>k. wfile (eh k) =
      wfile k @ (if request_version k \<noteq> ''HTTP/0.9''
                 then [Head (headers_buffer k @ grp @ [Blank])] else [])"
    and ver: "request_version h \<noteq> ''HTTP/0.9''" and emp: "wfile h = []"
  shows "one_reply grp (wfile (snd (Simple_do_GET eh gt e h)))"
  using send_head_one [OF hook ver emp, where gt = gt and e = e]
  by (simp add: Simple_do_GET_def case_prod_beta split: option.splits prod.splits)

lemma Simple_do_HEAD_one:
  assumes hook: "\<And>k. wfile (eh k) =
      wfile k @ (if request_version k \<noteq> ''HTTP/0.9''
                 then [Head (headers_buffer k @ grp @ [Blank])] else [])"
    and ver: "request_version h \<noteq> ''HTTP/0.9''" and emp: "wfile h = []"
  shows "one_reply grp (wfile (snd (Simple_do_HEAD eh gt e h)))"
  using send_head_one [OF hook ver emp, where gt = gt and e = e]
  by (simp add: Simple_do_HEAD_def)

lemma send_json_response_one:
  assumes ver: "request_version h \<noteq> ''HTTP/0.9''" and emp: "wfile h = []"
  shows "one_reply cors_headers (wfile (snd (send_json_response e data h)))"
  using ver emp
  by (simp add: send_json_response_def Geolocation_hook split: sum.splits
      del: Geolocation_end_headers_fields(1))

lemma send_error_response_one:
  assumes ver: "request_version h \<noteq> ''HTTP/0.9''" and emp: "wfile h = []"
  shows "one_reply cors_headers (wfile (snd (send_error_response e message h)))"
  using ver emp
  by (simp add: send_error_response_def Geolocation_hook split: sum.splits
      del: Geolocation_end_headers_fields(1))

lemma serve_test_interface_one:
  assumes ver: "request_version h \<noteq> ''HTTP/0.9''" and emp: "wfile h = []"
  shows "one_reply cors_headers (wfile (snd (serve_test_interface e h)))"
  using ver emp send_error_one [OF Geolocation_hook ver emp]
  by (simp add: serve_test_interface_def Geolocation_hook split: sum.splits
      del: Geolocation_end_headers_fields(1))

lemma do_GET_one:
  assumes ver: "request_version h \<noteq> ''HTTP/0.9''" and emp: "wfile h = []"
  shows "one_reply cors_headers (wfile (snd (do_GET e h)))"
  using ver emp serve_test_interface_one [OF ver emp] send_json_response_one [OF ver emp]
    Simple_do_GET_one [OF Geolocation_hook ver emp]
  by (simp add: do_GET_def serve_mock_weather_def serve_mock_location_def
      serve_journal_status_def split: sum.splits)

lemma do_POST_one:
  assumes ver: "request_version h \<noteq> ''HTTP/0.9''" and emp: "wfile h = []"
  shows "one_reply cors_headers (wfile (snd (do_POST e h)))"
proof -
  from do_POST_cases [where e = e and h = h] obtain h1 where
    f: "wfile h1 = wfile h \<and> request_version h1 = request_version h"
    and c: "snd (do_POST e h) = h1 \<or>
            (\<exists>d. snd (do_POST e h) = snd (send_json_response e d h1)) \<or>
            (\<exists>m. snd (do_POST e h) = snd (send_error_response e m h1))"
    by blast
  have ver1: "request_version h1 \<noteq> ''HTTP/0.9''" and emp1: "wfile h1 = []"
    using ver emp f by simp_all
  from c show ?thesis
  proof (elim disjE exE)
    assume "snd (do_POST e h) = h1"
    then show ?thesis
      using ver emp f by simp
  next
    fix d assume "snd (do_POST e h) = snd (send_json_response e d h1)"
    then show ?thesis
      using send_json_response_one [OF ver1 emp1, where e = e and data = d] by simp
  next
    fix m assume "snd (do_POST e h) = snd (send_error_response e m h1)"
    then show ?thesis
      using send_error_response_one [OF ver1 emp1, where e = e and message = m] by simp
  qed
qed

lemma Geolocation_handle_one:
  assumes ver: "request_version h \<noteq> ''HTTP/0.9''" and emp: "wfile h = []"
  shows "one_reply cors_headers (wfile (snd (GeolocationTestHandler_handle e h)))"
  using do_GET_one [OF ver emp] do_POST_one [OF ver emp]
    Simple_do_HEAD_one [OF Geolocation_hook ver emp]
    send_error_one [OF Geolocation_hook ver emp]
  by (simp add: GeolocationTestHandler_handle_def)

lemma Flutter_handle_one:
  assumes ver: "request_version h \<noteq> ''HTTP/0.9''" and emp: "wfile h = []"
  shows "one_reply no_cache_headers (wfile (snd (FlutterWebHandler_handle e h)))"
  using Simple_do_GET_one [OF Flutter_hook ver emp]
    Simple_do_HEAD_one [OF Flutter_hook ver emp]
    send_error_one [OF Flutter_hook ver emp]
  by (simp add: FlutterWebHandler_handle_def)

subsection \<open>Bodies only for \<^verbatim>\<open>HTTP/0.9\<close>\<close>

lemma send_error_bodies:
  assumes hook: "\<And>k. wfile (eh k) =
      wfile k @ (if request_version k \<noteq> ''HTTP/0.9''
                 then [Head (headers_buffer k @ grp @ [Blank])] else [])"
    and ver: "request_version h = ''HTTP/0.9''" and inv: "list_all is_body (wfile h)"
  shows "list_all is_body (wfile (send_error eh e code message h))"
  using ver inv by (simp add: send_error_def Let_def hook)

lemma list_directory_bodies:
  assumes hook: "\<And>k. wfile (eh k) =
      wfile k @ (if request_version k \<noteq> ''HTTP/0.9''
                 then [Head (headers_buffer k @ grp @ [Blank])] else [])"
    and ver: "request_version h = ''HTTP/0.9''" and inv: "list_all is_body (wfile h)"
  shows "list_all is_body (wfile (fst (list_directory eh e p h)))"
  using ver inv send_error_bodies [OF hook ver inv]
  by (simp add: list_directory_def hook split: option.splits)

lemma send_file_head_bodies:
  assumes hook: "\<And>k. wfile (eh k) =
      wfile k @ (if request_version k \<noteq> ''HTTP/0.9''
                 then [Head (headers_buffer k @ grp @ [Blank])] else [])"
    and ver: "request_version h = ''HTTP/0.9''" and inv: "list_all is_body (wfile h)"
  shows "list_all is_body (wfile (snd (fst (send_file_head eh gt e p h))))"
  using ver inv send_error_bodies [OF hook ver inv]
  by (simp add: send_file_head_def hook split: sum.splits option.splits)

lemma send_head_bodies:
  assumes hook: "\<And>k. wfile (eh k) =
      wfile k @ (if request_version k \<noteq> ''HTTP/0.9''
                 then [Head (headers_buffer k @ grp @ [Blank])] else [])"
    and ver: "request_version h = ''HTTP/0.9''" and inv: "list_all is_body (wfile h)"
  shows "list_all is_body (wfile (snd (fst (send_head eh gt e h))))"
  using ver inv send_file_head_bodies [OF hook ver inv] list_directory_bodies [OF hook ver inv]
  by (simp add: send_head_def Let_def hook case_prod_beta split: sum.splits)

lemma Simple_do_GET_bodies:
  assumes hook: "\<And>k. wfile (eh k) =
      wfile k @ (if request_version k \<noteq> ''HTTP/0.9''
                 then [Head (headers_buffer k @ grp @ [Blank])] else [])"
    and ver: "request_version h = ''HTTP/0.9''" and inv: "list_all is_body (wfile h)"
  shows "list_all is_body (wfile (snd (Simple_do_GET eh gt e h)))"
  using send_head_bodies [OF hook ver inv, where gt = gt and e = e]
  by (simp add: Simple_do_GET_def case_prod_beta split: option.splits prod.splits)

lemma Simple_do_HEAD_bodies:
  assumes hook: "\<And>k. wfile (eh k) =
      wfile k @ (if request_version k \<noteq> ''HTTP/0.9''
                 then [Head (headers_buffer k @ grp @ [Blank])] else [])"
    and ver: "request_version h = ''HTTP/0.9''" and inv: "list_all is_body (wfile h)"
  shows "list_all is_body (wfile (snd (Simple_do_HEAD eh gt e h)))"
  using send_head_bodies [OF hook ver inv, where gt = gt and e = e]
  by (simp add: Simple_do_HEAD_def)

lemma send_json_response_bodies:
  assumes ver: "request_version h = ''HTTP/0.9''" and inv: "list_all is_body (wfile h)"
  shows "list_all is_body (wfile (snd (send_json_response e data h)))"
  using ver inv
  by (simp add: send_json_response_def Geolocation_hook split: sum.splits
      del: Geolocation_end_headers_fields(1))

lemma send_error_response_bodies:
  assumes ver: "request_version h = ''HTTP/0.9''" and inv: "list_all is_body (wfile h)"
  shows "list_all is_body (wfile (snd (send_error_response e message h)))"
  using ver inv
  by (simp add: send_error_response_def Geolocation_hook split: sum.splits
      del: Geolocation_end_headers_fields(1))

lemma serve_test_interface_bodies:
  assumes ver: "request_version h = ''HTTP/0.9''" and inv: "list_all is_body (wfile h)"
  shows "list_all is_body (wfile (snd (serve_test_interface e h)))"
  using ver inv send_error_bodies [OF Geolocation_hook ver inv]
  by (simp add: serve_test_interface_def Geolocation_hook split: sum.splits
      del: Geolocation_end_headers_fields(1))

lemma do_GET_bodies:
  assumes ver: "request_version h = ''HTTP/0.9''" and inv: "list_all is_body (wfile h)"
  shows "list_all is_body (wfile (snd (do_GET e h)))"
  using ver inv serve_test_interface_bodies [OF ver inv] send_json_response_bodies [OF ver inv]
    Simple_do_GET_bodies [OF Geolocation_hook ver inv]
  by (simp add: do_GET_def serve_mock_weather_def serve_mock_location_def
      serve_journal_status_def split: sum.splits)

lemma do_POST_bodies:
  assumes ver: "request_version h = ''HTTP/0.9''" and inv: "list_all is_body (wfile h)"
  shows "list_all is_body (wfile (snd (do_POST e h)))"
proof -
  from do_POST_cases [where e = e and h = h] obtain h1 where
    f: "wfile h1 = wfile h \<and> request_version h1 = request_version h"
    and c: "snd (do_POST e h) = h1 \<or>
            (\<exists>d. snd (do_POST e h) = snd (send_json_response e d h1)) \<or>
            (\<exists>m. snd (do_POST e h) = snd (send_error_response e m h1))"
    by blast
  have ver1: "request_version h1 = ''HTTP/0.9''" and inv1: "list_all is_body (wfile h1)"
    using ver inv f by simp_all
  from c show ?thesis
  proof (elim disjE exE)
    assume "snd (do_POST e h) = h1"
    then show ?thesis
      using ver inv f by simp
  next
    fix d assume "snd (do_POST e h) = snd (send_json_response e d h1)"
    then show ?thesis
      using send_json_response_bodies [OF ver1 inv1, where e = e and data = d] by simp
  next
    fix m assume "snd (do_POST e h) = snd (send_error_response e m h1)"
    then show ?thesis
      using send_error_response_bodies [OF ver1 inv1, where e = e and message = m] by simp
  qed
qed

lemma Geolocation_handle_bodies:
  assumes ver: "request_version h = ''HTTP/0.9''" and inv: "list_all is_body (wfile h)"
  shows "list_all is_body (wfile (snd (GeolocationTestHandler_handle e h)))"
  using do_GET_bodies [OF ver inv] do_POST_bodies [OF ver inv]
    Simple_do_HEAD_bodies [OF Geolocation_hook ver inv]
    send_error_bodies [OF Geolocation_hook ver inv]
  by (simp add: GeolocationTestHandler_handle_def)

lemma Flutter_handle_bodies:
  assumes ver: "request_version h = ''HTTP/0.9''" and inv: "list_all is_body (wfile h)"
  shows "list_all is_body (wfile (snd (FlutterWebHandler_handle e h)))"
  using Simple_do_GET_bodies [OF Flutter_hook ver inv]
    Simple_do_HEAD_bodies [OF Flutter_hook ver inv]
    send_error_bodies [OF Flutter_hook ver inv]
  by (simp add: FlutterWebHandler_handle_def)

lemma one_reply_closes:
  assumes "one_reply grp ws"
  shows "list_all (closes_with grp) ws"
  using assms by (induction grp ws rule: one_reply.induct) simp_all

section \<open>Headers added by the \<^verbatim>\<open>end_headers\<close> overrides\<close>

text \<open>
  C4, as amended. The \<^verbatim>\<open>end_headers\<close> override of \<^verbatim>\<open>GeolocationTestHandler\<close> adds
  \<^verbatim>\<open>Access-Control-Allow-Origin: *\<close>, \<^verbatim>\<open>Access-Control-Allow-Methods: GET, POST, OPTIONS\<close> and
  \<^verbatim>\<open>Access-Control-Allow-Headers: Content-Type\<close>, and every path that sends headers goes
  through it. For a request of a version other than \<^verbatim>\<open>HTTP/0.9\<close>, whatever the method, the
  target and the environment, what the handler writes is a single reply: nothing at all
  (when it raises, or for a POST elsewhere), or one header block that closes with the
  three headers directly before the blank line, alone or followed by the body; the same
  holds of a reply that the library sends with \<^verbatim>\<open>send_error\<close>. Every header block ever
  written carries the three headers. Under the version \<^verbatim>\<open>HTTP/0.9\<close>, which the handler
  also has while the library rejects a request line, only bodies are written: such a
  response carries no header at all.
\<close>

theorem cors_headers_on_every_response:
  "(request_version h \<noteq> ''HTTP/0.9'' \<and> wfile h = [] \<longrightarrow>
      one_reply cors_headers (wfile (snd (GeolocationTestHandler_handle e h))) \<and>
      one_reply cors_headers
        (wfile (send_error GeolocationTestHandler_end_headers e code message h))) \<and>
   (list_all (closes_with cors_headers) (wfile h) \<longrightarrow>
      list_all (closes_with cors_headers) (wfile (snd (GeolocationTestHandler_handle e h))) \<and>
      (\<forall>ls. Head ls \<in> set (wfile (snd (GeolocationTestHandler_handle e h))) \<longrightarrow>
         Header ''Access-Control-Allow-Origin'' ''*'' \<in> set ls \<and>
         Header ''Access-Control-Allow-Methods'' ''GET, POST, OPTIONS'' \<in> set ls \<and>
         Header ''Access-Control-Allow-Headers'' ''Content-Type'' \<in> set ls)) \<and>
   (req_version r \<noteq> ''HTTP/0.9'' \<longrightarrow>
      (\<forall>w x. process_request GeolocationTestHandler_handle cwd e r = Handled w x \<longrightarrow>
         one_reply cors_headers w \<and>
         (\<forall>ls. Head ls \<in> set w \<longrightarrow>
            Header ''Access-Control-Allow-Origin'' ''*'' \<in> set ls \<and>
            Header ''Access-Control-Allow-Methods'' ''GET, POST, OPTIONS'' \<in> set ls \<and>
            Header ''Access-Control-Allow-Headers'' ''Content-Type'' \<in> set ls))) \<and>
   (request_version k = ''HTTP/0.9'' \<and> list_all is_body (wfile k) \<longrightarrow>
      list_all is_body (wfile (snd (GeolocationTestHandler_handle e k))) \<and>
      list_all is_body
        (wfile (send_error GeolocationTestHandler_end_headers e code message k)))"
proof -
  have carried: "set cors_headers \<subseteq> set ls"
    if "list_all (closes_with cors_headers) w" and "Head ls \<in> set w" for w ls
  proof -
    from that have "closes_with cors_headers (Head ls)"
      unfolding list_all_iff by blast
    then show ?thesis
      by (rule closes_with_carries)
  qed
  have one: "one_reply cors_headers (wfile (snd (GeolocationTestHandler_handle e h')))"
    if "request_version h' \<noteq> ''HTTP/0.9''" and "wfile h' = []" for h'
    using that by (rule Geolocation_handle_one)
  have rejected: "one_reply cors_headers
      (wfile (send_error GeolocationTestHandler_end_headers e code message h))"
    if "request_version h \<noteq> ''HTTP/0.9''" and "wfile h = []"
    using Geolocation_hook that by (rule send_error_one)
  have all: "list_all (closes_with cors_headers) (wfile (snd (GeolocationTestHandler_handle e h)))"
    if "list_all (closes_with cors_headers) (wfile h)"
    using that by (rule Geolocation_handle_closes)
  have fresh: "one_reply cors_headers (wfile (snd (GeolocationTestHandler_handle e (new_handler cwd r))))"
    if "req_version r \<noteq> ''HTTP/0.9''"
    using that by (intro one) simp_all
  have bodies: "list_all is_body (wfile (snd (GeolocationTestHandler_handle e k)))"
    and bodies_rejected:
      "list_all is_body (wfile (send_error GeolocationTestHandler_end_headers e code message k))"
    if "request_version k = ''HTTP/0.9''" and "list_all is_body (wfile k)"
    using that Geolocation_handle_bodies [of k e]
      send_error_bodies [OF Geolocation_hook, of k e code message]
    by simp_all
  have part1: "request_version h \<noteq> ''HTTP/0.9'' \<and> wfile h = [] \<longrightarrow>
      one_reply cors_headers (wfile (snd (GeolocationTestHandler_handle e h))) \<and>
      one_reply cors_headers
        (wfile (send_error GeolocationTestHandler_end_headers e code message h))"
    using one [of h] rejected by blast
  have part2: "list_all (closes_with cors_headers) (wfile h) \<longrightarrow>
      list_all (closes_with cors_headers) (wfile (snd (GeolocationTestHandler_handle e h))) \<and>
      (\<forall>ls. Head ls \<in> set (wfile (snd (GeolocationTestHandler_handle e h))) \<longrightarrow>
         Header ''Access-Control-Allow-Origin'' ''*'' \<in> set ls \<and>
         Header ''Access-Control-Allow-Methods'' ''GET, POST, OPTIONS'' \<in> set ls \<and>
         Header ''Access-Control-Allow-Headers'' ''Content-Type'' \<in> set ls)"
    using all carried [of "wfile (snd (GeolocationTestHandler_handle e h))"]
    by (auto simp add: cors_headers_def)
  have part3: "req_version r \<noteq> ''HTTP/0.9'' \<longrightarrow>
      (\<forall>w x. process_request GeolocationTestHandler_handle cwd e r = Handled w x \<longrightarrow>
         one_reply cors_headers w \<and>
         (\<forall>ls. Head ls \<in> set w \<longrightarrow>
            Header ''Access-Control-Allow-Origin'' ''*'' \<in> set ls \<and>
            Header ''Access-Control-Allow-Methods'' ''GET, POST, OPTIONS'' \<in> set ls \<and>
            Header ''Access-Control-Allow-Headers'' ''Content-Type'' \<in> set ls))"
    using fresh
      one_reply_closes [of cors_headers "wfile (snd (GeolocationTestHandler_handle e (new_handler cwd r)))"]
      carried [of "wfile (snd (GeolocationTestHandler_handle e (new_handler cwd r)))"]
    by (auto simp add: cors_headers_def process_request_def case_prod_beta)
  have part4: "request_version k = ''HTTP/0.9'' \<and> list_all is_body (wfile k) \<longrightarrow>
      list_all is_body (wfile (snd (GeolocationTestHandler_handle e k))) \<and>
      list_all is_body (wfile (send_error GeolocationTestHandler_end_headers e code message k))"
    using bodies bodies_rejected by blast
  from part1 part2 part3 part4 show ?thesis
    by blast
qed

theorem cors_headers_on_every_response_witness:
  "one_reply cors_headers
     (wfile (snd (GeolocationTestHandler_handle toy_env
        (new_handler ''/srv/app'' (toy_request ''GET'' ''/missing.txt'' [] [])))))
   \<and> wfile (snd (GeolocationTestHandler_handle toy_env
        (new_handler ''/srv/app'' (toy_request ''GET'' ''/missing.txt'' [] []))))
     = [Head [StatusLine 404 ''File not found'',
              Header ''Server'' ''SimpleHTTP/0.6 Python/3.11.10'',
              Header ''Date'' ''Tue, 14 Nov 2023 22:13:20 GMT'',
              Header ''Connection'' ''close'',
              Header ''Content-Type'' ''text/html;charset=utf-8'',
              Header ''Content-Length'' (str_nat (length ''<h1>File not found</h1>'')),
              Header ''Access-Control-Allow-Origin'' ''*'',
              Header ''Access-Control-Allow-Methods'' ''GET, POST, OPTIONS'',
              Header ''Access-Control-Allow-Headers'' ''Content-Type'',
              Blank],
        Body ''<h1>File not found</h1>'']
   \<and> one_reply cors_headers
         (wfile (send_error GeolocationTestHandler_end_headers toy_env 505
            ''Invalid HTTP version (2.0)''
            (new_handler ''/srv/app'' (toy_request ''GET'' ''/missing.txt'' [] []))))
   \<and> list_all is_body
         (wfile (snd (GeolocationTestHandler_handle toy_env
            (new_handler ''/srv/app''
               ((toy_request ''GET'' ''/missing.txt'' [] [])\<lparr>req_version := ''HTTP/0.9''\<rparr>)))))
   \<and> list_all is_body
         (wfile (send_error GeolocationTestHandler_end_headers toy_env 505
            ''Invalid HTTP version (2.0)''
            (new_handler ''/srv/app''
               ((toy_request ''GET'' ''/missing.txt'' [] [])\<lparr>req_version := ''HTTP/0.9''\<rparr>))))"
proof -
  let ?r = "toy_request ''GET'' ''/missing.txt'' [] []"
  let ?h = "new_handler ''/srv/app'' ?r"
  let ?k = "new_handler ''/srv/app'' (?r\<lparr>req_version := ''HTTP/0.9''\<rparr>)"
  have start: "request_version ?h \<noteq> ''HTTP/0.9'' \<and> wfile ?h = []"
    and kept: "list_all (closes_with cors_headers) (wfile ?h)"
    and fresh: "req_version ?r \<noteq> ''HTTP/0.9''"
    and old: "request_version ?k = ''HTTP/0.9'' \<and> list_all is_body (wfile ?k)"
    by simp_all
  have reply: "wfile (snd (GeolocationTestHandler_handle toy_env ?h))
     = [Head [StatusLine 404 ''File not found'',
              Header ''Server'' ''SimpleHTTP/0.6 Python/3.11.10'',
              Header ''Date'' ''Tue, 14 Nov 2023 22:13:20 GMT'',
              Header ''Connection'' ''close'',
              Header ''Content-Type'' ''text/html;charset=utf-8'',
              Header ''Content-Length'' (str_nat (length ''<h1>File not found</h1>'')),
              Header ''Access-Control-Allow-Origin'' ''*'',
              Header ''Access-Control-Allow-Methods'' ''GET, POST, OPTIONS'',
              Header ''Access-Control-Allow-Headers'' ''Content-Type'',
              Blank],
        Body ''<h1>File not found</h1>'']"
    by (simp add: GeolocationTestHandler_handle_def do_GET_def Simple_do_GET_def send_head_def
        send_file_head_def send_error_def Simple_guess_type_def endswith_def
        toy_env_def cut_query_def)
  from cors_headers_on_every_response
    [where h = ?h and k = ?k and e = toy_env and r = ?r and cwd = "''/srv/app''"
       and code = 505 and message = "''Invalid HTTP version (2.0)''"]
  have "one_reply cors_headers (wfile (snd (GeolocationTestHandler_handle toy_env ?h)))"
    and "one_reply cors_headers
           (wfile (send_error GeolocationTestHandler_end_headers toy_env 505
              ''Invalid HTTP version (2.0)'' ?h))"
    and "list_all is_body (wfile (snd (GeolocationTestHandler_handle toy_env ?k)))"
    and "list_all is_body
           (wfile (send_error GeolocationTestHandler_end_headers toy_env 505
              ''Invalid HTTP version (2.0)'' ?k))"
    using start kept fresh old by blast+
  with reply show ?thesis
    by blast
qed

text \<open>
  C4 as written, refuted. A request line without a version, \<^verbatim>\<open>GET /test\<close>, is accepted
  as \<^verbatim>\<open>HTTP/0.9\<close> and answered with the page alone: no status line and no header, so no
  CORS header. The request line \<^verbatim>\<open>GET / HTTP/2.0\<close> is rejected by the library while the
  version of the handler is still \<^verbatim>\<open>HTTP/0.9\<close>, and the error page goes out alone as
  well.
\<close>

theorem old_version_reply_without_cors_headers:
  "process_request GeolocationTestHandler_handle ''/srv/app'' toy_env
     ((toy_request ''GET'' ''/test'' [] [])\<lparr>req_version := ''HTTP/0.9''\<rparr>)
     = Handled [Body ''<html></html>''] None
   \<and> wfile (send_error GeolocationTestHandler_end_headers toy_env 505
        ''Invalid HTTP version (2.0)'' (rejected_request_line ''/srv/app''))
     = [Body ''<h1>Invalid HTTP version (2.0)</h1>'']"
proof -
  have enc: "utf8_encode (ustr_of ''<html></html>'') = ''<html></html>''"
    by (simp add: utf8_encode_def encode_cp_def ustr_of_def eval_chars)
  have page: "read_text toy_env ''geolocation-test-server.html'' = Inr (ustr_of ''<html></html>'')"
    and parsed: "urlparse_path toy_env ''/test'' = Inr ''/test''"
    and err: "error_page toy_env 505 ''Invalid HTTP version (2.0)''
              = ''<h1>Invalid HTTP version (2.0)</h1>''"
    by (simp_all add: toy_env_def cut_query_def)
  have served: "process_request GeolocationTestHandler_handle ''/srv/app'' toy_env
     ((toy_request ''GET'' ''/test'' [] [])\<lparr>req_version := ''HTTP/0.9''\<rparr>)
     = Handled [Body ''<html></html>''] None"
    by (simp add: process_request_def GeolocationTestHandler_handle_def do_GET_def
        serve_test_interface_def parsed page enc)
  have rejected: "wfile (send_error GeolocationTestHandler_end_headers toy_env 505
        ''Invalid HTTP version (2.0)'' (rejected_request_line ''/srv/app''))
     = [Body ''<h1>Invalid HTTP version (2.0)</h1>'']"
    by (simp add: send_error_def err)
  from served rejected show ?thesis
    by blast
qed

text \<open>
  C5, as amended. The \<^verbatim>\<open>end_headers\<close> override of \<^verbatim>\<open>FlutterWebHandler\<close> adds
  \<^verbatim>\<open>Cache-Control: no-cache, no-store, must-revalidate\<close>, \<^verbatim>\<open>Pragma: no-cache\<close> and
  \<^verbatim>\<open>Expires: 0\<close>. For a request of a version other than \<^verbatim>\<open>HTTP/0.9\<close>, whatever the method,
  the target and the environment, what the handler writes is a single reply: nothing at
  all (when it raises), or one header block that closes with the three headers, with
  these values, directly before the blank line and so after every other header, alone or
  followed by the body; the same holds of a reply that the library sends with
  \<^verbatim>\<open>send_error\<close>, the 404 replies among them. Every header block ever written carries the
  three headers. Under the version \<^verbatim>\<open>HTTP/0.9\<close>, which the handler also has while the
  library rejects a request line, only bodies are written: such a response carries no
  header at all.
\<close>

theorem no_cache_headers_on_every_response:
  "(request_version h \<noteq> ''HTTP/0.9'' \<and> wfile h = [] \<longrightarrow>
      one_reply no_cache_headers (wfile (snd (FlutterWebHandler_handle e h))) \<and>
      one_reply no_cache_headers
        (wfile (send_error FlutterWebHandler_end_headers e code message h))) \<and>
   (list_all (closes_with no_cache_headers) (wfile h) \<longrightarrow>
      list_all (closes_with no_cache_headers) (wfile (snd (FlutterWebHandler_handle e h))) \<and>
      (\<forall>ls. Head ls \<in> set (wfile (snd (FlutterWebHandler_handle e h))) \<longrightarrow>
         Header ''Cache-Control'' ''no-cache, no-store, must-revalidate'' \<in> set ls \<and>
         Header ''Pragma'' ''no-cache'' \<in> set ls \<and>
         Header ''Expires'' ''0'' \<in> set ls)) \<and>
   (req_version r \<noteq> ''HTTP/0.9'' \<longrightarrow>
      (\<forall>w x. process_request FlutterWebHandler_handle cwd e r = Handled w x \<longrightarrow>
         one_reply no_cache_headers w \<and>
         (\<forall>ls. Head ls \<in> set w \<longrightarrow>
            Header ''Cache-Control'' ''no-cache, no-store, must-revalidate'' \<in> set ls \<and>
            Header ''Pragma'' ''no-cache'' \<in> set ls \<and>
            Header ''Expires'' ''0'' \<in> set ls))) \<and>
   (request_version k = ''HTTP/0.9'' \<and> list_all is_body (wfile k) \<longrightarrow>
      list_all is_body (wfile (snd (FlutterWebHandler_handle e k))) \<and>
      list_all is_body
        (wfile (send_error FlutterWebHandler_end_headers e code message k)))"
proof -
  have carried: "set no_cache_headers \<subseteq> set ls"
    if "list_all (closes_with no_cache_headers) w" and "Head ls \<in> set w" for w ls
  proof -
    from that have "closes_with no_cache_headers (Head ls)"
      unfolding list_all_iff by blast
    then show ?thesis
      by (rule closes_with_carries)
  qed
  have one: "one_reply no_cache_headers (wfile (snd (FlutterWebHandler_handle e h')))"
    if "request_version h' \<noteq> ''HTTP/0.9''" and "wfile h' = []" for h'
    using that by (rule Flutter_handle_one)
  have rejected: "one_reply no_cache_headers
      (wfile (send_error FlutterWebHandler_end_headers e code message h))"
    if "request_version h \<noteq> ''HTTP/0.9''" and "wfile h = []"
    using Flutter_hook that by (rule send_error_one)
  have all: "list_all (closes_with no_cache_headers) (wfile (snd (FlutterWebHandler_handle e h)))"
    if "list_all (closes_with no_cache_headers) (wfile h)"
    using that by (rule Flutter_handle_closes)
  have fresh: "one_reply no_cache_headers (wfile (snd (FlutterWebHandler_handle e (new_handler cwd r))))"
    if "req_version r \<noteq> ''HTTP/0.9''"
    using that by (intro one) simp_all
  have bodies: "list_all is_body (wfile (snd (FlutterWebHandler_handle e k)))"
    and bodies_rejected:
      "list_all is_body (wfile (send_error FlutterWebHandler_end_headers e code message k))"
    if "request_version k = ''HTTP/0.9''" and "list_all is_body (wfile k)"
    using that Flutter_handle_bodies [of k e]
      send_error_bodies [OF Flutter_hook, of k e code message]
    by simp_all
  have part1: "request_version h \<noteq> ''HTTP/0.9'' \<and> wfile h = [] \<longrightarrow>
      one_reply no_cache_headers (wfile (snd (FlutterWebHandler_handle e h))) \<and>
      one_reply no_cache_headers
        (wfile (send_error FlutterWebHandler_end_headers e code message h))"
    using one [of h] rejected by blast
  have part2: "list_all (closes_with no_cache_headers) (wfile h) \<longrightarrow>
      list_all (closes_with no_cache_headers) (wfile (snd (FlutterWebHandler_handle e h))) \<and>
      (\<forall>ls. Head ls \<in> set (wfile (snd (FlutterWebHandler_handle e h))) \<longrightarrow>
         Header ''Cache-Control'' ''no-cache, no-store, must-revalidate'' \<in> set ls \<and>
         Header ''Pragma'' ''no-cache'' \<in> set ls \<and>
         Header ''Expires'' ''0'' \<in> set ls)"
    using all carried [of "wfile (snd (FlutterWebHandler_handle e h))"]
    by (auto simp add: no_cache_headers_def)
  have part3: "req_version r \<noteq> ''HTTP/0.9'' \<longrightarrow>
      (\<forall>w x. process_request FlutterWebHandler_handle cwd e r = Handled w x \<longrightarrow>
         one_reply no_cache_headers w \<and>
         (\<forall>ls. Head ls \<in> set w \<longrightarrow>
            Header ''Cache-Control'' ''no-cache, no-store, must-revalidate'' \<in> set ls \<and>
            Header ''Pragma'' ''no-cache'' \<in> set ls \<and>
            Header ''Expires'' ''0'' \<in> set ls))"
    using fresh
      one_reply_closes [of no_cache_headers "wfile (snd (FlutterWebHandler_handle e (new_handler cwd r)))"]
      carried [of "wfile (snd (FlutterWebHandler_handle e (new_handler cwd r)))"]
    by (auto simp add: no_cache_headers_def process_request_def case_prod_beta)
  have part4: "request_version k = ''HTTP/0.9'' \<and> list_all is_body (wfile k) \<longrightarrow>
      list_all is_body (wfile (snd (FlutterWebHandler_handle e k))) \<and>
      list_all is_body (wfile (send_error FlutterWebHandler_end_headers e code message k))"
    using bodies bodies_rejected by blast
  from part1 part2 part3 part4 show ?thesis
    by blast
qed

theorem no_cache_headers_on_every_response_witness:
  "one_reply no_cache_headers
     (wfile (snd (FlutterWebHandler_handle (toy_env\<lparr>listdir_page := \<lambda>p shown. None\<rparr>)
        (new_handler ''/srv/app'' (toy_request ''GET'' ''/'' [] [])))))
   \<and> wfile (snd (FlutterWebHandler_handle (toy_env\<lparr>listdir_page := \<lambda>p shown. None\<rparr>)
        (new_handler ''/srv/app'' (toy_request ''GET'' ''/'' [] []))))
     = [Head [StatusLine 404 ''No permission to list directory'',
              Header ''Server'' ''SimpleHTTP/0.6 Python/3.11.10'',
              Header ''Date'' ''Tue, 14 Nov 2023 22:13:20 GMT'',
              Header ''Connection'' ''close'',
              Header ''Content-Type'' ''text/html;charset=utf-8'',
              Header ''Content-Length''
                (str_nat (length ''<h1>No permission to list directory</h1>'')),
              Header ''Cache-Control'' ''no-cache, no-store, must-revalidate'',
              Header ''Pragma'' ''no-cache'',
              Header ''Expires'' ''0'',
              Blank],
        Body ''<h1>No permission to list directory</h1>'']
   \<and> one_reply no_cache_headers
         (wfile (send_error FlutterWebHandler_end_headers
            (toy_env\<lparr>listdir_page := \<lambda>p shown. None\<rparr>) 505 ''Invalid HTTP version (2.0)''
            (new_handler ''/srv/app'' (toy_request ''GET'' ''/'' [] []))))
   \<and> list_all is_body
         (wfile (snd (FlutterWebHandler_handle (toy_env\<lparr>listdir_page := \<lambda>p shown. None\<rparr>)
            (new_handler ''/srv/app''
               ((toy_request ''GET'' ''/'' [] [])\<lparr>req_version := ''HTTP/0.9''\<rparr>)))))
   \<and> list_all is_body
         (wfile (send_error FlutterWebHandler_end_headers
            (toy_env\<lparr>listdir_page := \<lambda>p shown. None\<rparr>) 505 ''Invalid HTTP version (2.0)''
            (new_handler ''/srv/app''
               ((toy_request ''GET'' ''/'' [] [])\<lparr>req_version := ''HTTP/0.9''\<rparr>))))"
proof -
  let ?e = "toy_env\<lparr>listdir_page := \<lambda>p shown. None\<rparr>"
  let ?r = "toy_request ''GET'' ''/'' [] []"
  let ?h = "new_handler ''/srv/app'' ?r"
  let ?k = "new_handler ''/srv/app'' (?r\<lparr>req_version := ''HTTP/0.9''\<rparr>)"
  have start: "request_version ?h \<noteq> ''HTTP/0.9'' \<and> wfile ?h = []"
    and kept: "list_all (closes_with no_cache_headers) (wfile ?h)"
    and fresh: "req_version ?r \<noteq> ''HTTP/0.9''"
    and old: "request_version ?k = ''HTTP/0.9'' \<and> list_all is_body (wfile ?k)"
    by simp_all
  have reply: "wfile (snd (FlutterWebHandler_handle ?e ?h))
     = [Head [StatusLine 404 ''No permission to list directory'',
              Header ''Server'' ''SimpleHTTP/0.6 Python/3.11.10'',
              Header ''Date'' ''Tue, 14 Nov 2023 22:13:20 GMT'',
              Header ''Connection'' ''close'',
              Header ''Content-Type'' ''text/html;charset=utf-8'',
              Header ''Content-Length''
                (str_nat (length ''<h1>No permission to list directory</h1>'')),
              Header ''Cache-Control'' ''no-cache, no-store, must-revalidate'',
              Header ''Pragma'' ''no-cache'',
              Header ''Expires'' ''0'',
              Blank],
        Body ''<h1>No permission to list directory</h1>'']"
    by (simp add: FlutterWebHandler_handle_def Simple_do_GET_def send_head_def
        list_directory_def send_error_def endswith_def toy_env_def cut_query_def)
  from no_cache_headers_on_every_response
    [where h = ?h and k = ?k and e = ?e and r = ?r and cwd = "''/srv/app''"
       and code = 505 and message = "''Invalid HTTP version (2.0)''"]
  have "one_reply no_cache_headers (wfile (snd (FlutterWebHandler_handle ?e ?h)))"
    and "one_reply no_cache_headers
           (wfile (send_error FlutterWebHandler_end_headers ?e 505
              ''Invalid HTTP version (2.0)'' ?h))"
    and "list_all is_body (wfile (snd (FlutterWebHandler_handle ?e ?k)))"
    and "list_all is_body
           (wfile (send_error FlutterWebHandler_end_headers ?e 505
              ''Invalid HTTP version (2.0)'' ?k))"
    using start kept fresh old by blast+
  with reply show ?thesis
    by blast
qed

text \<open>
  C5 as written, refuted. A request line without a version, \<^verbatim>\<open>GET /\<close>, is accepted as
  \<^verbatim>\<open>HTTP/0.9\<close> and answered with the directory listing alone: no status line and no
  header, so none of the three cache headers. The request line \<^verbatim>\<open>GET / HTTP/2.0\<close> is
  rejected by the library while the version of the handler is still \<^verbatim>\<open>HTTP/0.9\<close>, and
  the error page goes out alone as well.
\<close>

theorem old_version_reply_without_no_cache_headers:
  "process_request FlutterWebHandler_handle ''/srv/app'' toy_env
     ((toy_request ''GET'' ''/'' [] [])\<lparr>req_version := ''HTTP/0.9''\<rparr>)
     = Handled [Body ''<ul></ul>''] None
   \<and> wfile (send_error FlutterWebHandler_end_headers toy_env 505
        ''Invalid HTTP version (2.0)'' (rejected_request_line ''/srv/app''))
     = [Body ''<h1>Invalid HTTP version (2.0)</h1>'']"
proof -
  have err: "error_page toy_env 505 ''Invalid HTTP version (2.0)''
              = ''<h1>Invalid HTTP version (2.0)</h1>''"
    by (simp add: toy_env_def)
  have served: "process_request FlutterWebHandler_handle ''/srv/app'' toy_env
     ((toy_request ''GET'' ''/'' [] [])\<lparr>req_version := ''HTTP/0.9''\<rparr>)
     = Handled [Body ''<ul></ul>''] None"
    by (simp add: process_request_def FlutterWebHandler_handle_def Simple_do_GET_def
        send_head_def list_directory_def endswith_def path_join_def toy_env_def cut_query_def)
  have rejected: "wfile (send_error FlutterWebHandler_end_headers toy_env 505
        ''Invalid HTTP version (2.0)'' (rejected_request_line ''/srv/app''))
     = [Body ''<h1>Invalid HTTP version (2.0)</h1>'']"
    by (simp add: send_error_def err)
  from served rejected show ?thesis
    by blast
qed

section \<open>Content types of the static web server\<close>

text \<open>
  C6. The claim says that \<^verbatim>\<open>guess_type\<close> returns \<^verbatim>\<open>application/javascript\<close>,
  \<^verbatim>\<open>application/wasm\<close> or \<^verbatim>\<open>application/json\<close> by suffix and the library's guess
  otherwise. The method does not get that far: the library's \<^verbatim>\<open>guess_type\<close> returns one
  string, and unpacking it into two names raises \<open>ValueError\<close> unless the string has
  exactly two characters, which no MIME type has. The suffix of the path plays no part.
\<close>

theorem guess_type_raises_ValueError:
  assumes "length (Simple_guess_type e p) \<noteq> 2"
  shows "guess_type e p = Inl ValueError"
proof -
  have "unpack2 s = Inl ValueError" if "length s \<noteq> 2" for s
    using that by (cases s rule: unpack2.cases) simp_all
  with assms show ?thesis
    by (simp add: guess_type_def)
qed

theorem guess_type_raises_ValueError_witness:
  "guess_type toy_env ''/srv/app/main.dart.js'' = Inl ValueError
   \<and> endswith ''/srv/app/main.dart.js'' ''.js''
   \<and> process_request FlutterWebHandler_handle ''/srv/app'' toy_env
         (toy_request ''GET'' ''/main.dart.js'' [] [])
       = Handled [] (Some ValueError)"
proof -
  have js: "endswith ''/srv/app/main.dart.js'' ''.js''"
    by (simp add: endswith_def)
  have len: "length (Simple_guess_type toy_env ''/srv/app/main.dart.js'') \<noteq> 2"
    using js by (simp add: Simple_guess_type_def toy_env_def)
  have raised: "guess_type toy_env ''/srv/app/main.dart.js'' = Inl ValueError"
    using guess_type_raises_ValueError [OF len] .
  have "process_request FlutterWebHandler_handle ''/srv/app'' toy_env
         (toy_request ''GET'' ''/main.dart.js'' [] [])
       = Handled [] (Some ValueError)"
    using raised
    by (simp add: process_request_def FlutterWebHandler_handle_def Simple_do_GET_def
        send_head_def send_file_head_def toy_env_def cut_query_def)
  with js raised show ?thesis
    by simp
qed


section \<open>Startup\<close>

lemma serve_forever_requests:
  "serve_forever handle cwd (map (\<lambda>(e, r). Request e r) reqs) =
     (map (\<lambda>(e, r). process_request handle cwd e r) reqs, False)"
  by (induction reqs) (simp_all add: case_prod_beta)



text \<open>
  C8, as amended. Once the working directory is set and the port is bound, whatever
  \<^verbatim>\<open>webbrowser.open\<close> returns, \<open>True\<close> for a launched browser or \<open>False\<close> for none,
  is dropped and \<^verbatim>\<open>start_server\<close> goes on to answer every request. The call is not
  guarded: when it raises, the server is closed and \<^verbatim>\<open>start_server\<close> ends with that
  exception, without serving.
\<close>

theorem start_server_browser_launch:
  assumes "chdir os (file_abs_dirname os) = Inr cwd"
    and "tcp_bind os HOST PORT = None"
  shows "(webbrowser_open os base_url = Inr launched \<longrightarrow>
            start_server os (map (\<lambda>(e, r). Request e r) reqs) =
              (banner @ [ChangedDir cwd, Bound HOST PORT, OpenedBrowser base_url]
                 @ map (\<lambda>(e, r). process_request GeolocationTestHandler_handle cwd e r) reqs,
               Serving)) \<and>
         (webbrowser_open os base_url = Inl x \<longrightarrow>
            start_server os inputs =
              (banner @ [ChangedDir cwd, Bound HOST PORT, OpenedBrowser base_url, ServerClosed],
               Crashed x))"
  using assms
  by (simp add: start_server_def serve_forever_requests)

theorem start_server_browser_launch_witness:
  "start_server toy_os [Request toy_env (toy_request ''POST'' ''/api/other'' [] [])]
   = (banner @ [ChangedDir ''/srv/app'', Bound HOST PORT, OpenedBrowser base_url,
                Handled [] None],
      Serving)
   \<and> webbrowser_open toy_os base_url = Inr False
   \<and> start_server (toy_os\<lparr>webbrowser_open := \<lambda>url. Inr True\<rparr>)
        [Request toy_env (toy_request ''POST'' ''/api/other'' [] [])]
   = (banner @ [ChangedDir ''/srv/app'', Bound HOST PORT, OpenedBrowser base_url,
                Handled [] None],
      Serving)"
proof -
  have other: "process_request GeolocationTestHandler_handle ''/srv/app'' toy_env
                 (toy_request ''POST'' ''/api/other'' [] []) = Handled [] None"
    by (simp add: process_request_def GeolocationTestHandler_handle_def do_POST_def)
  have none: "webbrowser_open toy_os base_url = Inr False"
    and some: "webbrowser_open (toy_os\<lparr>webbrowser_open := \<lambda>url. Inr True\<rparr>) base_url = Inr True"
    by (simp_all add: toy_os_def)
  have ready: "chdir toy_os (file_abs_dirname toy_os) = Inr ''/srv/app''"
    "tcp_bind toy_os HOST PORT = None"
    "chdir (toy_os\<lparr>webbrowser_open := \<lambda>url. Inr True\<rparr>)
       (file_abs_dirname (toy_os\<lparr>webbrowser_open := \<lambda>url. Inr True\<rparr>)) = Inr ''/srv/app''"
    "tcp_bind (toy_os\<lparr>webbrowser_open := \<lambda>url. Inr True\<rparr>) HOST PORT = None"
    by (simp_all add: toy_os_def)
  show ?thesis
    using start_server_browser_launch
      [OF ready(1) ready(2), where launched = False
         and reqs = "[(toy_env, toy_request ''POST'' ''/api/other'' [] [])]"]
      start_server_browser_launch
      [OF ready(3) ready(4), where launched = True
         and reqs = "[(toy_env, toy_request ''POST'' ''/api/other'' [] [])]"]
      none some
    by (simp add: other)
qed

text \<open>
  The claim as stated fails: with a launcher that raises (\<^verbatim>\<open>webbrowser.Error\<close>, say),
  \<^verbatim>\<open>start_server\<close> ends with the exception and the waiting request is never handled.
\<close>

theorem browser_launch_exception_stops_startup:
  "start_server
     (toy_os\<lparr>webbrowser_open := \<lambda>url. Inl (OtherError ''webbrowser.Error'')\<rparr>)
     [Request toy_env (toy_request ''GET'' ''/api/weather'' [] [])]
   = (banner @ [ChangedDir ''/srv/app'', Bound HOST PORT, OpenedBrowser base_url, ServerClosed],
      Crashed (OtherError ''webbrowser.Error''))"
  by (simp add: start_server_def toy_os_def)


end
